theory Spec2Isabelle
  imports Main
begin

section \<open>Numbers as the script uses them\<close>

text \<open>
  The script works on JavaScript numbers.  Every number that reaches the functions
  embedded here is an integer of small magnitude (calendar fields, minutes, steps), on
  which the double arithmetic of the platform is exact, so they are embedded as
  \<^typ>\<open>int\<close>.  The remainder operator \<^verbatim>\<open>%\<close> truncates towards zero: its result
  carries the sign of the dividend.
\<close>

definition js_rem :: "int \<Rightarrow> int \<Rightarrow> int" where
  "js_rem a b = sgn a * (\<bar>a\<bar> mod \<bar>b\<bar>)"

text \<open>
  \<^verbatim>\<open>
  function clampMinuteToStep(minute, step) {
    var m = Number(minute);
    var s = Number(step) || 5;
    if (s <= 0) return m;
    var down = Math.floor(m / s) * s;
    var up = Math.ceil(m / s) * s;
    if (Math.abs(m - down) <= Math.abs(up - m)) return down % 60;
    return up % 60;
  }
  \<close>
  \<^verbatim>\<open>Number(step) || 5\<close> replaces a step of 0 by 5 (0 is falsy).  For a positive
  divisor, \<^verbatim>\<open>Math.floor(m / s)\<close> is \<^term>\<open>m div s\<close> and \<^verbatim>\<open>Math.ceil(m / s)\<close> is
  \<^term>\<open>- ((- m) div s)\<close>.
\<close>

definition clampMinuteToStep :: "int \<Rightarrow> int \<Rightarrow> int" where
  "clampMinuteToStep minute step =
     (let m = minute;
          s = (if step = 0 then 5 else step)
      in if s \<le> 0 then m
         else let down = (m div s) * s;
                  up = (- ((- m) div s)) * s
              in if \<bar>m - down\<bar> \<le> \<bar>up - m\<bar> then js_rem down 60 else js_rem up 60)"

section \<open>Calendar values of the platform\<close>

text \<open>
  A \<^verbatim>\<open>Date\<close> object is embedded by its local calendar fields, at the resolution of
  a minute (every \<^verbatim>\<open>Date\<close> the script builds itself has zero seconds and milliseconds).
  The field names are those of the accessors; \<open>getMonth\<close> counts from 0.  The local time
  zone is taken to have a fixed offset, so that local fields and time values correspond
  one to one.  A value of this type is a valid date (\<^verbatim>\<open>isValidDate\<close> holds);
  \<^verbatim>\<open>null\<close> and the invalid date are \<^term>\<open>None\<close> of \<^typ>\<open>'a option\<close>.
\<close>

record date =
  getFullYear :: int
  getMonth :: int
  getDate :: int
  getHours :: int
  getMinutes :: int

definition leap_year :: "int \<Rightarrow> bool" where
  "leap_year y = ((y mod 4 = 0 \<and> y mod 100 \<noteq> 0) \<or> y mod 400 = 0)"

definition days_in_month :: "int \<Rightarrow> int \<Rightarrow> int" where
  "days_in_month y m =
     (if m = 1 then (if leap_year y then 29 else 28)
      else if m = 3 \<or> m = 5 \<or> m = 8 \<or> m = 10 then 30 else 31)"

definition next_month :: "int \<Rightarrow> int \<Rightarrow> int \<times> int" where
  "next_month y m = (if m \<ge> 11 then (y + 1, 0) else (y, m + 1))"

definition prev_month :: "int \<Rightarrow> int \<Rightarrow> int \<times> int" where
  "prev_month y m = (if m \<le> 0 then (y - 1, 11) else (y, m - 1))"

text \<open>
  A day-of-month outside the month carries into the neighbouring months, as the
  platform's \<^verbatim>\<open>MakeDay\<close> does by adding \<open>date - 1\<close> to the day number of the first of
  the month.
\<close>

function norm_day :: "int \<Rightarrow> int \<Rightarrow> int \<Rightarrow> int \<times> int \<times> int" where
  "norm_day y m d =
     (if d < 1 then
        (case prev_month y m of (y', m') \<Rightarrow> norm_day y' m' (d + days_in_month y' m'))
      else if d > days_in_month y m then
        (case next_month y m of (y', m') \<Rightarrow> norm_day y' m' (d - days_in_month y m))
      else (y, m, d))"
  by pat_completeness auto
termination
  by (relation "measure (\<lambda>(y, m, d). nat (if d < 1 then 32 - d else d))")
     (auto simp: days_in_month_def)

declare norm_day.simps [simp del]

text \<open>
  \<^verbatim>\<open>new Date(year, monthIndex, day, hours, minutes)\<close>: a year from 0 to 99 means
  1900 + year; the month carries into the year, the minutes into the hours, the hours
  into the day, and the day into the month.
\<close>

definition mkDate :: "int \<Rightarrow> int \<Rightarrow> int \<Rightarrow> int \<Rightarrow> int \<Rightarrow> date" where
  "mkDate y m d h mi =
     (let yr = (if 0 \<le> y \<and> y \<le> 99 then 1900 + y else y);
          ym = yr * 12 + m;
          total = h * 60 + mi
      in case norm_day (ym div 12) (ym mod 12) (d + total div 1440) of
           (y', m', d') \<Rightarrow>
             \<lparr>getFullYear = y', getMonth = m', getDate = d',
              getHours = (total mod 1440) div 60, getMinutes = total mod 60\<rparr>)"

text \<open>
  The time value, in minutes, after the platform's \<^verbatim>\<open>DayFromYear\<close>, and the day of
  the week after \<^verbatim>\<open>WeekDay\<close> (0 is Sunday).  \<^verbatim>\<open>Date\<close> objects compare by time value.
\<close>

definition day_from_year :: "int \<Rightarrow> int" where
  "day_from_year y =
     365 * (y - 1970) + (y - 1969) div 4 - (y - 1901) div 100 + (y - 1601) div 400"

definition days_before_month :: "int \<Rightarrow> int \<Rightarrow> int" where
  "days_before_month y m =
     (if m \<le> 0 then 0 else
        [31, 59, 90, 120, 151, 181, 212, 243, 273, 304, 334] ! nat (min m 11 - 1)
        + (if leap_year y \<and> m \<ge> 2 then 1 else 0))"

definition day_number :: "date \<Rightarrow> int" where
  "day_number d =
     day_from_year (getFullYear d) + days_before_month (getFullYear d) (getMonth d)
     + (getDate d - 1)"

definition getTime :: "date \<Rightarrow> int" where
  "getTime d = (day_number d * 24 + getHours d) * 60 + getMinutes d"

definition getDay :: "date \<Rightarrow> int" where
  "getDay d = (day_number d + 4) mod 7"

text \<open>
  \<^verbatim>\<open>
  function startOfDay(localDate) {
    return new Date(localDate.getFullYear(), localDate.getMonth(), localDate.getDate());
  }
  function areSameCalendarDate(a, b) {
    if (!isValidDate(a) || !isValidDate(b)) return false;
    return (a.getFullYear() === b.getFullYear() && a.getMonth() === b.getMonth() &&
            a.getDate() === b.getDate());
  }
  function addDays(baseDate, days) {
    const d = new Date(baseDate.getFullYear(), baseDate.getMonth(), baseDate.getDate());
    d.setDate(d.getDate() + days);
    return d;
  }
  function addMonths(baseDate, months) {
    const d = new Date(baseDate.getFullYear(), baseDate.getMonth(), 1);
    d.setMonth(d.getMonth() + months);
    return d;
  }
  function startOfMonth(date) { return new Date(date.getFullYear(), date.getMonth(), 1); }
  function startOfWeek(date, firstDayOfWeek) {
    const day = date.getDay();
    const diff = (day - firstDayOfWeek + 7) % 7;
    return addDays(date, -diff);
  }
  \<close>
  \<^verbatim>\<open>setDate\<close> and \<^verbatim>\<open>setMonth\<close> renormalise the fields without the two-digit-year rule
  of the constructor.
\<close>

definition startOfDay :: "date \<Rightarrow> date" where
  "startOfDay localDate = mkDate (getFullYear localDate) (getMonth localDate) (getDate localDate) 0 0"

definition areSameCalendarDate :: "date \<Rightarrow> date \<Rightarrow> bool" where
  "areSameCalendarDate a b =
     (getFullYear a = getFullYear b \<and> getMonth a = getMonth b \<and> getDate a = getDate b)"

definition setDateField :: "date \<Rightarrow> int \<Rightarrow> date" where
  "setDateField d n =
     (case norm_day (getFullYear d) (getMonth d) n of
        (y', m', d') \<Rightarrow> d\<lparr>getFullYear := y', getMonth := m', getDate := d'\<rparr>)"

definition setMonthField :: "date \<Rightarrow> int \<Rightarrow> date" where
  "setMonthField d n =
     (let ym = getFullYear d * 12 + n
      in case norm_day (ym div 12) (ym mod 12) (getDate d) of
           (y', m', d') \<Rightarrow> d\<lparr>getFullYear := y', getMonth := m', getDate := d'\<rparr>)"

definition addDays :: "date \<Rightarrow> int \<Rightarrow> date" where
  "addDays baseDate days =
     (let d = mkDate (getFullYear baseDate) (getMonth baseDate) (getDate baseDate) 0 0
      in setDateField d (getDate d + days))"

definition addMonths :: "date \<Rightarrow> int \<Rightarrow> date" where
  "addMonths baseDate months =
     (let d = mkDate (getFullYear baseDate) (getMonth baseDate) 1 0 0
      in setMonthField d (getMonth d + months))"

definition startOfMonth :: "date \<Rightarrow> date" where
  "startOfMonth d = mkDate (getFullYear d) (getMonth d) 1 0 0"

definition startOfWeek :: "date \<Rightarrow> int \<Rightarrow> date" where
  "startOfWeek d firstDayOfWeek =
     (let dy = getDay d;
          diff = js_rem (dy - firstDayOfWeek + 7) 7
      in addDays d (- diff))"

text \<open>
  \<^verbatim>\<open>
  function isDateOutOfBounds(date, minDate, maxDate) {
    if (!isValidDate(date)) return true;
    if (isValidDate(minDate) && date < minDate) return true;
    if (isValidDate(maxDate) && date > maxDate) return true;
    return false;
  }
  \<close>
\<close>

definition isDateOutOfBounds :: "date \<Rightarrow> date option \<Rightarrow> date option \<Rightarrow> bool" where
  "isDateOutOfBounds d minDate maxDate =
     (if (case minDate of None \<Rightarrow> False | Some mn \<Rightarrow> getTime d < getTime mn) then True
      else if (case maxDate of None \<Rightarrow> False | Some mx \<Rightarrow> getTime d > getTime mx) then True
      else False)"

section \<open>Strings\<close>

text \<open>
  Strings are lists of characters; the characters of the embedding are the code units
  from 0 to 255.  \<^verbatim>\<open>String(n)\<close> of an integer is its decimal
  numeral, \<^verbatim>\<open>Number(s)\<close> of a string of decimal digits is its value; the regular
  expression classes \<^verbatim>\<open>\d\<close> and \<^verbatim>\<open>\w\<close> are the ASCII digits and the ASCII letters,
  digits and underscore.
\<close>

definition is_digit :: "char \<Rightarrow> bool" where
  "is_digit c = (c \<in> set ''0123456789'')"

definition is_word_char :: "char \<Rightarrow> bool" where
  "is_word_char c =
     (c \<in> set ''abcdefghijklmnopqrstuvwxyzABCDEFGHIJKLMNOPQRSTUVWXYZ0123456789_'')"

definition digit_char :: "nat \<Rightarrow> char" where
  "digit_char n = ''0123456789'' ! (n mod 10)"

definition digit_val :: "char \<Rightarrow> int" where
  "digit_val c = int (of_char c) - 48"

fun show_nat :: "nat \<Rightarrow> string" where
  "show_nat n = (if n < 10 then [digit_char n] else show_nat (n div 10) @ [digit_char n])"

declare show_nat.simps [simp del]

definition js_String :: "int \<Rightarrow> string" where
  "js_String i = (if i < 0 then CHR ''-'' # show_nat (nat (- i)) else show_nat (nat i))"

definition js_Number :: "string \<Rightarrow> int" where
  "js_Number s = foldl (\<lambda>acc c. 10 * acc + digit_val c) 0 s"

definition padStart :: "string \<Rightarrow> nat \<Rightarrow> char \<Rightarrow> string" where
  "padStart s n c = replicate (n - length s) c @ s"

text \<open>
  \<^verbatim>\<open>
  function padStartNumber(value, length) {
    return String(value).padStart(length, '0');
  }
  \<close>
\<close>

definition padStartNumber :: "int \<Rightarrow> nat \<Rightarrow> string" where
  "padStartNumber v n = padStart (js_String v) n (CHR ''0'')"

text \<open>
  \<^verbatim>\<open>s.replace(/pat/g, rep)\<close> for a pattern of literal characters: the matches are
  found from left to right and do not overlap; the replacement is not searched again.
\<close>

function replace_all :: "string \<Rightarrow> string \<Rightarrow> string \<Rightarrow> string" where
  "replace_all pat rep s =
     (case s of
        [] \<Rightarrow> []
      | c # cs \<Rightarrow>
          if pat \<noteq> [] \<and> take (length pat) s = pat
          then rep @ replace_all pat rep (drop (length pat) s)
          else c # replace_all pat rep cs)"
  by pat_completeness auto
termination
  by (relation "measure (\<lambda>(pat, rep, s). length s)") auto

declare replace_all.simps [simp del]

text \<open>
  \<^verbatim>\<open>s.replace(/\ba\b/g, rep)\<close>: an \<open>a\<close> is replaced when the character before it (in
  the string searched) and the character after it are not word characters.  The flag
  says whether the character before the rest is a word character.
\<close>

fun replace_a_word :: "string \<Rightarrow> bool \<Rightarrow> string \<Rightarrow> string" where
  "replace_a_word rep pw [] = []"
| "replace_a_word rep pw (c # cs) =
     (if c = CHR ''a'' \<and> \<not> pw \<and> \<not> (case cs of [] \<Rightarrow> False | n # _ \<Rightarrow> is_word_char n)
      then rep @ replace_a_word rep True cs
      else c # replace_a_word rep (is_word_char c) cs)"

section \<open>Formatting\<close>

text \<open>
  \<^verbatim>\<open>
  function formatDate(date, formatString) {
    if (!isValidDate(date)) return '';
    const yyyy = date.getFullYear();
    const MM = padStartNumber(date.getMonth() + 1, 2);
    const dd = padStartNumber(date.getDate(), 2);
    const hours24 = date.getHours ? date.getHours() : 0;
    const HH = padStartNumber(hours24, 2);
    const h12Raw = hours24 % 12; // 0..11
    const h12Val = h12Raw === 0 ? 12 : h12Raw; // 1..12
    const hh = padStartNumber(h12Val, 2);
    const a = hours24 >= 12 ? 'PM' : 'AM';
    const mm = padStartNumber(date.getMinutes ? date.getMinutes() : 0, 2);
    return String(formatString)
      .replace(/yyyy/g, String(yyyy))
      .replace(/MM/g, MM)
      .replace(/dd/g, dd)
      .replace(/HH/g, HH)
      .replace(/hh/g, hh)
      .replace(/mm/g, mm)
      .replace(/\ba\b/g, a);
  }
  \<close>
  A value of type \<^typ>\<open>date\<close> is a valid date, so the first line does not return.
\<close>

definition formatDate :: "date \<Rightarrow> string \<Rightarrow> string" where
  "formatDate d formatString =
     (let yyyy = getFullYear d;
          MM = padStartNumber (getMonth d + 1) 2;
          dd = padStartNumber (getDate d) 2;
          hours24 = getHours d;
          HH = padStartNumber hours24 2;
          h12Raw = js_rem hours24 12;
          h12Val = (if h12Raw = 0 then 12 else h12Raw);
          hh = padStartNumber h12Val 2;
          a = (if hours24 \<ge> 12 then ''PM'' else ''AM'');
          mm = padStartNumber (getMinutes d) 2
      in replace_a_word a False
           (replace_all ''mm'' mm
             (replace_all ''hh'' hh
               (replace_all ''HH'' HH
                 (replace_all ''dd'' dd
                   (replace_all ''MM'' MM
                     (replace_all ''yyyy'' (js_String yyyy) formatString)))))))"

section \<open>Parsing\<close>

text \<open>
  \<^verbatim>\<open>parseDate\<close> turns the format string into the source of a regular expression by
  replacing each token by a named capturing group, in a fixed order, and matches the
  whole value against it.  The source under construction is embedded as a list of
  pieces: a character of the format string, or a whole group.  No later replacement can
  match inside the text of a group put in earlier or across its ends (the texts hold no
  \<open>MM\<close>, \<open>dd\<close>, \<open>HH\<close>, \<open>hh\<close> or \<open>mm\<close>, their only \<open>a\<close> follow a letter, and they begin with
  \<open>(\<close> and end with \<open>)\<close>), so the pieces are replaced as the string is.
\<close>

datatype grp = GYear | GMonth | GDay | GHour24 | GHour12 | GMinute | GAmpm

datatype piece = Chr char | Grp grp

function replace_tok :: "string \<Rightarrow> grp \<Rightarrow> piece list \<Rightarrow> piece list" where
  "replace_tok pat g ps =
     (case ps of
        [] \<Rightarrow> []
      | p # rest \<Rightarrow>
          if pat \<noteq> [] \<and> take (length pat) ps = map Chr pat
          then Grp g # replace_tok pat g (drop (length pat) ps)
          else p # replace_tok pat g rest)"
  by pat_completeness auto
termination
  by (relation "measure (\<lambda>(pat, g, ps). length ps)") auto

declare replace_tok.simps [simp del]

text \<open>
  \<^verbatim>\<open>.replace(/\ba/g, '(?<ampm>AM|PM|am|pm)')\<close>: an \<open>a\<close> is replaced when the character
  before it is not a word character; the text of a group ends with \<open>)\<close>.
\<close>

fun replace_a_start :: "bool \<Rightarrow> piece list \<Rightarrow> piece list" where
  "replace_a_start pw [] = []"
| "replace_a_start pw (Grp g # ps) = Grp g # replace_a_start False ps"
| "replace_a_start pw (Chr c # ps) =
     (if c = CHR ''a'' \<and> \<not> pw then Grp GAmpm # replace_a_start True ps
      else Chr c # replace_a_start (is_word_char c) ps)"

text \<open>
  The exceptions of the platform that the script can run into are \<^verbatim>\<open>SyntaxError\<close> (from
  the constructor of regular expressions) and \<^verbatim>\<open>NotFoundError\<close> (from \<^verbatim>\<open>insertBefore\<close>, see
  \<^verbatim>\<open>updateOptions\<close> below).

  What \<^verbatim>\<open>new RegExp('^' + esc + '$')\<close> makes of the pieces.  A group name used twice
  is a \<^verbatim>\<open>SyntaxError\<close>.  A character of the format string stands for itself unless it
  is a metacharacter of the pattern language; of those only the dot (any character but
  a line terminator) is embedded, and a format string with another one is outside the
  embedding.
\<close>

datatype fault = SyntaxError | NotFoundError | OutsideEmbedding

datatype rx = Lit char | AnyChar | Capture grp

definition is_meta :: "char \<Rightarrow> bool" where
  "is_meta c = (c \<in> set [CHR 0x5C, CHR ''^'', CHR ''$'', CHR ''*'', CHR ''+'', CHR ''?'',
     CHR ''('', CHR '')'', CHR ''['', CHR '']'', CHR ''{'', CHR ''}'', CHR ''|''])"

fun groups_of :: "piece list \<Rightarrow> grp list" where
  "groups_of [] = []"
| "groups_of (Grp g # ps) = g # groups_of ps"
| "groups_of (Chr c # ps) = groups_of ps"

fun rx_of_piece :: "piece \<Rightarrow> rx" where
  "rx_of_piece (Grp g) = Capture g"
| "rx_of_piece (Chr c) = (if c = CHR ''.'' then AnyChar else Lit c)"

definition compile :: "piece list \<Rightarrow> fault + rx list" where
  "compile ps =
     (if \<exists>c \<in> set ps. (case c of Chr x \<Rightarrow> is_meta x | Grp g \<Rightarrow> False) then Inl OutsideEmbedding
      else if \<not> distinct (groups_of ps) then Inl SyntaxError
      else Inr (map rx_of_piece ps))"

text \<open>
  Matching the whole string.  The year group is \<^verbatim>\<open>\d{4}\<close>, the meridiem group is
  \<^verbatim>\<open>AM|PM|am|pm\<close>, every other group is the greedy \<^verbatim>\<open>\d{1,2}\<close>: two digits are tried
  before one, and the first alternative under which the rest matches wins.
\<close>

definition candidates :: "grp \<Rightarrow> string \<Rightarrow> nat list" where
  "candidates g s =
     (case g of
        GYear \<Rightarrow> (if 4 \<le> length s \<and> list_all is_digit (take 4 s) then [4] else [])
      | GAmpm \<Rightarrow> (if take 2 s \<in> set [''AM'', ''PM'', ''am'', ''pm''] then [2] else [])
      | _ \<Rightarrow> (if 2 \<le> length s \<and> list_all is_digit (take 2 s) then [2, 1]
              else if 1 \<le> length s \<and> list_all is_digit (take 1 s) then [1]
              else []))"

fun first_some :: "('a \<Rightarrow> 'b option) \<Rightarrow> 'a list \<Rightarrow> 'b option" where
  "first_some f [] = None"
| "first_some f (x # xs) = (case f x of Some y \<Rightarrow> Some y | None \<Rightarrow> first_some f xs)"

definition is_line_terminator :: "char \<Rightarrow> bool" where
  "is_line_terminator c = (c = CHR 0x0A \<or> c = CHR 0x0D)"

fun rx_match :: "rx list \<Rightarrow> string \<Rightarrow> (grp \<rightharpoonup> string) option" where
  "rx_match [] s = (if s = [] then Some Map.empty else None)"
| "rx_match (Lit c # r) s =
     (case s of [] \<Rightarrow> None | x # xs \<Rightarrow> if x = c then rx_match r xs else None)"
| "rx_match (AnyChar # r) s =
     (case s of [] \<Rightarrow> None | x # xs \<Rightarrow> if is_line_terminator x then None else rx_match r xs)"
| "rx_match (Capture g # r) s =
     first_some
       (\<lambda>n. case rx_match r (drop n s) of
               None \<Rightarrow> None
             | Some m \<Rightarrow> Some (m(g \<mapsto> take n s)))
       (candidates g s)"

text \<open>
  \<^verbatim>\<open>
  function parseDate(value, formatString) {
    if (value == null || value === '') return null;
    // Parser for tokens yyyy, MM, dd, HH, hh, mm, a
    const fmt = String(formatString || DEFAULT_FORMAT);
    const esc = fmt
      .replace(/yyyy/g, '(?<year>\\d{4})')
      .replace(/MM/g, '(?<month>\\d{1,2})')
      .replace(/dd/g, '(?<day>\\d{1,2})')
      .replace(/HH/g, '(?<hour24>\\d{1,2})')
      .replace(/hh/g, '(?<hour12>\\d{1,2})')
      .replace(/mm/g, '(?<minute>\\d{1,2})')
      .replace(/\ba/g, '(?<ampm>AM|PM|am|pm)');
    const regex = new RegExp('^' + esc + '$');
    const m = String(value).match(regex);
    if (!m) return null;
    const groups = m.groups || {};
    const year = Number(groups.year);
    const monthIndex = Number(groups.month) - 1;
    const day = Number(groups.day);
    let hour = 0;
    if (groups.hour24 != null) {
      hour = Math.min(23, Math.max(0, Number(groups.hour24)));
    } else if (groups.hour12 != null) {
      let h12 = Math.min(12, Math.max(1, Number(groups.hour12)));
      const ampm = groups.ampm || '';
      const isPm = /pm/i.test(ampm);
      if (isPm) {
        hour = (h12 % 12) + 12; // 12PM -> 12, 1PM -> 13
      } else {
        hour = h12 % 12; // 12AM or no ampm -> 0
      }
    }
    const minute = groups.minute != null ? Math.min(59, Math.max(0, Number(groups.minute))) : 0;
    const d = new Date(year, monthIndex, day, hour, minute);
    return isValidDate(d) ? d : null;
  }
  \<close>
  \<^verbatim>\<open>Number\<close> of a group that did not take part is \<^verbatim>\<open>NaN\<close>, and a \<^verbatim>\<open>Date\<close> built from
  \<^verbatim>\<open>NaN\<close> is invalid: without a year, a month or a day the result is \<^verbatim>\<open>null\<close>.
\<close>

definition DEFAULT_FORMAT :: string where
  "DEFAULT_FORMAT = ''yyyy-MM-dd''"

definition esc_of :: "string \<Rightarrow> piece list" where
  "esc_of fmt =
     replace_a_start False
       (replace_tok ''mm'' GMinute
         (replace_tok ''hh'' GHour12
           (replace_tok ''HH'' GHour24
             (replace_tok ''dd'' GDay
               (replace_tok ''MM'' GMonth
                 (replace_tok ''yyyy'' GYear (map Chr fmt)))))))"

definition date_of_groups :: "(grp \<rightharpoonup> string) \<Rightarrow> date option" where
  "date_of_groups groups =
     (let hour =
            (case groups GHour24 of
               Some h24 \<Rightarrow> min 23 (max 0 (js_Number h24))
             | None \<Rightarrow>
                 (case groups GHour12 of
                    Some h12s \<Rightarrow>
                      (let h12 = min 12 (max 1 (js_Number h12s));
                           ampm = (case groups GAmpm of Some x \<Rightarrow> x | None \<Rightarrow> []);
                           isPm = (ampm = ''PM'' \<or> ampm = ''pm'')
                       in if isPm then js_rem h12 12 + 12 else js_rem h12 12)
                  | None \<Rightarrow> 0));
          minute = (case groups GMinute of Some mi \<Rightarrow> min 59 (max 0 (js_Number mi)) | None \<Rightarrow> 0)
      in case (groups GYear, groups GMonth, groups GDay) of
           (Some y, Some mo, Some dy) \<Rightarrow>
             Some (mkDate (js_Number y) (js_Number mo - 1) (js_Number dy) hour minute)
         | _ \<Rightarrow> None)"

definition parseDate :: "string \<Rightarrow> string \<Rightarrow> fault + date option" where
  "parseDate v formatString =
     (if v = [] then Inr None
      else
        let fmt = (if formatString = [] then DEFAULT_FORMAT else formatString)
        in case compile (esc_of fmt) of
             Inl e \<Rightarrow> Inl e
           | Inr regex \<Rightarrow>
               (case rx_match regex v of
                  None \<Rightarrow> Inr None
                | Some groups \<Rightarrow> Inr (date_of_groups groups)))"

section \<open>The picker\<close>

text \<open>
  The state of a \<^verbatim>\<open>DatePicker\<close> instance: its options, its selection fields, and what
  it does to the outside, namely the value of the bound input element, the calls of the
  consumer's callbacks (a log, oldest first) and the number of \<open>change\<close> events
  dispatched on the input element.  A callback option holds whether a function is
  registered; a call is made inside \<^verbatim>\<open>try { ... } catch (_) {}\<close>, so it cannot end the
  operation that makes it.  The JavaScript \<^verbatim>\<open>Set\<close>s of the schedule are lists without
  repetition in insertion order, which is the order \<^verbatim>\<open>Array.from\<close> reads them in.  The
  flag \<open>daysGrid\<close> says whether the grid element exists (\<^verbatim>\<open>_build\<close> creates it unless the
  schedule mode is weekly), and the flags \<open>timeRow\<close> and \<open>timeRangeRow\<close> whether the rows of
  the time controls exist (they are \<^verbatim>\<open>null\<close> otherwise).  The elements of the document are
  otherwise not embedded.

  An operation that throws ends there and leaves the picker as it is at that moment: the
  outcome of an operation on the picker is the picker it returns with, or the exception
  together with the picker left behind.
\<close>

datatype schedule_mode = NoSchedule | Weekly | Monthly

datatype source = User | Api | Confirm

datatype notification =
    OnSelect "date option" string source
  | OnSelectRange "date option" "date option" string source
  | OnSelectSchedule schedule_mode "int list" "int list" "int list" string source

record picker_options =
  format :: string
  firstDayOfWeek :: int
  minDate :: "date option"
  maxDate :: "date option"
  disableDates :: "(date \<Rightarrow> bool) option"
  onSelect :: bool
  onSelectRange :: bool
  onSelectSchedule :: bool
  autoClose :: bool
  showOutsideDays :: bool
  inline :: bool
  enableTime :: bool
  timeStep :: int
  hour12 :: bool
  range_opt :: bool
  rangeSeparator :: string
  confirm :: bool
  scheduleMode :: schedule_mode
  scheduleWeeklyMulti :: bool
  scheduleMonthlyMulti :: bool

record picker =
  options :: picker_options
  selectedDate :: "date option"
  scheduleWeeklySelected :: "int list"
  scheduleMonthlySelected :: "int list"
  rangeStart :: "date option"
  rangeEnd :: "date option"
  hoveringDate :: "date option"
  startHours :: int
  startMinutes :: int
  endHours :: int
  endMinutes :: int
  focusedDate :: "date option"
  currentViewMonth :: date
  isOpen :: bool
  timeHours :: int
  timeMinutes :: int
  daysGrid :: bool
  timeRow :: bool
  timeRangeRow :: bool
  inputValue :: string
  notified :: "notification list"
  changeEvents :: nat

type_synonym outcome = "(fault \<times> picker) + picker"

definition set_add :: "'a \<Rightarrow> 'a list \<Rightarrow> 'a list" where
  "set_add x xs = (if x \<in> set xs then xs else xs @ [x])"

definition set_delete :: "'a \<Rightarrow> 'a list \<Rightarrow> 'a list" where
  "set_delete x xs = removeAll x xs"

definition set_of_array :: "'a list \<Rightarrow> 'a list" where
  "set_of_array xs = foldl (\<lambda>s x. set_add x s) [] xs"

definition bind_fault :: "'e + 'a \<Rightarrow> ('a \<Rightarrow> 'e + 'b) \<Rightarrow> 'e + 'b" where
  "bind_fault r f = (case r of Inl e \<Rightarrow> Inl e | Inr x \<Rightarrow> f x)"

definition throw_in :: "picker \<Rightarrow> fault + 'a \<Rightarrow> ('a \<Rightarrow> outcome) \<Rightarrow> outcome" where
  "throw_in st r f = (case r of Inl e \<Rightarrow> Inl (e, st) | Inr x \<Rightarrow> f x)"

definition notify :: "bool \<Rightarrow> notification \<Rightarrow> picker \<Rightarrow> picker" where
  "notify registered n st = (if registered then st\<lparr>notified := notified st @ [n]\<rparr> else st)"

definition dispatchChange :: "picker \<Rightarrow> picker" where
  "dispatchChange st = st\<lparr>changeEvents := Suc (changeEvents st)\<rparr>"

definition disabledByFn :: "picker \<Rightarrow> date \<Rightarrow> bool" where
  "disabledByFn st d = (case disableDates (options st) of None \<Rightarrow> False | Some f \<Rightarrow> f d)"

definition source_or_api :: "source option \<Rightarrow> source" where
  "source_or_api s = (case s of None \<Rightarrow> Api | Some x \<Rightarrow> x)"

text \<open>
  \<^verbatim>\<open>
  close() {
    if (!this.isOpen) return;
    if (this.options.inline) { this.isOpen = false; return; }
    this.isOpen = false;
    ... // detaches the popover and its listeners
  }
  \<close>
\<close>

definition close :: "picker \<Rightarrow> picker" where
  "close st = (if \<not> isOpen st then st else st\<lparr>isOpen := False\<rparr>)"

subsection \<open>Schedule modes\<close>

text \<open>
  \<^verbatim>\<open>
  _formatScheduleArray() {
    if (this.options.scheduleMode === 'weekly') {
      var arrW = Array.from(this.scheduleWeeklySelected);
      arrW.sort(function (a, b) { return a - b; });
      // Display 1..7 with Mon=1..Sun=7
      var disp = arrW.map(function (v) { return v === 0 ? 7 : v; });
      return disp;
    }
    if (this.options.scheduleMode === 'monthly') {
      var arrM = Array.from(this.scheduleMonthlySelected);
      arrM.sort(function (a, b) { return a - b; });
      return arrM;
    }
    return [];
  }
  \<close>
\<close>

definition formatScheduleArray :: "picker \<Rightarrow> int list" where
  "formatScheduleArray st =
     (if scheduleMode (options st) = Weekly then
        (let arrW = sort (scheduleWeeklySelected st);
             disp = map (\<lambda>v. if v = 0 then 7 else v) arrW
         in disp)
      else if scheduleMode (options st) = Monthly then
        (let arrM = sort (scheduleMonthlySelected st) in arrM)
      else [])"

text \<open>\<^verbatim>\<open>array.join(',')\<close> of an array of integers.\<close>

fun join_numbers :: "int list \<Rightarrow> string" where
  "join_numbers [] = []"
| "join_numbers [x] = js_String x"
| "join_numbers (x # y # ys) = js_String x @ '','' @ join_numbers (y # ys)"

text \<open>
  \<^verbatim>\<open>
  _syncScheduleValue(source) {
    if (!this.options || (this.options.scheduleMode === 'none')) return;
    var scheduleArray = this._formatScheduleArray();
    var formattedString = scheduleArray.join(',');
    if (!this.options.confirm) {
      this.inputElement.value = formattedString;
    }
    if (typeof this.options.onSelectSchedule === 'function') {
      try {
        this.options.onSelectSchedule({
          mode: this.options.scheduleMode,
          weekly: Array.from(this.scheduleWeeklySelected),
          monthly: Array.from(this.scheduleMonthlySelected),
          array: scheduleArray
        }, { formatted: formattedString, source: source || 'api' });
      } catch (_) {}
    }
    if (!this.options.confirm) {
      var changeEvent = new Event('change', { bubbles: true });
      this.inputElement.dispatchEvent(changeEvent);
    }
  }
  \<close>
\<close>

definition syncScheduleValue :: "picker \<Rightarrow> source \<Rightarrow> picker" where
  "syncScheduleValue st src =
     (if scheduleMode (options st) = NoSchedule then st
      else
        let scheduleArray = formatScheduleArray st;
            formattedString = join_numbers scheduleArray;
            st1 = (if \<not> confirm (options st) then st\<lparr>inputValue := formattedString\<rparr> else st);
            st2 = notify (onSelectSchedule (options st1))
                    (OnSelectSchedule (scheduleMode (options st1)) (scheduleWeeklySelected st1)
                       (scheduleMonthlySelected st1) scheduleArray formattedString src) st1
        in if \<not> confirm (options st2) then dispatchChange st2 else st2)"

text \<open>
  \<^verbatim>\<open>
  _toggleWeeklyDay(dayIndex, fromUser) {
    if (this.options.scheduleMode !== 'weekly') return;
    var idx = Math.max(0, Math.min(6, Number(dayIndex) || 0));
    if (this.options.scheduleWeeklyMulti) {
      if (this.scheduleWeeklySelected.has(idx)) {
        this.scheduleWeeklySelected.delete(idx);
      } else {
        this.scheduleWeeklySelected.add(idx);
      }
    } else {
      this.scheduleWeeklySelected.clear();
      this.scheduleWeeklySelected.add(idx);
    }
    this._updateWeeklyUI();
    this._syncScheduleValue(fromUser ? 'user' : 'api');
  }
  \<close>
  \<^verbatim>\<open>_toggleMonthlyDay\<close> is the same on \<^verbatim>\<open>scheduleMonthlySelected\<close>, with the day
  clamped into 1..31 and a final \<^verbatim>\<open>_render()\<close>.
\<close>

definition toggleWeeklyDay :: "picker \<Rightarrow> int \<Rightarrow> bool \<Rightarrow> picker" where
  "toggleWeeklyDay st dayIndex fromUser =
     (if scheduleMode (options st) \<noteq> Weekly then st
      else
        let idx = max 0 (min 6 dayIndex);
            sel = scheduleWeeklySelected st;
            sel' = (if scheduleWeeklyMulti (options st)
                    then (if idx \<in> set sel then set_delete idx sel else set_add idx sel)
                    else set_add idx [])
        in syncScheduleValue (st\<lparr>scheduleWeeklySelected := sel'\<rparr>)
             (if fromUser then User else Api))"

definition toggleMonthlyDay :: "picker \<Rightarrow> int \<Rightarrow> bool \<Rightarrow> picker" where
  "toggleMonthlyDay st dayOfMonth fromUser =
     (if scheduleMode (options st) \<noteq> Monthly then st
      else
        let d = max 1 (min 31 (if dayOfMonth = 0 then 1 else dayOfMonth));
            sel = scheduleMonthlySelected st;
            sel' = (if scheduleMonthlyMulti (options st)
                    then (if d \<in> set sel then set_delete d sel else set_add d sel)
                    else set_add d [])
        in syncScheduleValue (st\<lparr>scheduleMonthlySelected := sel'\<rparr>)
             (if fromUser then User else Api))"

text \<open>
  \<^verbatim>\<open>
  getSchedule() {
    if (this.options.scheduleMode === 'none') return null;
    return { mode: this.options.scheduleMode,
             weekly: Array.from(this.scheduleWeeklySelected),
             monthly: Array.from(this.scheduleMonthlySelected),
             array: this._formatScheduleArray() };
  }
  \<close>
\<close>

definition getSchedule :: "picker \<Rightarrow> (schedule_mode \<times> int list \<times> int list \<times> int list) option" where
  "getSchedule st =
     (if scheduleMode (options st) = NoSchedule then None
      else Some (scheduleMode (options st), scheduleWeeklySelected st,
                 scheduleMonthlySelected st, formatScheduleArray st))"

subsection \<open>Single selection\<close>

text \<open>
  \<^verbatim>\<open>
  _applySelection(dateTime, source) {
    this.selectedDate = new Date(dateTime.getTime());
    const formatted = formatDate(this.selectedDate, this.options.format);
    this.focusedDate = startOfDay(this.selectedDate);
    this._render();
    if (typeof this.options.onSelect === 'function') {
      try {
        this.options.onSelect(new Date(this.selectedDate.getTime()),
                              { formatted: formatted, source: source || 'api' });
      } catch (_) {}
    }
    if (!this.options.confirm) {
      this.inputElement.value = formatted;
      const changeEvent = new Event('change', { bubbles: true });
      this.inputElement.dispatchEvent(changeEvent);
    }
  }
  _selectDate(date, source) {
    var finalDate;
    if (this.options.enableTime) {
      var hh = this.timeHours || 0;
      var mm = this.timeMinutes || 0;
      finalDate = new Date(date.getFullYear(), date.getMonth(), date.getDate(), hh, mm);
    } else {
      finalDate = startOfDay(date);
    }
    this._applySelection(finalDate, source);
  }
  _initTimeFromDate(d) {
    if (!isValidDate(d)) return;
    this.timeHours = d.getHours();
    this.timeMinutes = clampMinuteToStep(d.getMinutes(), this.options.timeStep);
  }
  \<close>
  \<^verbatim>\<open>_render\<close> rebuilds the grid from the state and leaves the state as it is.
\<close>

definition applySelection :: "picker \<Rightarrow> date \<Rightarrow> source \<Rightarrow> picker" where
  "applySelection st dateTime src =
     (let st1 = st\<lparr>selectedDate := Some dateTime\<rparr>;
          formatted = formatDate dateTime (format (options st1));
          st2 = st1\<lparr>focusedDate := Some (startOfDay dateTime)\<rparr>;
          st3 = notify (onSelect (options st2)) (OnSelect (Some dateTime) formatted src) st2
      in if \<not> confirm (options st3)
         then dispatchChange (st3\<lparr>inputValue := formatted\<rparr>)
         else st3)"

definition selectDate :: "picker \<Rightarrow> date \<Rightarrow> source \<Rightarrow> picker" where
  "selectDate st d src =
     (let finalDate =
            (if enableTime (options st)
             then mkDate (getFullYear d) (getMonth d) (getDate d) (timeHours st) (timeMinutes st)
             else startOfDay d)
      in applySelection st finalDate src)"

definition initTimeFromDate :: "picker \<Rightarrow> date \<Rightarrow> picker" where
  "initTimeFromDate st d =
     st\<lparr>timeHours := getHours d,
        timeMinutes := clampMinuteToStep (getMinutes d) (timeStep (options st))\<rparr>"

subsection \<open>Arguments of the programmatic setters\<close>

text \<open>
  A date argument is falsy (\<^verbatim>\<open>null\<close>, \<^verbatim>\<open>undefined\<close>, the empty string), a valid
  \<^verbatim>\<open>Date\<close>, or a string.
  \<^verbatim>\<open>
  _normalizeDate(dateOrString) {
    if (!dateOrString) return null;
    if (isValidDate(dateOrString)) {
      if (this && this.options && this.options.enableTime) return new Date(dateOrString.getTime());
      return startOfDay(dateOrString);
    }
    const parsed = parseDate(String(dateOrString), this ? this.options && this.options.format
                               ? this.options.format : DEFAULT_FORMAT : DEFAULT_FORMAT);
    if (!parsed) return null;
    if (this && this.options && this.options.enableTime) return new Date(parsed.getTime());
    return startOfDay(parsed);
  }
  \<close>
  The function takes the two options it reads, since the constructor calls it before the
  options exist (then the time is dropped and the default format is used).
\<close>

datatype date_arg = ArgNull | ArgDate date | ArgString string

definition normalizeDateWith :: "bool \<Rightarrow> string \<Rightarrow> date_arg \<Rightarrow> fault + date option" where
  "normalizeDateWith keepTime fmt dateOrString =
     (case dateOrString of
        ArgNull \<Rightarrow> Inr None
      | ArgDate d \<Rightarrow> Inr (Some (if keepTime then d else startOfDay d))
      | ArgString s \<Rightarrow>
          if s = [] then Inr None
          else bind_fault (parseDate s (if fmt = [] then DEFAULT_FORMAT else fmt))
                 (\<lambda>parsed. case parsed of
                     None \<Rightarrow> Inr None
                   | Some d \<Rightarrow> Inr (Some (if keepTime then d else startOfDay d))))"

definition normalizeDate :: "picker \<Rightarrow> date_arg \<Rightarrow> fault + date option" where
  "normalizeDate st = normalizeDateWith (enableTime (options st)) (format (options st))"

subsection \<open>Range selection\<close>

text \<open>
  \<^verbatim>\<open>s.split(sep)\<close> for a separator that is not empty, and \<^verbatim>\<open>s.trim()\<close>, which
  removes white space and line terminators at both ends: of the characters of the
  embedding these are the space, the tab, the line feed, the vertical tab, the form feed,
  the carriage return and the no-break space U+00A0.
\<close>

function split_from :: "string \<Rightarrow> string \<Rightarrow> string \<Rightarrow> string list" where
  "split_from sep acc s =
     (case s of
        [] \<Rightarrow> [rev acc]
      | c # cs \<Rightarrow>
          if sep \<noteq> [] \<and> take (length sep) s = sep
          then rev acc # split_from sep [] (drop (length sep) s)
          else split_from sep (c # acc) cs)"
  by pat_completeness auto
termination
  by (relation "measure (\<lambda>(sep, acc, s). length s)") auto

declare split_from.simps [simp del]

definition split :: "string \<Rightarrow> string \<Rightarrow> string list" where
  "split s sep = split_from sep [] s"

definition is_space :: "char \<Rightarrow> bool" where
  "is_space c = (c \<in> set [CHR '' '', CHR 0x09, CHR 0x0A, CHR 0x0B, CHR 0x0C, CHR 0x0D, CHR 0xA0])"

definition trim :: "string \<Rightarrow> string" where
  "trim s = rev (dropWhile is_space (rev (dropWhile is_space s)))"

text \<open>
  \<^verbatim>\<open>
  _parseRangeString(value) {
    const sep = this.options.rangeSeparator || ' - ';
    const parts = String(value).split(sep);
    if (parts.length !== 2) return null;
    const s = parseDate(parts[0].trim(), this.options.format);
    const e = parseDate(parts[1].trim(), this.options.format);
    const keepTime = this.options.enableTime;
    const start = s ? (keepTime ? new Date(s.getTime()) : startOfDay(s)) : null;
    const end = e ? (keepTime ? new Date(e.getTime()) : startOfDay(e)) : null;
    if (!start && !end) return null;
    let rs = start;
    let re = end;
    if (rs && re && re < rs) { const tmp = rs; rs = re; re = tmp; }
    // Bounds/disabled check
    if (rs && isDateOutOfBounds(rs, this.options.minDate, this.options.maxDate)) rs = null;
    if (re && isDateOutOfBounds(re, this.options.minDate, this.options.maxDate)) re = null;
    if (rs && this.options.disableDates && this.options.disableDates(rs)) rs = null;
    if (re && this.options.disableDates && this.options.disableDates(re)) re = null;
    return { start: rs, end: re };
  }
  _formatRangeString(start, end) {
    const sep = this.options.rangeSeparator || ' - ';
    if (start && end) return `${formatDate(start, this.options.format)}${sep}${formatDate(end, this.options.format)}`;
    if (start && !end) return `${formatDate(start, this.options.format)}`;
    return '';
  }
  \<close>
\<close>

definition separator :: "picker \<Rightarrow> string" where
  "separator st = (if rangeSeparator (options st) = [] then '' - '' else rangeSeparator (options st))"

definition swap_if_later :: "date option \<times> date option \<Rightarrow> date option \<times> date option" where
  "swap_if_later se =
     (case se of
        (Some s, Some e) \<Rightarrow> if getTime e < getTime s then (Some e, Some s) else (Some s, Some e)
      | _ \<Rightarrow> se)"

definition drop_if :: "(date \<Rightarrow> bool) \<Rightarrow> date option \<Rightarrow> date option" where
  "drop_if p x = (case x of None \<Rightarrow> None | Some d \<Rightarrow> if p d then None else Some d)"

definition filter_endpoints :: "picker \<Rightarrow> date option \<times> date option \<Rightarrow> date option \<times> date option" where
  "filter_endpoints st se =
     (let out = (\<lambda>d. isDateOutOfBounds d (minDate (options st)) (maxDate (options st)));
          rs1 = drop_if out (fst se);
          re1 = drop_if out (snd se);
          rs2 = drop_if (disabledByFn st) rs1;
          re2 = drop_if (disabledByFn st) re1
      in (rs2, re2))"

definition parseRangeString :: "picker \<Rightarrow> string \<Rightarrow> fault + (date option \<times> date option) option" where
  "parseRangeString st v =
     (let parts = split v (separator st)
      in if length parts \<noteq> 2 then Inr None
         else
           bind_fault (parseDate (trim (parts ! 0)) (format (options st))) (\<lambda>s.
           bind_fault (parseDate (trim (parts ! 1)) (format (options st))) (\<lambda>e.
             let keepTime = enableTime (options st);
                 start = map_option (\<lambda>d. if keepTime then d else startOfDay d) s;
                 end = map_option (\<lambda>d. if keepTime then d else startOfDay d) e
             in if start = None \<and> end = None then Inr None
                else Inr (Some (filter_endpoints st (swap_if_later (start, end)))))))"

definition formatRangeString :: "picker \<Rightarrow> date option \<Rightarrow> date option \<Rightarrow> string" where
  "formatRangeString st start end =
     (case (start, end) of
        (Some s, Some e) \<Rightarrow>
          formatDate s (format (options st)) @ separator st @ formatDate e (format (options st))
      | (Some s, None) \<Rightarrow> formatDate s (format (options st))
      | _ \<Rightarrow> [])"

text \<open>
  \<^verbatim>\<open>
  _updateRangeTimeInputs() {
    if (!this.options.enableTime || !this.options.range) return;
    var sh = this.startHours, sm = this.startMinutes;
    if (this.rangeStart) { sh = this.rangeStart.getHours();
        sm = clampMinuteToStep(this.rangeStart.getMinutes(), this.options.timeStep); }
    ... // sets the select elements
    this.startHours = sh; this.startMinutes = clampMinuteToStep(sm, this.options.timeStep);
    var eh = this.endHours, em = this.endMinutes;
    if (this.rangeEnd) { eh = this.rangeEnd.getHours();
        em = clampMinuteToStep(this.rangeEnd.getMinutes(), this.options.timeStep); }
    ...
    this.endHours = eh; this.endMinutes = clampMinuteToStep(em, this.options.timeStep);
  }
  \<close>
\<close>

definition updateRangeTimeInputs :: "picker \<Rightarrow> picker" where
  "updateRangeTimeInputs st =
     (if \<not> enableTime (options st) \<or> \<not> range_opt (options st) then st
      else
        let step = timeStep (options st);
            sh = (case rangeStart st of Some d \<Rightarrow> getHours d | None \<Rightarrow> startHours st);
            sm = (case rangeStart st of Some d \<Rightarrow> clampMinuteToStep (getMinutes d) step
                                       | None \<Rightarrow> startMinutes st);
            eh = (case rangeEnd st of Some d \<Rightarrow> getHours d | None \<Rightarrow> endHours st);
            em = (case rangeEnd st of Some d \<Rightarrow> clampMinuteToStep (getMinutes d) step
                                     | None \<Rightarrow> endMinutes st)
        in st\<lparr>startHours := sh, startMinutes := clampMinuteToStep sm step,
              endHours := eh, endMinutes := clampMinuteToStep em step\<rparr>)"

text \<open>
  \<^verbatim>\<open>
  _syncRangeValue(source) {
    const formatted = this._formatRangeString(this.rangeStart, this.rangeEnd);
    if (!this.options.confirm) this.inputElement.value = formatted;
    if (typeof this.options.onSelectRange === 'function') {
      try { this.options.onSelectRange({ start: this.rangeStart, end: this.rangeEnd },
                                       { formatted, source: source || 'api' }); } catch (_) {}
    }
    if (!this.options.confirm) {
      const changeEvent = new Event('change', { bubbles: true });
      this.inputElement.dispatchEvent(changeEvent);
    }
  }
  \<close>
\<close>

definition syncRangeValue :: "picker \<Rightarrow> source \<Rightarrow> picker" where
  "syncRangeValue st src =
     (let formatted = formatRangeString st (rangeStart st) (rangeEnd st);
          st1 = (if \<not> confirm (options st) then st\<lparr>inputValue := formatted\<rparr> else st);
          st2 = notify (onSelectRange (options st1))
                  (OnSelectRange (rangeStart st1) (rangeEnd st1) formatted src) st1
      in if \<not> confirm (options st2) then dispatchChange st2 else st2)"

text \<open>
  \<^verbatim>\<open>
  setRange(rangeOrString, source) {
    if (!this.options.range) return;
    let start = null, end = null;
    if (!rangeOrString) {
      this.rangeStart = null; this.rangeEnd = null; this.hoveringDate = null;
      if (!this.options.confirm) this.inputElement.value = '';
      this._render();
      if (typeof this.options.onSelectRange === 'function') {
        try { this.options.onSelectRange({ start: null, end: null },
                                         { formatted: '', source: source || 'api' }); } catch (_) {}
      }
      if (!this.options.confirm) {
        const changeEvent = new Event('change', { bubbles: true });
        this.inputElement.dispatchEvent(changeEvent);
      }
      return;
    }
    if (typeof rangeOrString === 'string') {
      const rg = this._parseRangeString(rangeOrString);
      if (rg) { start = rg.start; end = rg.end; }
    } else if (Array.isArray(rangeOrString)) {
      start = this._normalizeDate(rangeOrString[0]);
      end = this._normalizeDate(rangeOrString[1]);
    } else if (typeof rangeOrString === 'object') {
      start = this._normalizeDate(rangeOrString.start);
      end = this._normalizeDate(rangeOrString.end);
    }
    if (start && end && end < start) { const tmp = start; start = end; end = tmp; }
    if (start && isDateOutOfBounds(start, this.options.minDate, this.options.maxDate)) start = null;
    if (end && isDateOutOfBounds(end, this.options.minDate, this.options.maxDate)) end = null;
    if (start && this.options.disableDates && this.options.disableDates(start)) start = null;
    if (end && this.options.disableDates && this.options.disableDates(end)) end = null;
    this.rangeStart = start || null;
    this.rangeEnd = end || null;
    if (this.options.enableTime) {
      if (this.rangeStart) { this.startHours = this.rangeStart.getHours();
        this.startMinutes = clampMinuteToStep(this.rangeStart.getMinutes(), this.options.timeStep); }
      if (this.rangeEnd) { this.endHours = this.rangeEnd.getHours();
        this.endMinutes = clampMinuteToStep(this.rangeEnd.getMinutes(), this.options.timeStep); }
      this._updateRangeTimeInputs();
    }
    if (this.rangeStart) this.currentViewMonth = startOfMonth(this.rangeStart);
    const formatted = this._formatRangeString(this.rangeStart, this.rangeEnd);
    if (!this.options.confirm) this.inputElement.value = formatted;
    this._render();
    if (typeof this.options.onSelectRange === 'function') {
      try { this.options.onSelectRange({ start: this.rangeStart, end: this.rangeEnd },
                                       { formatted, source: source || 'api' }); } catch (_) {}
    }
    if (!this.options.confirm) {
      const changeEvent = new Event('change', { bubbles: true });
      this.inputElement.dispatchEvent(changeEvent);
    }
  }
  \<close>
  The argument is falsy, a string, an array of two date arguments, or an object with
  \<open>start\<close> and \<open>end\<close>.  The branch for a falsy argument, the block under
  \<^verbatim>\<open>if (this.options.enableTime)\<close> and the lines from \<^verbatim>\<open>const formatted\<close> on are
  \<open>setRange_clear\<close>, \<open>setRange_times\<close> and \<open>setRange_report\<close>.
\<close>

datatype range_arg =
    RangeNull
  | RangeString string
  | RangeArray date_arg date_arg
  | RangeObject date_arg date_arg

definition range_endpoints :: "picker \<Rightarrow> range_arg \<Rightarrow> fault + (date option \<times> date option)" where
  "range_endpoints st rangeOrString =
     (case rangeOrString of
        RangeNull \<Rightarrow> Inr (None, None)
      | RangeString s \<Rightarrow>
          bind_fault (parseRangeString st s)
            (\<lambda>rg. case rg of None \<Rightarrow> Inr (None, None) | Some se \<Rightarrow> Inr se)
      | RangeArray a b \<Rightarrow>
          bind_fault (normalizeDate st a) (\<lambda>start.
          bind_fault (normalizeDate st b) (\<lambda>end. Inr (start, end)))
      | RangeObject a b \<Rightarrow>
          bind_fault (normalizeDate st a) (\<lambda>start.
          bind_fault (normalizeDate st b) (\<lambda>end. Inr (start, end))))"

definition range_is_falsy :: "range_arg \<Rightarrow> bool" where
  "range_is_falsy r = (r = RangeNull \<or> r = RangeString [])"

definition setRange_clear :: "picker \<Rightarrow> source \<Rightarrow> picker" where
  "setRange_clear st src =
     (let st1 = st\<lparr>rangeStart := None, rangeEnd := None, hoveringDate := None\<rparr>;
          st2 = (if \<not> confirm (options st1) then st1\<lparr>inputValue := []\<rparr> else st1);
          st3 = notify (onSelectRange (options st2)) (OnSelectRange None None [] src) st2
      in if \<not> confirm (options st3) then dispatchChange st3 else st3)"

definition setRange_times :: "picker \<Rightarrow> picker" where
  "setRange_times st =
     (if enableTime (options st) then
        (let step = timeStep (options st);
             a = (case rangeStart st of
                    Some d \<Rightarrow> st\<lparr>startHours := getHours d,
                                 startMinutes := clampMinuteToStep (getMinutes d) step\<rparr>
                  | None \<Rightarrow> st);
             b = (case rangeEnd a of
                    Some d \<Rightarrow> a\<lparr>endHours := getHours d,
                                endMinutes := clampMinuteToStep (getMinutes d) step\<rparr>
                  | None \<Rightarrow> a)
         in updateRangeTimeInputs b)
      else st)"

definition setRange_report :: "picker \<Rightarrow> source \<Rightarrow> picker" where
  "setRange_report st src =
     (let formatted = formatRangeString st (rangeStart st) (rangeEnd st);
          st1 = (if \<not> confirm (options st) then st\<lparr>inputValue := formatted\<rparr> else st);
          st2 = notify (onSelectRange (options st1))
                  (OnSelectRange (rangeStart st1) (rangeEnd st1) formatted src) st1
      in if \<not> confirm (options st2) then dispatchChange st2 else st2)"

definition setRange :: "picker \<Rightarrow> range_arg \<Rightarrow> source option \<Rightarrow> outcome" where
  "setRange st rangeOrString src =
     (if \<not> range_opt (options st) then Inr st
      else if range_is_falsy rangeOrString then Inr (setRange_clear st (source_or_api src))
      else
        throw_in st (range_endpoints st rangeOrString) (\<lambda>se.
          case filter_endpoints st (swap_if_later se) of
            (start, end) \<Rightarrow>
              let st1 = st\<lparr>rangeStart := start, rangeEnd := end\<rparr>;
                  st2 = setRange_times st1;
                  st3 = (case rangeStart st2 of
                           Some d \<Rightarrow> st2\<lparr>currentViewMonth := startOfMonth d\<rparr>
                         | None \<Rightarrow> st2)
              in Inr (setRange_report st3 (source_or_api src))))"

text \<open>
  \<^verbatim>\<open>
  _handleRangeClick(dayDate) {
    if (!this.options.range) return;
    if (!this.rangeStart || (this.rangeStart && this.rangeEnd)) {
      if (this.options.enableTime) {
        this.rangeStart = new Date(dayDate.getFullYear(), dayDate.getMonth(), dayDate.getDate(),
                                   this.startHours || 0, this.startMinutes || 0);
      } else {
        this.rangeStart = startOfDay(dayDate);
      }
      this.rangeEnd = null;
      this.hoveringDate = null;
      this._syncRangeValue('user');
      this._updateRangeTimeInputs();
      this._render();
      return;
    }
    const start = this.rangeStart;
    let end = this.options.enableTime
      ? new Date(dayDate.getFullYear(), dayDate.getMonth(), dayDate.getDate(),
                 this.endHours || 0, this.endMinutes || 0)
      : startOfDay(dayDate);
    if (end < start) {
      this.rangeEnd = start;
      this.rangeStart = end;
    } else {
      this.rangeEnd = end;
    }
    this.hoveringDate = null;
    this._syncRangeValue('user');
    this._updateRangeTimeInputs();
    this._render();
    if (!this.options.confirm && this.options.autoClose && !this.options.inline) this.close();
  }
  \<close>
\<close>

definition handleRangeClick :: "picker \<Rightarrow> date \<Rightarrow> picker" where
  "handleRangeClick st dayDate =
     (if \<not> range_opt (options st) then st
      else
        case (rangeStart st, rangeEnd st) of
          (Some start, None) \<Rightarrow>
            (let end = (if enableTime (options st)
                        then mkDate (getFullYear dayDate) (getMonth dayDate) (getDate dayDate)
                               (endHours st) (endMinutes st)
                        else startOfDay dayDate);
                 st1 = (if getTime end < getTime start
                        then st\<lparr>rangeEnd := Some start, rangeStart := Some end\<rparr>
                        else st\<lparr>rangeEnd := Some end\<rparr>);
                 st2 = st1\<lparr>hoveringDate := None\<rparr>;
                 st3 = updateRangeTimeInputs (syncRangeValue st2 User)
             in if \<not> confirm (options st3) \<and> autoClose (options st3) \<and> \<not> inline (options st3)
                then close st3 else st3)
        | _ \<Rightarrow>
            (let newStart = (if enableTime (options st)
                             then mkDate (getFullYear dayDate) (getMonth dayDate) (getDate dayDate)
                                    (startHours st) (startMinutes st)
                             else startOfDay dayDate);
                 st1 = st\<lparr>rangeStart := Some newStart, rangeEnd := None, hoveringDate := None\<rparr>
             in updateRangeTimeInputs (syncRangeValue st1 User)))"

subsection \<open>The programmatic setter of the date\<close>

text \<open>
  \<^verbatim>\<open>
  setDate(dateOrString, source) {
    if (this.options.range) {
      if (!dateOrString) {
        this.setRange(null, source || 'api');
        return;
      }
      this.setRange({ start: dateOrString, end: this.rangeEnd }, source || 'api');
      return;
    }
    if (!dateOrString) {
      this.selectedDate = null;
      if (!this.options.confirm) this.inputElement.value = '';
      this._render();
      if (typeof this.options.onSelect === 'function') {
        try { this.options.onSelect(null, { formatted: '', source: source || 'api' }); } catch (_) {}
      }
      if (!this.options.confirm) {
        const changeEvent = new Event('change', { bubbles: true });
        this.inputElement.dispatchEvent(changeEvent);
      }
      return;
    }
    const parsed = this._normalizeDate(dateOrString);
    if (!parsed) return;
    if (isDateOutOfBounds(parsed, this.options.minDate, this.options.maxDate)) return;
    if (this.options.disableDates && this.options.disableDates(parsed)) return;
    this.currentViewMonth = startOfMonth(parsed);
    if (this.options.enableTime) {
      this._initTimeFromDate(parsed);
    }
    this._selectDate(parsed, source || 'api');
  }
  \<close>
\<close>

definition arg_is_falsy :: "date_arg \<Rightarrow> bool" where
  "arg_is_falsy a = (a = ArgNull \<or> a = ArgString [])"

definition arg_of_date :: "date option \<Rightarrow> date_arg" where
  "arg_of_date x = (case x of None \<Rightarrow> ArgNull | Some d \<Rightarrow> ArgDate d)"

definition setDate :: "picker \<Rightarrow> date_arg \<Rightarrow> source option \<Rightarrow> outcome" where
  "setDate st dateOrString src =
     (if range_opt (options st) then
        (if arg_is_falsy dateOrString then setRange st RangeNull (Some (source_or_api src))
         else setRange st (RangeObject dateOrString (arg_of_date (rangeEnd st)))
                (Some (source_or_api src)))
      else if arg_is_falsy dateOrString then
        (let st1 = st\<lparr>selectedDate := None\<rparr>;
             st2 = (if \<not> confirm (options st1) then st1\<lparr>inputValue := []\<rparr> else st1);
             st3 = notify (onSelect (options st2)) (OnSelect None [] (source_or_api src)) st2
         in Inr (if \<not> confirm (options st3) then dispatchChange st3 else st3))
      else
        throw_in st (normalizeDate st dateOrString) (\<lambda>p.
          case p of
            None \<Rightarrow> Inr st
          | Some parsed \<Rightarrow>
              if isDateOutOfBounds parsed (minDate (options st)) (maxDate (options st)) then Inr st
              else if disabledByFn st parsed then Inr st
              else
                let st1 = st\<lparr>currentViewMonth := startOfMonth parsed\<rparr>;
                    st2 = (if enableTime (options st1) then initTimeFromDate st1 parsed else st1)
                in Inr (selectDate st2 parsed (source_or_api src))))"

text \<open>
  \<^verbatim>\<open>
  _clearSelection() {
    if (this.options.scheduleMode === 'weekly') {
      this.scheduleWeeklySelected.clear();
      this._updateWeeklyUI();
      this._syncScheduleValue('user');
    } else if (this.options.scheduleMode === 'monthly') {
      this.scheduleMonthlySelected.clear();
      this._syncScheduleValue('user');
      this._render();
    } else if (this.options.range) {
      this.setRange(null, 'user');
    } else {
      this.setDate(null, 'user');
    }
    if (!this.options.confirm && !this.options.inline && this.options.autoClose) this.close();
  }
  \<close>
\<close>

definition clearSelection :: "picker \<Rightarrow> outcome" where
  "clearSelection st =
     bind_fault
       (if scheduleMode (options st) = Weekly then
          Inr (syncScheduleValue (st\<lparr>scheduleWeeklySelected := []\<rparr>) User)
        else if scheduleMode (options st) = Monthly then
          Inr (syncScheduleValue (st\<lparr>scheduleMonthlySelected := []\<rparr>) User)
        else if range_opt (options st) then setRange st RangeNull (Some User)
        else setDate st ArgNull (Some User))
       (\<lambda>st1. Inr (if \<not> confirm (options st1) \<and> \<not> inline (options st1) \<and> autoClose (options st1)
                    then close st1 else st1))"

subsection \<open>Committing in confirm mode\<close>

text \<open>
  \<^verbatim>\<open>
  _commitValue() {
    // Commit current selection into input and close
    if (!this.options.confirm) return;
    // Schedule commit
    if (this.options.scheduleMode && this.options.scheduleMode !== 'none') {
      var scheduleArray = this._formatScheduleArray();
      var formattedString = scheduleArray.join(',');
      this.inputElement.value = formattedString;
      if (typeof this.options.onSelectSchedule === 'function') {
        try {
          this.options.onSelectSchedule({ mode: this.options.scheduleMode,
            weekly: Array.from(this.scheduleWeeklySelected),
            monthly: Array.from(this.scheduleMonthlySelected),
            array: scheduleArray }, { formatted: formattedString, source: 'confirm' });
        } catch (_) {}
      }
      var chEvtS = new Event('change', { bubbles: true });
      this.inputElement.dispatchEvent(chEvtS);
      if (!this.options.inline) this.close();
      return;
    }
    let formatted = '';
    if (this.options.range) {
      formatted = this._formatRangeString(this.rangeStart, this.rangeEnd);
      this.inputElement.value = formatted;
      if (typeof this.options.onSelectRange === 'function') {
        try { this.options.onSelectRange({ start: this.rangeStart, end: this.rangeEnd },
                                         { formatted, source: 'confirm' }); } catch (_) {}
      }
    } else {
      if (this.selectedDate) formatted = formatDate(this.selectedDate, this.options.format);
      this.inputElement.value = formatted;
      if (typeof this.options.onSelect === 'function') {
        try { this.options.onSelect(this.selectedDate ? new Date(this.selectedDate.getTime()) : null,
                                    { formatted, source: 'confirm' }); } catch (_) {}
      }
    }
    const changeEvent = new Event('change', { bubbles: true });
    this.inputElement.dispatchEvent(changeEvent);
    if (!this.options.inline) this.close();
  }
  \<close>
\<close>

definition committed_text :: "picker \<Rightarrow> string" where
  "committed_text st =
     (if scheduleMode (options st) \<noteq> NoSchedule then join_numbers (formatScheduleArray st)
      else if range_opt (options st) then formatRangeString st (rangeStart st) (rangeEnd st)
      else (case selectedDate st of None \<Rightarrow> [] | Some d \<Rightarrow> formatDate d (format (options st))))"

definition commitValue :: "picker \<Rightarrow> picker" where
  "commitValue st =
     (if \<not> confirm (options st) then st
      else if scheduleMode (options st) \<noteq> NoSchedule then
        (let scheduleArray = formatScheduleArray st;
             formattedString = join_numbers scheduleArray;
             st1 = st\<lparr>inputValue := formattedString\<rparr>;
             st2 = notify (onSelectSchedule (options st1))
                     (OnSelectSchedule (scheduleMode (options st1)) (scheduleWeeklySelected st1)
                        (scheduleMonthlySelected st1) scheduleArray formattedString Confirm) st1;
             st3 = dispatchChange st2
         in if \<not> inline (options st3) then close st3 else st3)
      else
        let st2 =
              (if range_opt (options st) then
                 (let formatted = formatRangeString st (rangeStart st) (rangeEnd st);
                      st1 = st\<lparr>inputValue := formatted\<rparr>
                  in notify (onSelectRange (options st1))
                       (OnSelectRange (rangeStart st1) (rangeEnd st1) formatted Confirm) st1)
               else
                 (let formatted = (case selectedDate st of
                                     None \<Rightarrow> []
                                   | Some d \<Rightarrow> formatDate d (format (options st)));
                      st1 = st\<lparr>inputValue := formatted\<rparr>
                  in notify (onSelect (options st1))
                       (OnSelect (selectedDate st1) formatted Confirm) st1));
            st3 = dispatchChange st2
        in if \<not> inline (options st3) then close st3 else st3)"

subsection \<open>Changing options\<close>

text \<open>
  The argument of \<^verbatim>\<open>updateOptions\<close> is an object that has some of the option keys;
  a key that is absent is \<^term>\<open>None\<close>.  The keys embedded are those below, in the order
  in which \<^verbatim>\<open>updateOptions\<close> handles them; the other keys (header texts, \<open>i18n\<close>,
  \<open>openOnFocus\<close>, \<open>position\<close>, \<open>showAnalogClock\<close>) belong to options that are not embedded,
  and act on the document only.

  The rows of the time controls are built by \<^verbatim>\<open>_buildTimeControls\<close> and
  \<^verbatim>\<open>_buildRangeTimeControls\<close>, which set \<^verbatim>\<open>this.timeRow\<close> and \<^verbatim>\<open>this.timeRangeRow\<close> to a new
  element.  \<^verbatim>\<open>_build\<close> puts the footer into the element \<^verbatim>\<open>mainContainer\<close>, which it puts
  into \<^verbatim>\<open>contentElement\<close>, which it puts into \<^verbatim>\<open>calendarElement\<close>, and nothing moves the
  footer afterwards:
  \<^verbatim>\<open>
      this.mainContainer.appendChild(this.footer);
      ...
      this.contentElement.appendChild(this.mainContainer);
      ...
      this.calendarElement.appendChild(this.contentElement);
  \<close>
  So the footer is not a child of \<^verbatim>\<open>calendarElement\<close>, and a call
  \<^verbatim>\<open>this.calendarElement.insertBefore(row, this.footer)\<close> throws the \<^verbatim>\<open>NotFoundError\<close> of the
  platform, after the row has been built.
  \<^verbatim>\<open>
  updateOptions(partial) {
    if (!partial || typeof partial !== 'object') return;
    if (has(partial, 'onSelectSchedule')) {
      this.options.onSelectSchedule = typeof partial.onSelectSchedule === 'function' ? partial.onSelectSchedule : null;
    }
    if (has(partial, 'scheduleWeeklyMulti')) this.options.scheduleWeeklyMulti = partial.scheduleWeeklyMulti !== false;
    if (has(partial, 'scheduleMonthlyMulti')) this.options.scheduleMonthlyMulti = partial.scheduleMonthlyMulti !== false;
    ...
    if (has(partial, 'scheduleMode')) {
      var prevMode = this.options.scheduleMode || 'none';
      var nextMode = partial.scheduleMode || 'none';
      if (nextMode !== prevMode) {
        this.options.scheduleMode = nextMode;
        // disable time/range when schedule mode is active
        if (nextMode !== 'none') {
          this.options.enableTime = false;
          this.options.range = false;
          if (this.timeRow && this.timeRow.parentNode) this.timeRow.parentNode.removeChild(this.timeRow);
          if (this.timeRangeRow && this.timeRangeRow.parentNode) this.timeRangeRow.parentNode.removeChild(this.timeRangeRow);
          this.timeRow = null; this.timeRangeRow = null;
          ...
        }
        if (nextMode === 'weekly') {
          ...
        } else if (nextMode === 'monthly') {
          ...
            if (this.daysGrid && !this.daysGrid.parentNode) this.mainContainer.insertBefore(this.daysGrid, this.footer);
          ...
        } else {
          // Leaving schedule mode: remove schedule parts and re-attach calendar parts
          ...
            if (this.daysGrid && !this.daysGrid.parentNode) this.mainContainer.insertBefore(this.daysGrid, this.footer);
          ...
        }
        // sync value on mode change
        this._syncScheduleValue('api');
      }
    }
    if (has(partial, 'format')) this.options.format = partial.format || DEFAULT_FORMAT;
    if (has(partial, 'firstDayOfWeek')) this.options.firstDayOfWeek = Number(partial.firstDayOfWeek) || 0;
    if (has(partial, 'minDate')) this.options.minDate = this._normalizeDate(partial.minDate);
    if (has(partial, 'maxDate')) this.options.maxDate = this._normalizeDate(partial.maxDate);
    if (has(partial, 'disableDates')) this.options.disableDates = typeof partial.disableDates === 'function' ? partial.disableDates : null;
    ...
    if (has(partial, 'autoClose')) this.options.autoClose = partial.autoClose !== false;
    if (has(partial, 'showOutsideDays')) this.options.showOutsideDays = partial.showOutsideDays !== false;
    if (has(partial, 'inline')) this.options.inline = Boolean(partial.inline);
    ...
    if (has(partial, 'enableTime')) {
      var enable = Boolean(partial.enableTime);
      // ignore enableTime in schedule mode
      if ((this.options.scheduleMode && this.options.scheduleMode !== 'none')) {
        enable = false;
      }
      if (enable && !this.options.enableTime) {
        this.options.enableTime = true;
        // (forces the Done button on when time selection is switched on)
        if (!this.options.confirm) {
          this.options.confirm = true;
          ...
        }
        if (this.options.range) {
          if (this.timeRow && this.timeRow.parentNode) this.timeRow.parentNode.removeChild(this.timeRow);
          this.timeRow = null; this.ampmSelect = null;
          if (!this.timeRangeRow) { this._buildRangeTimeControls(); if (this.timeRangeRow) this.calendarElement.insertBefore(this.timeRangeRow, this.footer); }
        } else {
          if (!this.timeRow) { this._buildTimeControls(); if (this.timeRow) this.calendarElement.insertBefore(this.timeRow, this.footer); }
        }
      } else if (!enable && this.options.enableTime) {
        this.options.enableTime = false;
        if (this.timeRow && this.timeRow.parentNode) this.timeRow.parentNode.removeChild(this.timeRow);
        if (this.timeRangeRow && this.timeRangeRow.parentNode) this.timeRangeRow.parentNode.removeChild(this.timeRangeRow);
        this.timeRow = null; this.timeRangeRow = null;
        ...
      }
    }
    if (has(partial, 'timeStep')) {
      var oldStep = this.options.timeStep;
      this.options.timeStep = Number(partial.timeStep) > 0 ? Number(partial.timeStep) : oldStep;
      ... // rebuilds the options of the minute controls
    }
    ...
    if (has(partial, 'hour12')) {
      var want12 = Boolean(partial.hour12);
      if (want12 !== this.options.hour12) {
        this.options.hour12 = want12;
        if (this.options.enableTime) {
          // Rebuild time controls or adjust existing
          if (!this.timeRow) {
            this._buildTimeControls();
            if (this.timeRow) {
              this.calendarElement.insertBefore(this.timeRow, this.footer);
            }
          } else {
            ... // rebuilds the options of the hour controls
          }
        }
      }
    }
    if (has(partial, 'range')) {
      var wantRange = Boolean(partial.range);
      // ignore range in schedule mode
      if ((this.options.scheduleMode && this.options.scheduleMode !== 'none')) {
        wantRange = false;
      }
      if (wantRange !== this.options.range) {
        this.options.range = wantRange;
        if (this.options.range) {
          // Switch to range mode
          if (this.timeRow && this.timeRow.parentNode) { this.timeRow.parentNode.removeChild(this.timeRow); }
          this.timeRow = null; this.ampmSelect = null;
          if (this.options.enableTime && !this.timeRangeRow) { this._buildRangeTimeControls(); if (this.timeRangeRow) this.calendarElement.insertBefore(this.timeRangeRow, this.footer); }
          this.selectedDate = null;
          const existing = String(this.inputElement.value || '').trim();
          const rg = existing ? this._parseRangeString(existing) : null;
          this.rangeStart = rg ? rg.start : null;
          this.rangeEnd = rg ? rg.end : null;
        } else {
          // Switch to single mode
          const carry = this.rangeStart ? new Date(this.rangeStart.getTime()) : null;
          this.rangeStart = null; this.rangeEnd = null; this.hoveringDate = null;
          if (this.timeRangeRow && this.timeRangeRow.parentNode) { this.timeRangeRow.parentNode.removeChild(this.timeRangeRow); }
          this.timeRangeRow = null; this.startAmpmSelect = null; this.endAmpmSelect = null;
          if (this.options.enableTime && !this.timeRow) { this._buildTimeControls(); if (this.timeRow) this.calendarElement.insertBefore(this.timeRow, this.footer); }
          this.setDate(carry, 'api');
        }
      }
    }
    if (has(partial, 'rangeSeparator')) {
      this.options.rangeSeparator = partial.rangeSeparator || this.options.rangeSeparator || ' - ';
    }
    if (has(partial, 'confirm')) {
      var wantConfirm = Boolean(partial.confirm);
      if (wantConfirm !== this.options.confirm) {
        this.options.confirm = wantConfirm;
        ... // adds or removes the Done button
      }
    }
    this._renderWeekdays();
    this._render();
  }
  \<close>
\<close>

record partial_options =
  p_onSelectSchedule :: "bool option"
  p_scheduleWeeklyMulti :: "bool option"
  p_scheduleMonthlyMulti :: "bool option"
  p_scheduleMode :: "schedule_mode option"
  p_format :: "string option"
  p_firstDayOfWeek :: "int option"
  p_minDate :: "date_arg option"
  p_maxDate :: "date_arg option"
  p_disableDates :: "(date \<Rightarrow> bool) option option"
  p_autoClose :: "bool option"
  p_showOutsideDays :: "bool option"
  p_inline :: "bool option"
  p_enableTime :: "bool option"
  p_timeStep :: "int option"
  p_hour12 :: "bool option"
  p_range :: "bool option"
  p_rangeSeparator :: "string option"
  p_confirm :: "bool option"

definition on_key :: "'k option \<Rightarrow> ('k \<Rightarrow> picker \<Rightarrow> outcome) \<Rightarrow> picker \<Rightarrow> outcome" where
  "on_key k f st = (case k of None \<Rightarrow> Inr st | Some v \<Rightarrow> f v st)"

definition set_options :: "(picker_options \<Rightarrow> picker_options) \<Rightarrow> picker \<Rightarrow> picker" where
  "set_options f st = st\<lparr>options := f (options st)\<rparr>"

definition upd_scheduleMode :: "schedule_mode \<Rightarrow> picker \<Rightarrow> outcome" where
  "upd_scheduleMode nextMode st =
     (let prevMode = scheduleMode (options st)
      in if nextMode \<noteq> prevMode then
           (let st1 = set_options (\<lambda>opts. opts\<lparr>scheduleMode := nextMode\<rparr>) st;
                st2 = (if nextMode \<noteq> NoSchedule
                       then (set_options (\<lambda>opts. opts\<lparr>enableTime := False, range_opt := False\<rparr>) st1)
                              \<lparr>timeRow := False, timeRangeRow := False\<rparr>
                       else st1)
            in Inr (syncScheduleValue st2 Api))
         else Inr st)"

definition upd_enableTime :: "bool \<Rightarrow> picker \<Rightarrow> outcome" where
  "upd_enableTime v st =
     (let enable = (if scheduleMode (options st) \<noteq> NoSchedule then False else v)
      in if enable \<and> \<not> enableTime (options st) then
           (let st1 = set_options (\<lambda>opts. opts\<lparr>enableTime := True\<rparr>) st;
                st2 = (if \<not> confirm (options st1)
                       then set_options (\<lambda>opts. opts\<lparr>confirm := True\<rparr>) st1 else st1)
            in if range_opt (options st2) then
                 (let st3 = st2\<lparr>timeRow := False\<rparr>
                  in if \<not> timeRangeRow st3 then Inl (NotFoundError, st3\<lparr>timeRangeRow := True\<rparr>)
                     else Inr st3)
               else if \<not> timeRow st2 then Inl (NotFoundError, st2\<lparr>timeRow := True\<rparr>)
               else Inr st2)
         else if \<not> enable \<and> enableTime (options st) then
           Inr ((set_options (\<lambda>opts. opts\<lparr>enableTime := False\<rparr>) st)
                  \<lparr>timeRow := False, timeRangeRow := False\<rparr>)
         else Inr st)"

definition upd_timeStep :: "int \<Rightarrow> picker \<Rightarrow> outcome" where
  "upd_timeStep v st =
     (let oldStep = timeStep (options st)
      in Inr (set_options (\<lambda>opts. opts\<lparr>timeStep := (if v > 0 then v else oldStep)\<rparr>) st))"

definition upd_hour12 :: "bool \<Rightarrow> picker \<Rightarrow> outcome" where
  "upd_hour12 want12 st =
     (if want12 \<noteq> hour12 (options st) then
        (let st1 = set_options (\<lambda>opts. opts\<lparr>hour12 := want12\<rparr>) st
         in if enableTime (options st1) \<and> \<not> timeRow st1
            then Inl (NotFoundError, st1\<lparr>timeRow := True\<rparr>)
            else Inr st1)
      else Inr st)"

definition upd_range :: "bool \<Rightarrow> picker \<Rightarrow> outcome" where
  "upd_range v st =
     (let wantRange = (if scheduleMode (options st) \<noteq> NoSchedule then False else v)
      in if wantRange \<noteq> range_opt (options st) then
           (let st1 = set_options (\<lambda>opts. opts\<lparr>range_opt := wantRange\<rparr>) st
            in if range_opt (options st1) then
                 (let st2 = st1\<lparr>timeRow := False\<rparr>
                  in if enableTime (options st2) \<and> \<not> timeRangeRow st2
                     then Inl (NotFoundError, st2\<lparr>timeRangeRow := True\<rparr>)
                     else
                       let st3 = st2\<lparr>selectedDate := None\<rparr>;
                           existing = trim (inputValue st3)
                       in throw_in st3
                            (if existing \<noteq> [] then parseRangeString st3 existing else Inr None)
                            (\<lambda>rg. Inr (st3\<lparr>rangeStart := (case rg of Some se \<Rightarrow> fst se | None \<Rightarrow> None),
                                             rangeEnd := (case rg of Some se \<Rightarrow> snd se | None \<Rightarrow> None)\<rparr>)))
               else
                 (let carry = rangeStart st1;
                      st2 = st1\<lparr>rangeStart := None, rangeEnd := None, hoveringDate := None,
                                timeRangeRow := False\<rparr>
                  in if enableTime (options st2) \<and> \<not> timeRow st2
                     then Inl (NotFoundError, st2\<lparr>timeRow := True\<rparr>)
                     else setDate st2 (arg_of_date carry) (Some Api)))
         else Inr st)"

definition upd_confirm :: "bool \<Rightarrow> picker \<Rightarrow> outcome" where
  "upd_confirm wantConfirm st =
     (if wantConfirm \<noteq> confirm (options st)
      then Inr (set_options (\<lambda>opts. opts\<lparr>confirm := wantConfirm\<rparr>) st)
      else Inr st)"

definition upd_minDate :: "date_arg \<Rightarrow> picker \<Rightarrow> outcome" where
  "upd_minDate a st =
     throw_in st (normalizeDate st a) (\<lambda>d. Inr (set_options (\<lambda>opts. opts\<lparr>minDate := d\<rparr>) st))"

definition upd_maxDate :: "date_arg \<Rightarrow> picker \<Rightarrow> outcome" where
  "upd_maxDate a st =
     throw_in st (normalizeDate st a) (\<lambda>d. Inr (set_options (\<lambda>opts. opts\<lparr>maxDate := d\<rparr>) st))"

definition updateOptions :: "picker \<Rightarrow> partial_options \<Rightarrow> outcome" where
  "updateOptions st partial =
     bind_fault (on_key (p_onSelectSchedule partial)
       (\<lambda>v s. Inr (set_options (\<lambda>opts. opts\<lparr>onSelectSchedule := v\<rparr>) s)) st) (\<lambda>s0.
     bind_fault (on_key (p_scheduleWeeklyMulti partial)
       (\<lambda>v s. Inr (set_options (\<lambda>opts. opts\<lparr>scheduleWeeklyMulti := v\<rparr>) s)) s0) (\<lambda>s1.
     bind_fault (on_key (p_scheduleMonthlyMulti partial)
       (\<lambda>v s. Inr (set_options (\<lambda>opts. opts\<lparr>scheduleMonthlyMulti := v\<rparr>) s)) s1) (\<lambda>s2.
     bind_fault (on_key (p_scheduleMode partial) upd_scheduleMode s2) (\<lambda>s3.
     bind_fault (on_key (p_format partial)
       (\<lambda>v s. Inr (set_options (\<lambda>opts. opts\<lparr>format := (if v = [] then DEFAULT_FORMAT else v)\<rparr>) s)) s3) (\<lambda>s4.
     bind_fault (on_key (p_firstDayOfWeek partial)
       (\<lambda>v s. Inr (set_options (\<lambda>opts. opts\<lparr>firstDayOfWeek := v\<rparr>) s)) s4) (\<lambda>s5.
     bind_fault (on_key (p_minDate partial) upd_minDate s5) (\<lambda>s6.
     bind_fault (on_key (p_maxDate partial) upd_maxDate s6) (\<lambda>s7.
     bind_fault (on_key (p_disableDates partial)
       (\<lambda>v s. Inr (set_options (\<lambda>opts. opts\<lparr>disableDates := v\<rparr>) s)) s7) (\<lambda>s8.
     bind_fault (on_key (p_autoClose partial)
       (\<lambda>v s. Inr (set_options (\<lambda>opts. opts\<lparr>autoClose := v\<rparr>) s)) s8) (\<lambda>s9.
     bind_fault (on_key (p_showOutsideDays partial)
       (\<lambda>v s. Inr (set_options (\<lambda>opts. opts\<lparr>showOutsideDays := v\<rparr>) s)) s9) (\<lambda>s10.
     bind_fault (on_key (p_inline partial)
       (\<lambda>v s. Inr (set_options (\<lambda>opts. opts\<lparr>inline := v\<rparr>) s)) s10) (\<lambda>s11.
     bind_fault (on_key (p_enableTime partial) upd_enableTime s11) (\<lambda>s12.
     bind_fault (on_key (p_timeStep partial) upd_timeStep s12) (\<lambda>s13.
     bind_fault (on_key (p_hour12 partial) upd_hour12 s13) (\<lambda>s14.
     bind_fault (on_key (p_range partial) upd_range s14) (\<lambda>s15.
     bind_fault (on_key (p_rangeSeparator partial)
       (\<lambda>v s. Inr (set_options (\<lambda>opts. opts\<lparr>rangeSeparator :=
          (if v \<noteq> [] then v else if rangeSeparator opts \<noteq> [] then rangeSeparator opts else '' - '')\<rparr>) s)) s15) (\<lambda>s16.
     on_key (p_confirm partial) upd_confirm s16)))))))))))))))))"

text \<open>The argument \<^verbatim>\<open>{}\<close>, with no key.\<close>

definition no_keys :: partial_options where
  "no_keys =
     \<lparr>p_onSelectSchedule = None, p_scheduleWeeklyMulti = None, p_scheduleMonthlyMulti = None,
      p_scheduleMode = None, p_format = None, p_firstDayOfWeek = None, p_minDate = None,
      p_maxDate = None, p_disableDates = None, p_autoClose = None, p_showOutsideDays = None,
      p_inline = None, p_enableTime = None, p_timeStep = None, p_hour12 = None,
      p_range = None, p_rangeSeparator = None, p_confirm = None\<rparr>"

text \<open>
  \<^verbatim>\<open>
  setSchedule(payload, source) {
    if (!payload || typeof payload !== 'object') return;
    if (payload.mode && payload.mode !== this.options.scheduleMode) {
      this.updateOptions({ scheduleMode: payload.mode });
    }
    if (this.options.scheduleMode === 'weekly' && payload.weekly && Array.isArray(payload.weekly)) {
      this.scheduleWeeklySelected.clear();
      for (var i = 0; i < payload.weekly.length; i += 1) {
        this.scheduleWeeklySelected.add(payload.weekly[i]);
      }
    } else if (this.options.scheduleMode === 'monthly' && payload.monthly && Array.isArray(payload.monthly)) {
      this.scheduleMonthlySelected.clear();
      for (var j = 0; j < payload.monthly.length; j += 1) {
        this.scheduleMonthlySelected.add(payload.monthly[j]);
      }
    }
    this._syncScheduleValue(source || 'api');
    this._render();
  }
  \<close>
\<close>

record schedule_payload =
  payload_mode :: "schedule_mode option"
  payload_weekly :: "int list option"
  payload_monthly :: "int list option"

definition setSchedule :: "picker \<Rightarrow> schedule_payload \<Rightarrow> source option \<Rightarrow> outcome" where
  "setSchedule st payload src =
     bind_fault
       (case payload_mode payload of
          Some m \<Rightarrow>
            if m \<noteq> scheduleMode (options st)
            then updateOptions st (no_keys\<lparr>p_scheduleMode := Some m\<rparr>) else Inr st
        | None \<Rightarrow> Inr st)
       (\<lambda>st1.
          let st2 =
                (if scheduleMode (options st1) = Weekly \<and> payload_weekly payload \<noteq> None then
                   st1\<lparr>scheduleWeeklySelected := set_of_array (the (payload_weekly payload))\<rparr>
                 else if scheduleMode (options st1) = Monthly \<and> payload_monthly payload \<noteq> None then
                   st1\<lparr>scheduleMonthlySelected := set_of_array (the (payload_monthly payload))\<rparr>
                 else st1)
          in Inr (syncScheduleValue st2 (source_or_api src)))"

subsection \<open>Construction\<close>

text \<open>
  The options object given to the constructor, after the coercions the constructor
  applies to each key (\<^verbatim>\<open>Boolean(x)\<close>, \<^verbatim>\<open>x !== false\<close>, \<^verbatim>\<open>typeof x === 'function'\<close>).
  The embedding is of a picker built on an input element whose value is empty, so the
  part of the constructor that reads an existing value is not entered.
  \<^verbatim>\<open>
  constructor(inputOrSelector, options) {
    ...
    this.options = {
      format: initialOptions.format || DEFAULT_FORMAT,
      firstDayOfWeek,
      minDate: this._normalizeDate(initialOptions.minDate),
      maxDate: this._normalizeDate(initialOptions.maxDate),
      ...
      enableTime: Boolean(initialOptions.enableTime),
      timeStep: Number(initialOptions.timeStep) > 0 ? Number(initialOptions.timeStep) : 5,
      ...
      range: Boolean(initialOptions.range),
      rangeSeparator: initialOptions.rangeSeparator || ' - ',
      confirm: Boolean(initialOptions.confirm),
      scheduleMode: initialOptions.scheduleMode || 'none',
      scheduleWeeklyMulti: initialOptions.scheduleWeeklyMulti !== false,
      scheduleMonthlyMulti: initialOptions.scheduleMonthlyMulti !== false,
      ...
    };
    // (in a schedule mode the time and range features are switched off)
    if (this.options.scheduleMode && this.options.scheduleMode !== 'none') {
      this.options.enableTime = false;
      this.options.range = false;
    }
    // (when time selection is available, the Done button is always on)
    if (this.options.enableTime) {
      this.options.confirm = true;
    }
    this.selectedDate = null;
    this.scheduleWeeklySelected = new Set(); // values: 0..6 (Sun..Sat)
    this.scheduleMonthlySelected = new Set(); // values: 1..31
    this.weeklyRow = null;
    this.rangeStart = null;
    this.rangeEnd = null;
    this.hoveringDate = null;
    this.startHours = 0; this.startMinutes = 0;
    this.endHours = 0; this.endMinutes = 0;
    this.focusedDate = null;
    this.currentViewMonth = startOfMonth(new Date());
    this.isOpen = false;
    this.timeHours = 0;
    this.timeMinutes = 0;
    const existingValue = String(this.inputElement.value || '').trim();
    if (existingValue) { ... }
    this._build();
    if (this.options.inline) {
      this.open();
    } else ...
  }
  _build() {
    ...
    // (the days grid is not created in the weekly mode)
    this.daysGrid = null;
    if (this.options.scheduleMode !== 'weekly') {
      this.daysGrid = createElement('div', 'dp-days', { role: 'grid' });
    }
    ...
    this.timeRow = null;
    this.timeRangeRow = null;
    if (this.options.enableTime) {
      if (this.options.range) {
        this._buildRangeTimeControls();
      } else {
        this._buildTimeControls();
      }
    }
    ...
  }
  \<close>
  The comments in parentheses are translated from the Korean of the source.  A throw in
  the constructor leaves no picker behind.
\<close>

record initial_options =
  i_format :: string
  i_firstDayOfWeek :: int
  i_minDate :: date_arg
  i_maxDate :: date_arg
  i_disableDates :: "(date \<Rightarrow> bool) option"
  i_onSelect :: bool
  i_onSelectRange :: bool
  i_onSelectSchedule :: bool
  i_autoClose :: bool
  i_showOutsideDays :: bool
  i_inline :: bool
  i_enableTime :: bool
  i_timeStep :: int
  i_hour12 :: bool
  i_range :: bool
  i_rangeSeparator :: string
  i_confirm :: bool
  i_scheduleMode :: schedule_mode
  i_scheduleWeeklyMulti :: bool
  i_scheduleMonthlyMulti :: bool

definition new_DatePicker :: "initial_options \<Rightarrow> date \<Rightarrow> fault + picker" where
  "new_DatePicker initialOptions now =
     bind_fault (normalizeDateWith False [] (i_minDate initialOptions)) (\<lambda>mn.
     bind_fault (normalizeDateWith False [] (i_maxDate initialOptions)) (\<lambda>mx.
       let opts0 =
             \<lparr>format = (if i_format initialOptions = [] then DEFAULT_FORMAT
                        else i_format initialOptions),
              firstDayOfWeek = i_firstDayOfWeek initialOptions,
              minDate = mn,
              maxDate = mx,
              disableDates = i_disableDates initialOptions,
              onSelect = i_onSelect initialOptions,
              onSelectRange = i_onSelectRange initialOptions,
              onSelectSchedule = i_onSelectSchedule initialOptions,
              autoClose = i_autoClose initialOptions,
              showOutsideDays = i_showOutsideDays initialOptions,
              inline = i_inline initialOptions,
              enableTime = i_enableTime initialOptions,
              timeStep = (if i_timeStep initialOptions > 0 then i_timeStep initialOptions else 5),
              hour12 = i_hour12 initialOptions,
              range_opt = i_range initialOptions,
              rangeSeparator = (if i_rangeSeparator initialOptions = [] then '' - ''
                                else i_rangeSeparator initialOptions),
              confirm = i_confirm initialOptions,
              scheduleMode = i_scheduleMode initialOptions,
              scheduleWeeklyMulti = i_scheduleWeeklyMulti initialOptions,
              scheduleMonthlyMulti = i_scheduleMonthlyMulti initialOptions\<rparr>;
           opts1 = (if scheduleMode opts0 \<noteq> NoSchedule
                    then opts0\<lparr>enableTime := False, range_opt := False\<rparr> else opts0);
           opts2 = (if enableTime opts1 then opts1\<lparr>confirm := True\<rparr> else opts1)
       in Inr \<lparr>options = opts2,
               selectedDate = None,
               scheduleWeeklySelected = [],
               scheduleMonthlySelected = [],
               rangeStart = None,
               rangeEnd = None,
               hoveringDate = None,
               startHours = 0, startMinutes = 0,
               endHours = 0, endMinutes = 0,
               focusedDate = None,
               currentViewMonth = startOfMonth now,
               isOpen = inline opts2,
               timeHours = 0,
               timeMinutes = 0,
               daysGrid = (scheduleMode opts2 \<noteq> Weekly),
               timeRow = (enableTime opts2 \<and> \<not> range_opt opts2),
               timeRangeRow = (enableTime opts2 \<and> range_opt opts2),
               inputValue = [],
               notified = [],
               changeEvents = 0\<rparr>))"

subsection \<open>The grid\<close>

text \<open>
  \<^verbatim>\<open>_render\<close> empties the grid element and fills it again.  The children it appends are
  embedded as a list: a filler, a day button with its date and its flags (outside the
  month shown, today, selected, disabled), or, in the monthly schedule, a button for a
  day number with its selected flag.
  \<^verbatim>\<open>
  _render() {
    this._syncMonthYearControls();
    if (this.daysGrid) {
      this.daysGrid.textContent = '';
    }
    if (this.options.scheduleMode === 'monthly' && this.daysGrid) {
      for (let d = 1; d <= 31; d += 1) {
        const cell = createElement('button', 'dp-day', { ...
          'aria-selected': String(this.scheduleMonthlySelected.has(d)), ... });
        ...
        this.daysGrid.appendChild(cell);
      }
      this._updateClock();
      return;
    }
    if (this.daysGrid && this.options.scheduleMode === 'none') {
      const firstDay = startOfMonth(this.currentViewMonth);
      const gridStart = startOfWeek(firstDay, this.options.firstDayOfWeek);
      // (always renders 6 weeks, 42 days)
      for (let i = 0; i < 42; i += 1) {
        const dayDate = addDays(gridStart, i);
        const isOutside = dayDate.getMonth() !== this.currentViewMonth.getMonth();
        if (!this.options.showOutsideDays && isOutside) {
          const filler = createElement('div', 'dp-day is-empty', { role: 'gridcell', 'aria-disabled': 'true' });
          this.daysGrid.appendChild(filler);
          continue;
        }
        const isToday = areSameCalendarDate(dayDate, new Date());
        const isSelectedSingle = (this.options.scheduleMode === 'none' && !this.options.range && this.selectedDate)
          ? areSameCalendarDate(dayDate, this.selectedDate)
          : false;
        const disabledByBounds = isDateOutOfBounds(dayDate, this.options.minDate, this.options.maxDate);
        const disabledByFn = this.options.disableDates ? this.options.disableDates(dayDate) : false;
        const isDisabled = disabledByBounds || Boolean(disabledByFn);
        const cell = createElement('button', 'dp-day', { ... 'data-date': toISODateString(dayDate) });
        ...
        if (!isDisabled) {
          var selfCell = this;
          if (this.options.range) {
            cell.addEventListener('click', function () {
              selfCell._handleRangeClick(dayDate);
            });
            ...
          } else {
            cell.addEventListener('click', function () {
              selfCell._selectDate(dayDate, 'user');
              if (!selfCell.options.confirm && selfCell.options.autoClose && !selfCell.options.inline && !selfCell.options.enableTime) selfCell.close();
            });
          }
        }
        this.daysGrid.appendChild(cell);
      }
    }
    ...
  }
  \<close>
\<close>

datatype cell =
    Filler
  | DayCell date bool bool bool bool
  | NumberCell int bool

definition render_day :: "picker \<Rightarrow> date \<Rightarrow> date \<Rightarrow> nat \<Rightarrow> cell" where
  "render_day st now gridStart i =
     (let dayDate = addDays gridStart (int i);
          isOutside = (getMonth dayDate \<noteq> getMonth (currentViewMonth st))
      in if \<not> showOutsideDays (options st) \<and> isOutside then Filler
         else
           let isToday = areSameCalendarDate dayDate now;
               isSelectedSingle =
                 (case selectedDate st of
                    Some sel \<Rightarrow>
                      if scheduleMode (options st) = NoSchedule \<and> \<not> range_opt (options st)
                      then areSameCalendarDate dayDate sel else False
                  | None \<Rightarrow> False);
               disabledByBounds =
                 isDateOutOfBounds dayDate (minDate (options st)) (maxDate (options st));
               isDisabled = (disabledByBounds \<or> disabledByFn st dayDate)
           in DayCell dayDate isOutside isToday isSelectedSingle isDisabled)"

definition render :: "picker \<Rightarrow> date \<Rightarrow> cell list" where
  "render st now =
     (if scheduleMode (options st) = Monthly \<and> daysGrid st then
        map (\<lambda>d. NumberCell d (d \<in> set (scheduleMonthlySelected st))) [1..31]
      else if daysGrid st \<and> scheduleMode (options st) = NoSchedule then
        (let firstDay = startOfMonth (currentViewMonth st);
             gridStart = startOfWeek firstDay (firstDayOfWeek (options st))
         in map (render_day st now gridStart) [0..<42])
      else [])"

text \<open>The click listener that \<^verbatim>\<open>_render\<close> puts on a day button that is not disabled.\<close>

definition cellClick :: "picker \<Rightarrow> date \<Rightarrow> picker" where
  "cellClick st dayDate =
     (if range_opt (options st) then handleRangeClick st dayDate
      else
        let st1 = selectDate st dayDate User
        in if \<not> confirm (options st1) \<and> autoClose (options st1) \<and> \<not> inline (options st1)
              \<and> \<not> enableTime (options st1)
           then close st1 else st1)"

section \<open>Sample pickers\<close>

text \<open>
  Concrete values for the worked examples below: a moment, the options object \<^verbatim>\<open>{}\<close>
  after the constructor's coercions, and the picker that \<^verbatim>\<open>new DatePicker(input, {})\<close>
  builds at that moment on an empty input element.
\<close>

definition sample_now :: date where
  "sample_now = \<lparr>getFullYear = 2024, getMonth = 2, getDate = 15, getHours = 10, getMinutes = 0\<rparr>"

definition ymd :: "int \<Rightarrow> int \<Rightarrow> int \<Rightarrow> date" where
  "ymd y m d = \<lparr>getFullYear = y, getMonth = m, getDate = d, getHours = 0, getMinutes = 0\<rparr>"

definition default_initial_options :: initial_options where
  "default_initial_options =
     \<lparr>i_format = [], i_firstDayOfWeek = 0, i_minDate = ArgNull, i_maxDate = ArgNull,
      i_disableDates = None, i_onSelect = False, i_onSelectRange = False,
      i_onSelectSchedule = False, i_autoClose = True, i_showOutsideDays = True,
      i_inline = False, i_enableTime = False, i_timeStep = 5, i_hour12 = False,
      i_range = False, i_rangeSeparator = [], i_confirm = False,
      i_scheduleMode = NoSchedule, i_scheduleWeeklyMulti = True,
      i_scheduleMonthlyMulti = True\<rparr>"

definition default_options :: picker_options where
  "default_options =
     \<lparr>format = ''yyyy-MM-dd'', firstDayOfWeek = 0, minDate = None, maxDate = None,
      disableDates = None, onSelect = False, onSelectRange = False,
      onSelectSchedule = False, autoClose = True, showOutsideDays = True,
      inline = False, enableTime = False, timeStep = 5, hour12 = False,
      range_opt = False, rangeSeparator = '' - '', confirm = False,
      scheduleMode = NoSchedule, scheduleWeeklyMulti = True,
      scheduleMonthlyMulti = True\<rparr>"

definition blank_picker :: "picker_options \<Rightarrow> picker" where
  "blank_picker opts =
     \<lparr>options = opts, selectedDate = None, scheduleWeeklySelected = [],
      scheduleMonthlySelected = [], rangeStart = None, rangeEnd = None,
      hoveringDate = None, startHours = 0, startMinutes = 0, endHours = 0,
      endMinutes = 0, focusedDate = None, currentViewMonth = ymd 2024 2 1,
      isOpen = inline opts, timeHours = 0, timeMinutes = 0,
      daysGrid = (scheduleMode opts \<noteq> Weekly),
      timeRow = (enableTime opts \<and> \<not> range_opt opts),
      timeRangeRow = (enableTime opts \<and> range_opt opts),
      inputValue = [], notified = [], changeEvents = 0\<rparr>"

text \<open>
  A picker in range mode with the bounds 1 January 2024 and 31 December 2024 that holds
  the range from 10 to 20 March 2024.
\<close>

definition bounded_range_picker :: picker where
  "bounded_range_picker =
     (blank_picker (default_options\<lparr>minDate := Some (ymd 2024 0 1),
        maxDate := Some (ymd 2024 11 31), onSelectRange := True, range_opt := True\<rparr>))
     \<lparr>rangeStart := Some (ymd 2024 2 10), rangeEnd := Some (ymd 2024 2 20),
      inputValue := ''2024-03-10 - 2024-03-20''\<rparr>"

section \<open>Format patterns made of tokens and separators\<close>























section \<open>What the outside sees\<close>

text \<open>
  Two pickers show the same to the bound input element when its value is the same and no
  \<open>change\<close> event lies between them.  The callback that reports the selection is the one
  of the mode the picker is in, as \<^verbatim>\<open>_commitValue\<close> chooses it.
\<close>

definition field_untouched :: "picker \<Rightarrow> picker \<Rightarrow> bool" where
  "field_untouched st st' =
     (inputValue st' = inputValue st \<and> changeEvents st' = changeEvents st)"

definition mode_callback :: "picker \<Rightarrow> bool" where
  "mode_callback st =
     (if scheduleMode (options st) \<noteq> NoSchedule then onSelectSchedule (options st)
      else if range_opt (options st) then onSelectRange (options st)
      else onSelect (options st))"

text \<open>
  The call of \<^verbatim>\<open>onSelect\<close>, of \<^verbatim>\<open>onSelectRange\<close> and of \<^verbatim>\<open>onSelectSchedule\<close> that reports
  the selection a picker holds, with the text of that selection and a source tag; and
  the calls made of a callback: one call when it is registered, none when it is not.
\<close>

definition report_single :: "picker \<Rightarrow> source \<Rightarrow> notification" where
  "report_single st src =
     OnSelect (selectedDate st)
       (case selectedDate st of None \<Rightarrow> [] | Some d \<Rightarrow> formatDate d (format (options st))) src"

definition report_range :: "picker \<Rightarrow> source \<Rightarrow> notification" where
  "report_range st src =
     OnSelectRange (rangeStart st) (rangeEnd st)
       (formatRangeString st (rangeStart st) (rangeEnd st)) src"

definition report_schedule :: "picker \<Rightarrow> source \<Rightarrow> notification" where
  "report_schedule st src =
     OnSelectSchedule (scheduleMode (options st)) (scheduleWeeklySelected st)
       (scheduleMonthlySelected st) (formatScheduleArray st)
       (join_numbers (formatScheduleArray st)) src"

definition mode_report :: "picker \<Rightarrow> source \<Rightarrow> notification" where
  "mode_report st src =
     (if scheduleMode (options st) \<noteq> NoSchedule then report_schedule st src
      else if range_opt (options st) then report_range st src
      else report_single st src)"

definition calls :: "bool \<Rightarrow> notification \<Rightarrow> notification list" where
  "calls registered n = (if registered then [n] else [])"

section \<open>Minute snapping\<close>

lemma floor_ceil_step:
  fixes m s :: int
  assumes s: "0 < s"
  shows "(m div s) * s = m - m mod s"
    and "(- ((- m) div s)) * s = (if m mod s = 0 then m else m - m mod s + s)"
proof -
  show a: "(m div s) * s = m - m mod s"
    by (simp add: minus_mod_eq_div_mult)
  have "(- m) div s = (if m mod s = 0 then - (m div s) else - (m div s) - 1)"
    using s by (simp add: zdiv_zminus1_eq_if)
  then have "(- ((- m) div s)) * s = (if m mod s = 0 then (m div s) * s else (m div s) * s + s)"
    by (simp add: algebra_simps)
  then show "(- ((- m) div s)) * s = (if m mod s = 0 then m else m - m mod s + s)"
    using a by simp
qed

lemma multiple_outside_gap:
  fixes m s j :: int
  assumes s: "0 < s" and j: "s dvd j"
  shows "j \<le> m - m mod s \<or> m - m mod s + s \<le> j"
proof -
  obtain k where k: "j = s * k" using j by (auto simp: dvd_def)
  have d: "m - m mod s = s * (m div s)" by (simp add: minus_mod_eq_mult_div)
  show ?thesis
  proof (cases "k \<le> m div s")
    case True
    then have "s * k \<le> s * (m div s)" using s by (simp add: mult_left_mono)
    then show ?thesis using k d by simp
  next
    case False
    then have "m div s + 1 \<le> k" by simp
    then have "s * (m div s + 1) \<le> s * k" using s by (simp only: mult_left_mono)
    moreover have "s * (m div s + 1) = s * (m div s) + s" by (simp add: distrib_left)
    ultimately show ?thesis using k d by linarith
  qed
qed

text \<open>
  C2, as the code has it.  A negative step returns the minute unchanged; a step of 0 is
  replaced by 5; for a positive step \<open>s\<close> the result is \<open>n % 60\<close>, where \<open>n\<close> is the multiple
  of \<open>s\<close> nearest to the minute \<open>m\<close>: no multiple of \<open>s\<close> is nearer, \<open>n\<close> differs from \<open>m\<close>
  by at most \<open>s / 2\<close>, and at exactly \<open>s / 2\<close> it is the lower one.
\<close>

theorem clampMinuteToStep_nearest:
  fixes m s :: int
  shows "(s < 0 \<longrightarrow> clampMinuteToStep m s = m) \<and>
         clampMinuteToStep m 0 = clampMinuteToStep m 5 \<and>
         (0 < s \<longrightarrow>
            (\<exists>n. s dvd n \<and> 2 * \<bar>m - n\<bar> \<le> s \<and> (2 * \<bar>m - n\<bar> = s \<longrightarrow> n \<le> m) \<and>
                 (\<forall>j. s dvd j \<longrightarrow> \<bar>m - n\<bar> \<le> \<bar>m - j\<bar>) \<and>
                 clampMinuteToStep m s = js_rem n 60))"
proof (intro conjI impI)
  assume "s < 0"
  then show "clampMinuteToStep m s = m" by (simp add: clampMinuteToStep_def)
next
  show "clampMinuteToStep m 0 = clampMinuteToStep m 5" by (simp add: clampMinuteToStep_def)
next
  assume s: "0 < s"
  define r where "r = m mod s"
  have r: "0 \<le> r" "r < s" using s by (simp_all add: r_def)
  have down: "(m div s) * s = m - r" using floor_ceil_step(1)[OF s] by (simp add: r_def)
  have up: "(- ((- m) div s)) * s = (if r = 0 then m else m - r + s)"
    using floor_ceil_step(2)[OF s] by (simp add: r_def)
  have dvd_down: "s dvd m - r" by (simp add: r_def minus_mod_eq_mult_div)
  have gap: "\<And>j. s dvd j \<Longrightarrow> j \<le> m - r \<or> m - r + s \<le> j"
    using multiple_outside_gap[OF s] by (simp add: r_def)
  have c: "clampMinuteToStep m s =
      (if \<bar>m - (m - r)\<bar> \<le> \<bar>(if r = 0 then m else m - r + s) - m\<bar> then js_rem (m - r) 60
       else js_rem (if r = 0 then m else m - r + s) 60)"
  proof -
    have up': "- ((- m) div s * s) = (if r = 0 then m else m - r + s)" using up by simp
    show ?thesis using s by (simp add: clampMinuteToStep_def Let_def down up')
  qed
  show "\<exists>n. s dvd n \<and> 2 * \<bar>m - n\<bar> \<le> s \<and> (2 * \<bar>m - n\<bar> = s \<longrightarrow> n \<le> m) \<and>
     (\<forall>j. s dvd j \<longrightarrow> \<bar>m - n\<bar> \<le> \<bar>m - j\<bar>) \<and> clampMinuteToStep m s = js_rem n 60"
  proof (cases "2 * r \<le> s")
    case True
    have res: "clampMinuteToStep m s = js_rem (m - r) 60"
      using c r True by (simp split: if_splits)
    have near: "\<forall>j. s dvd j \<longrightarrow> \<bar>m - (m - r)\<bar> \<le> \<bar>m - j\<bar>"
    proof (intro allI impI)
      fix j assume "s dvd j"
      from gap[OF this] show "\<bar>m - (m - r)\<bar> \<le> \<bar>m - j\<bar>" using r True by linarith
    qed
    show ?thesis
      by (rule exI[of _ "m - r"]) (use dvd_down res near r True in simp)
  next
    case False
    then have r0: "r \<noteq> 0" using s by auto
    have res: "clampMinuteToStep m s = js_rem (m - r + s) 60"
      using c r False r0 by (simp split: if_splits)
    have near: "\<forall>j. s dvd j \<longrightarrow> \<bar>m - (m - r + s)\<bar> \<le> \<bar>m - j\<bar>"
    proof (intro allI impI)
      fix j assume "s dvd j"
      from gap[OF this] show "\<bar>m - (m - r + s)\<bar> \<le> \<bar>m - j\<bar>" using r False by linarith
    qed
    have "s dvd m - r + s" using dvd_down by simp
    then show ?thesis
      by - (rule exI[of _ "m - r + s"], use res near r False in simp)
  qed
qed

theorem clampMinuteToStep_nearest_witness:
  "((-5::int) < 0 \<and> clampMinuteToStep 7 (-5) = 7) \<and>
   ((0::int) < 5 \<and>
     (\<exists>n. (5::int) dvd n \<and> 2 * \<bar>58 - n\<bar> \<le> 5 \<and> (2 * \<bar>58 - n\<bar> = 5 \<longrightarrow> n \<le> 58) \<and>
          (\<forall>j. 5 dvd j \<longrightarrow> \<bar>58 - n\<bar> \<le> \<bar>58 - j\<bar>) \<and> clampMinuteToStep 58 5 = js_rem n 60) \<and>
     clampMinuteToStep 58 5 = 0)"
  using clampMinuteToStep_nearest[of "-5" 7] clampMinuteToStep_nearest[of 5 58]
  by (simp add: clampMinuteToStep_def js_rem_def)

theorem clampMinuteToStep_zero_step_counterexample:
  "(0::int) \<le> 0 \<and> clampMinuteToStep 7 0 = 5 \<and> clampMinuteToStep 7 0 \<noteq> 7"
  by (simp add: clampMinuteToStep_def js_rem_def)

section \<open>Dates of the platform\<close>

text \<open>Fields that are in range are kept by the constructor (from the year 100 on).\<close>

lemma mkDate_valid:
  assumes "100 \<le> y" "0 \<le> m" "m \<le> 11" "1 \<le> d" "d \<le> days_in_month y m"
    "0 \<le> h" "h \<le> 23" "0 \<le> mi" "mi \<le> 59"
  shows "mkDate y m d h mi =
     \<lparr>getFullYear = y, getMonth = m, getDate = d, getHours = h, getMinutes = mi\<rparr>"
proof -
  have t: "(h * 60 + mi) div 1440 = 0" "(h * 60 + mi) mod 1440 div 60 = h" "(h * 60 + mi) mod 60 = mi"
    using assms by (simp_all add: div_pos_pos_trivial mod_pos_pos_trivial)
  have ym: "(y * 12 + m) div 12 = y" "(y * 12 + m) mod 12 = m"
    using assms by (simp_all add: div_pos_pos_trivial)
  have n: "norm_day y m d = (y, m, d)"
    using assms by (simp add: norm_day.simps)
  show ?thesis using assms unfolding mkDate_def Let_def t ym by (simp add: n)
qed

lemmas sample_defs =
  new_DatePicker_def default_initial_options_def default_options_def blank_picker_def
  sample_now_def ymd_def normalizeDateWith_def bind_fault_def throw_in_def DEFAULT_FORMAT_def
  startOfMonth_def startOfDay_def mkDate_valid days_in_month_def leap_year_def

lemma new_default:
  "new_DatePicker default_initial_options sample_now = Inr (blank_picker default_options)"
  by (simp add: sample_defs)

section \<open>Schedule modes\<close>

lemmas sync_defs = syncScheduleValue_def notify_def dispatchChange_def Let_def

lemma syncScheduleValue_keeps:
  "scheduleWeeklySelected (syncScheduleValue st src) = scheduleWeeklySelected st"
  "scheduleMonthlySelected (syncScheduleValue st src) = scheduleMonthlySelected st"
  "options (syncScheduleValue st src) = options st"
  by (simp_all add: sync_defs)

lemma toggleMonthlyDay_options: "options (toggleMonthlyDay st d u) = options st"
  by (simp add: toggleMonthlyDay_def syncScheduleValue_keeps Let_def)

lemma toggleWeeklyDay_options: "options (toggleWeeklyDay st d u) = options st"
  by (simp add: toggleWeeklyDay_def syncScheduleValue_keeps Let_def)

text \<open>
  C9.  In the weekly schedule with \<^verbatim>\<open>scheduleWeeklyMulti\<close> off, and in the monthly
  schedule with \<^verbatim>\<open>scheduleMonthlyMulti\<close> off, the selected set after a toggle holds the
  toggled value (clamped into 0..6, or into 1..31) and nothing else.
\<close>

theorem toggle_single_select:
  "(scheduleMode (options st) = Weekly \<and> \<not> scheduleWeeklyMulti (options st) \<longrightarrow>
      scheduleWeeklySelected (toggleWeeklyDay st d fromUser) = [max 0 (min 6 d)]) \<and>
   (scheduleMode (options st) = Monthly \<and> \<not> scheduleMonthlyMulti (options st) \<longrightarrow>
      scheduleMonthlySelected (toggleMonthlyDay st d fromUser) = [max 1 (min 31 d)])"
  by (auto simp add: toggleWeeklyDay_def toggleMonthlyDay_def syncScheduleValue_keeps
      set_add_def Let_def)

text \<open>
  The scenario of the specification: monthly schedule, multi-select off, day 10 and
  then day 20 leave day 20 alone; the same in the weekly schedule with Monday and Friday.
\<close>

theorem toggle_single_select_witness:
  "new_DatePicker
      (default_initial_options\<lparr>i_scheduleMode := Monthly, i_scheduleMonthlyMulti := False\<rparr>)
      sample_now
    = Inr (blank_picker (default_options\<lparr>scheduleMode := Monthly, scheduleMonthlyMulti := False\<rparr>)) \<and>
   scheduleMonthlySelected
     (toggleMonthlyDay
        (toggleMonthlyDay
           (blank_picker (default_options\<lparr>scheduleMode := Monthly, scheduleMonthlyMulti := False\<rparr>))
           10 True) 20 True) = [20] \<and>
   scheduleWeeklySelected
     (toggleWeeklyDay
        (toggleWeeklyDay
           (blank_picker (default_options\<lparr>scheduleMode := Weekly, scheduleWeeklyMulti := False\<rparr>))
           1 True) 5 True) = [5]"
proof -
  let ?m = "blank_picker (default_options\<lparr>scheduleMode := Monthly, scheduleMonthlyMulti := False\<rparr>)"
  let ?w = "blank_picker (default_options\<lparr>scheduleMode := Weekly, scheduleWeeklyMulti := False\<rparr>)"
  have c: "new_DatePicker
      (default_initial_options\<lparr>i_scheduleMode := Monthly, i_scheduleMonthlyMulti := False\<rparr>)
      sample_now = Inr ?m"
    by (simp add: sample_defs)
  have m: "scheduleMode (options (toggleMonthlyDay ?m 10 True)) = Monthly \<and>
           \<not> scheduleMonthlyMulti (options (toggleMonthlyDay ?m 10 True))"
    by (simp add: toggleMonthlyDay_options blank_picker_def default_options_def)
  have w: "scheduleMode (options (toggleWeeklyDay ?w 1 True)) = Weekly \<and>
           \<not> scheduleWeeklyMulti (options (toggleWeeklyDay ?w 1 True))"
    by (simp add: toggleWeeklyDay_options blank_picker_def default_options_def)
  show ?thesis
    using c m w toggle_single_select[of "toggleMonthlyDay ?m 10 True" 20 True]
      toggle_single_select[of "toggleWeeklyDay ?w 1 True" 5 True]
    by simp
qed

text \<open>
  C5.  The weekly array is sorted by the internal values (0 is Sunday) and only then is 0
  shown as 7.  A picker in the weekly schedule on which Monday and then Sunday are
  toggled holds the set \<open>{1, 0}\<close>; the array is \<open>[7, 1]\<close> and the input element shows
  \<open>7,1\<close>, which is not ascending in the convention in which Sunday is 7.
\<close>

theorem weekly_serialization_sunday_first:
  "new_DatePicker (default_initial_options\<lparr>i_scheduleMode := Weekly\<rparr>) sample_now
     = Inr (blank_picker (default_options\<lparr>scheduleMode := Weekly\<rparr>)) \<and>
   scheduleWeeklySelected
     (toggleWeeklyDay
        (toggleWeeklyDay (blank_picker (default_options\<lparr>scheduleMode := Weekly\<rparr>)) 1 True)
        0 True) = [1, 0] \<and>
   formatScheduleArray
     (toggleWeeklyDay
        (toggleWeeklyDay (blank_picker (default_options\<lparr>scheduleMode := Weekly\<rparr>)) 1 True)
        0 True) = [7, 1] \<and>
   inputValue
     (toggleWeeklyDay
        (toggleWeeklyDay (blank_picker (default_options\<lparr>scheduleMode := Weekly\<rparr>)) 1 True)
        0 True) = ''7,1'' \<and>
   \<not> sorted [7, 1 :: int]"
  by (simp add: sample_defs toggleWeeklyDay_def sync_defs formatScheduleArray_def set_add_def
      js_String_def show_nat.simps digit_char_def)

section \<open>Range\<close>

lemma swap_if_later_ordered:
  "swap_if_later se = (Some s, Some e) \<Longrightarrow> getTime s \<le> getTime e"
  by (auto simp: swap_if_later_def split: prod.splits option.splits if_splits)

lemma drop_if_Some: "drop_if p x = Some d \<Longrightarrow> x = Some d"
  by (auto simp: drop_if_def split: option.splits if_splits)

lemma filter_endpoints_Some:
  "filter_endpoints st se = (a, b) \<Longrightarrow>
     (a = Some s \<longrightarrow> fst se = Some s) \<and> (b = Some e \<longrightarrow> snd se = Some e)"
  by (auto simp: filter_endpoints_def Let_def dest!: drop_if_Some)

lemma filtered_swapped_ordered:
  assumes "filter_endpoints st (swap_if_later se) = (Some s, Some e)"
  shows "getTime s \<le> getTime e"
proof -
  from filter_endpoints_Some[OF assms, of s e]
  have "fst (swap_if_later se) = Some s" "snd (swap_if_later se) = Some e" by simp_all
  then have "swap_if_later se = (Some s, Some e)" by (simp add: prod_eq_iff)
  then show ?thesis by (rule swap_if_later_ordered)
qed

lemma updateRangeTimeInputs_keeps:
  "rangeStart (updateRangeTimeInputs st) = rangeStart st"
  "rangeEnd (updateRangeTimeInputs st) = rangeEnd st"
  "options (updateRangeTimeInputs st) = options st"
  "inputValue (updateRangeTimeInputs st) = inputValue st"
  "notified (updateRangeTimeInputs st) = notified st"
  "changeEvents (updateRangeTimeInputs st) = changeEvents st"
  by (simp_all add: updateRangeTimeInputs_def Let_def)

lemma syncRangeValue_keeps:
  "rangeStart (syncRangeValue st src) = rangeStart st"
  "rangeEnd (syncRangeValue st src) = rangeEnd st"
  "options (syncRangeValue st src) = options st"
  by (simp_all add: syncRangeValue_def notify_def dispatchChange_def Let_def)

lemma close_keeps:
  "rangeStart (close st) = rangeStart st"
  "rangeEnd (close st) = rangeEnd st"
  "options (close st) = options st"
  "inputValue (close st) = inputValue st"
  "notified (close st) = notified st"
  "changeEvents (close st) = changeEvents st"
  "selectedDate (close st) = selectedDate st"
  by (simp_all add: close_def)

lemmas range_keeps = updateRangeTimeInputs_keeps syncRangeValue_keeps close_keeps

lemma handleRangeClick_options: "options (handleRangeClick st d) = options st"
  by (simp add: handleRangeClick_def Let_def range_keeps split: option.splits)

lemma handleRangeClick_first:
  assumes "range_opt (options st)" "rangeStart st = None \<or> rangeEnd st \<noteq> None"
  shows "rangeStart (handleRangeClick st d) =
           Some (if enableTime (options st)
                 then mkDate (getFullYear d) (getMonth d) (getDate d) (startHours st) (startMinutes st)
                 else startOfDay d)"
    and "rangeEnd (handleRangeClick st d) = None"
  using assms by (auto simp add: handleRangeClick_def Let_def range_keeps split: option.splits)

lemma handleRangeClick_second:
  assumes "range_opt (options st)" "rangeStart st = Some s" "rangeEnd st = None"
  shows "\<exists>a b. rangeStart (handleRangeClick st d) = Some a \<and> rangeEnd (handleRangeClick st d) = Some b
            \<and> getTime a \<le> getTime b \<and> (a = s \<or> b = s)"
  using assms by (auto simp add: handleRangeClick_def Let_def range_keeps split: option.splits)

lemma handleRangeClick_ordered:
  assumes "range_opt (options st)"
    and "rangeStart (handleRangeClick st d) = Some s" "rangeEnd (handleRangeClick st d) = Some e"
  shows "getTime s \<le> getTime e"
proof (cases "rangeStart st = None \<or> rangeEnd st \<noteq> None")
  case True
  from handleRangeClick_first(2)[OF assms(1) True, of d] assms(3) show ?thesis by simp
next
  case False
  then obtain s0 where "rangeStart st = Some s0" "rangeEnd st = None" by auto
  from handleRangeClick_second[OF assms(1) this, of d] assms(2,3) show ?thesis by auto
qed

lemma setRange_clear_keeps:
  "rangeStart (setRange_clear st src) = None"
  "rangeEnd (setRange_clear st src) = None"
  "options (setRange_clear st src) = options st"
  by (simp_all add: setRange_clear_def notify_def dispatchChange_def Let_def)

lemma setRange_times_keeps:
  "rangeStart (setRange_times st) = rangeStart st"
  "rangeEnd (setRange_times st) = rangeEnd st"
  "options (setRange_times st) = options st"
  "inputValue (setRange_times st) = inputValue st"
  "notified (setRange_times st) = notified st"
  "changeEvents (setRange_times st) = changeEvents st"
  by (simp_all add: setRange_times_def Let_def updateRangeTimeInputs_keeps split: option.split)

lemma setRange_report_keeps:
  "rangeStart (setRange_report st src) = rangeStart st"
  "rangeEnd (setRange_report st src) = rangeEnd st"
  "options (setRange_report st src) = options st"
  by (simp_all add: setRange_report_def notify_def dispatchChange_def Let_def)

lemma setRange_endpoints:
  assumes "range_opt (options st)" "setRange st arg src = Inr st'"
  shows "(rangeStart st' = None \<and> rangeEnd st' = None) \<or>
         (\<exists>se. (rangeStart st', rangeEnd st') = filter_endpoints st (swap_if_later se))"
proof (cases "range_is_falsy arg")
  case True
  with assms have "st' = setRange_clear st (source_or_api src)" by (simp add: setRange_def)
  then show ?thesis by (simp add: setRange_clear_keeps)
next
  case False
  with assms obtain se where se: "range_endpoints st arg = Inr se"
    by (cases "range_endpoints st arg") (simp_all add: setRange_def bind_fault_def throw_in_def)
  obtain a b where ab: "filter_endpoints st (swap_if_later se) = (a, b)" by force
  have eq: "Inr st' = setRange st arg src" using assms(2) by simp
  have "rangeStart st' = a \<and> rangeEnd st' = b"
    using eq unfolding setRange_def bind_fault_def throw_in_def se
    by (simp add: assms(1) False ab Let_def setRange_report_keeps setRange_times_keeps
        split: option.split)
  then show ?thesis using ab by metis
qed

lemma setRange_ordered:
  assumes "range_opt (options st)" "setRange st arg src = Inr st'"
    and "rangeStart st' = Some s" "rangeEnd st' = Some e"
  shows "getTime s \<le> getTime e"
proof -
  from setRange_endpoints[OF assms(1,2)] assms(3,4)
  obtain se where "filter_endpoints st (swap_if_later se) = (Some s, Some e)" by auto
  then show ?thesis by (rule filtered_swapped_ordered)
qed

lemma setRange_returns:
  assumes "range_opt (options st)" "\<not> range_is_falsy arg" "range_endpoints st arg = Inr se"
  shows "\<exists>st'. setRange st arg src = Inr st' \<and>
           (rangeStart st', rangeEnd st') = filter_endpoints st (swap_if_later se)"
proof -
  obtain a b where ab: "filter_endpoints st (swap_if_later se) = (a, b)" by force
  show ?thesis
    unfolding setRange_def throw_in_def assms(3)
    by (simp add: assms(1,2) ab Let_def setRange_report_keeps setRange_times_keeps
        split: option.split)
qed

lemma swap_if_later_both:
  "swap_if_later (Some a, Some b) =
     (if getTime b < getTime a then (Some b, Some a) else (Some a, Some b))"
  by (simp add: swap_if_later_def)

lemma filter_endpoints_keeps:
  assumes "\<not> isDateOutOfBounds a (minDate (options st)) (maxDate (options st))" "\<not> disabledByFn st a"
    and "\<not> isDateOutOfBounds b (minDate (options st)) (maxDate (options st))" "\<not> disabledByFn st b"
  shows "filter_endpoints st (Some a, Some b) = (Some a, Some b)"
  using assms by (simp add: filter_endpoints_def drop_if_def Let_def)

lemma earlier_first:
  assumes "\<not> isDateOutOfBounds a (minDate (options st)) (maxDate (options st))" "\<not> disabledByFn st a"
    and "\<not> isDateOutOfBounds b (minDate (options st)) (maxDate (options st))" "\<not> disabledByFn st b"
  shows "filter_endpoints st (swap_if_later (Some a, Some b)) =
           (Some (if getTime b < getTime a then b else a), Some (if getTime b < getTime a then a else b))"
  using assms by (simp add: swap_if_later_both filter_endpoints_keeps)

lemma earlier_first_again:
  assumes "\<not> isDateOutOfBounds a (minDate (options st)) (maxDate (options st))" "\<not> disabledByFn st a"
    and "\<not> isDateOutOfBounds b (minDate (options st)) (maxDate (options st))" "\<not> disabledByFn st b"
  shows "filter_endpoints st (swap_if_later (filter_endpoints st (swap_if_later (Some a, Some b)))) =
           (Some (if getTime b < getTime a then b else a), Some (if getTime b < getTime a then a else b))"
  using assms by (simp add: swap_if_later_both filter_endpoints_keeps)

lemma setRange_of_two_dates:
  assumes "range_opt (options st)"
    and "normalizeDate st x = Inr (Some a)" "normalizeDate st y = Inr (Some b)"
    and "\<not> isDateOutOfBounds a (minDate (options st)) (maxDate (options st))" "\<not> disabledByFn st a"
    and "\<not> isDateOutOfBounds b (minDate (options st)) (maxDate (options st))" "\<not> disabledByFn st b"
    and "arg = RangeObject x y \<or> arg = RangeArray x y"
  shows "\<exists>st'. setRange st arg src = Inr st' \<and>
           rangeStart st' = Some (if getTime b < getTime a then b else a) \<and>
           rangeEnd st' = Some (if getTime b < getTime a then a else b)"
proof -
  have e: "range_endpoints st arg = Inr (Some a, Some b)"
    using assms(2,3,8) by (auto simp: range_endpoints_def bind_fault_def)
  have f: "\<not> range_is_falsy arg" using assms(8) by (auto simp: range_is_falsy_def)
  from setRange_returns[OF assms(1) f e, of src]
  show ?thesis unfolding earlier_first[OF assms(4-7)] by auto
qed

lemma split_not_empty: "split v sep = [p, q] \<Longrightarrow> v \<noteq> []"
  by (auto simp: split_def split_from.simps)

lemma parseRangeString_of_two_dates:
  assumes "split v (separator st) = [p, q]"
    and "parseDate (trim p) (format (options st)) = Inr (Some a)"
    and "parseDate (trim q) (format (options st)) = Inr (Some b)"
  shows "parseRangeString st v =
           Inr (Some (filter_endpoints st (swap_if_later
             (Some (if enableTime (options st) then a else startOfDay a),
              Some (if enableTime (options st) then b else startOfDay b)))))"
  unfolding parseRangeString_def Let_def assms(1) using assms(2,3)
  by (simp add: bind_fault_def)

lemma setRange_of_string:
  assumes "range_opt (options st)"
    and "split v (separator st) = [p, q]"
    and "parseDate (trim p) (format (options st)) = Inr (Some a0)"
    and "parseDate (trim q) (format (options st)) = Inr (Some b0)"
    and "a = (if enableTime (options st) then a0 else startOfDay a0)"
    and "b = (if enableTime (options st) then b0 else startOfDay b0)"
    and "\<not> isDateOutOfBounds a (minDate (options st)) (maxDate (options st))" "\<not> disabledByFn st a"
    and "\<not> isDateOutOfBounds b (minDate (options st)) (maxDate (options st))" "\<not> disabledByFn st b"
  shows "\<exists>st'. setRange st (RangeString v) src = Inr st' \<and>
           rangeStart st' = Some (if getTime b < getTime a then b else a) \<and>
           rangeEnd st' = Some (if getTime b < getTime a then a else b)"
proof -
  have e: "range_endpoints st (RangeString v) =
      Inr (filter_endpoints st (swap_if_later (Some a, Some b)))"
    by (simp add: range_endpoints_def parseRangeString_of_two_dates[OF assms(2-4)] assms(5,6)
        bind_fault_def)
  have f: "\<not> range_is_falsy (RangeString v)"
    using split_not_empty[OF assms(2)] by (simp add: range_is_falsy_def)
  from setRange_returns[OF assms(1) f e, of src]
  show ?thesis unfolding earlier_first_again[OF assms(7-10)] by auto
qed

lemma handleRangeClick_two_clicks:
  assumes "range_opt (options st)" "rangeStart st = None \<or> rangeEnd st \<noteq> None"
    and "st1 = handleRangeClick st d1"
    and "a = (if enableTime (options st)
              then mkDate (getFullYear d1) (getMonth d1) (getDate d1) (startHours st) (startMinutes st)
              else startOfDay d1)"
    and "b = (if enableTime (options st)
              then mkDate (getFullYear d2) (getMonth d2) (getDate d2) (endHours st1) (endMinutes st1)
              else startOfDay d2)"
  shows "rangeStart st1 = Some a" "rangeEnd st1 = None"
    "rangeStart (handleRangeClick st1 d2) = Some (if getTime b < getTime a then b else a)"
    "rangeEnd (handleRangeClick st1 d2) = Some (if getTime b < getTime a then a else b)"
proof -
  show f: "rangeStart st1 = Some a" "rangeEnd st1 = None"
    unfolding assms(3,4) using handleRangeClick_first[OF assms(1,2), of d1] by simp_all
  have o: "options st1 = options st" unfolding assms(3) by (rule handleRangeClick_options)
  show "rangeStart (handleRangeClick st1 d2) = Some (if getTime b < getTime a then b else a)"
    "rangeEnd (handleRangeClick st1 d2) = Some (if getTime b < getTime a then a else b)"
    using f o assms(1) unfolding assms(5)
    by (simp_all add: handleRangeClick_def Let_def range_keeps)
qed

text \<open>
  C3.  In range mode, whenever the start and the end of the stored range are both
  present after a click on a day or after \<^verbatim>\<open>setRange\<close>, the start is not later than the
  end.  Two clicks, the first of which begins a range, store the earlier of the two
  dates they build as the start and the later as the end.  \<^verbatim>\<open>setRange\<close> with two dates
  that are selectable, given as an object, as an array or in a string, returns and
  stores the earlier one as the start and the later one as the end.
\<close>

theorem range_start_before_end:
  assumes "range_opt (options st)"
  shows "(\<forall>s e. rangeStart (handleRangeClick st d) = Some s \<and>
                rangeEnd (handleRangeClick st d) = Some e \<longrightarrow> getTime s \<le> getTime e) \<and>
         (rangeStart st = None \<or> rangeEnd st \<noteq> None \<longrightarrow>
            (let st1 = handleRangeClick st d1;
                 c1 = (if enableTime (options st)
                       then mkDate (getFullYear d1) (getMonth d1) (getDate d1)
                              (startHours st) (startMinutes st)
                       else startOfDay d1);
                 c2 = (if enableTime (options st)
                       then mkDate (getFullYear d2) (getMonth d2) (getDate d2)
                              (endHours st1) (endMinutes st1)
                       else startOfDay d2)
             in rangeStart st1 = Some c1 \<and> rangeEnd st1 = None \<and>
                rangeStart (handleRangeClick st1 d2) = Some (if getTime c2 < getTime c1 then c2 else c1) \<and>
                rangeEnd (handleRangeClick st1 d2) = Some (if getTime c2 < getTime c1 then c1 else c2))) \<and>
         (\<forall>st' s e. setRange st arg src = Inr st' \<and> rangeStart st' = Some s \<and> rangeEnd st' = Some e
                \<longrightarrow> getTime s \<le> getTime e) \<and>
         (normalizeDate st x = Inr (Some a) \<and> normalizeDate st y = Inr (Some b) \<and>
          \<not> isDateOutOfBounds a (minDate (options st)) (maxDate (options st)) \<and> \<not> disabledByFn st a \<and>
          \<not> isDateOutOfBounds b (minDate (options st)) (maxDate (options st)) \<and> \<not> disabledByFn st b \<longrightarrow>
            (\<exists>st'. setRange st (RangeObject x y) src = Inr st' \<and>
                rangeStart st' = Some (if getTime b < getTime a then b else a) \<and>
                rangeEnd st' = Some (if getTime b < getTime a then a else b)) \<and>
            (\<exists>st'. setRange st (RangeArray x y) src = Inr st' \<and>
                rangeStart st' = Some (if getTime b < getTime a then b else a) \<and>
                rangeEnd st' = Some (if getTime b < getTime a then a else b))) \<and>
         (split v (separator st) = [p, q] \<and>
          parseDate (trim p) (format (options st)) = Inr (Some p0) \<and>
          parseDate (trim q) (format (options st)) = Inr (Some q0) \<and>
          p1 = (if enableTime (options st) then p0 else startOfDay p0) \<and>
          q1 = (if enableTime (options st) then q0 else startOfDay q0) \<and>
          \<not> isDateOutOfBounds p1 (minDate (options st)) (maxDate (options st)) \<and> \<not> disabledByFn st p1 \<and>
          \<not> isDateOutOfBounds q1 (minDate (options st)) (maxDate (options st)) \<and> \<not> disabledByFn st q1 \<longrightarrow>
            (\<exists>st'. setRange st (RangeString v) src = Inr st' \<and>
                rangeStart st' = Some (if getTime q1 < getTime p1 then q1 else p1) \<and>
                rangeEnd st' = Some (if getTime q1 < getTime p1 then p1 else q1)))"
proof -
  have 1: "\<forall>s e. rangeStart (handleRangeClick st d) = Some s \<and>
                rangeEnd (handleRangeClick st d) = Some e \<longrightarrow> getTime s \<le> getTime e"
    using handleRangeClick_ordered[OF assms] by blast
  have 2: "rangeStart st = None \<or> rangeEnd st \<noteq> None \<longrightarrow>
            (let st1 = handleRangeClick st d1;
                 c1 = (if enableTime (options st)
                       then mkDate (getFullYear d1) (getMonth d1) (getDate d1)
                              (startHours st) (startMinutes st)
                       else startOfDay d1);
                 c2 = (if enableTime (options st)
                       then mkDate (getFullYear d2) (getMonth d2) (getDate d2)
                              (endHours st1) (endMinutes st1)
                       else startOfDay d2)
             in rangeStart st1 = Some c1 \<and> rangeEnd st1 = None \<and>
                rangeStart (handleRangeClick st1 d2) = Some (if getTime c2 < getTime c1 then c2 else c1) \<and>
                rangeEnd (handleRangeClick st1 d2) = Some (if getTime c2 < getTime c1 then c1 else c2))"
  proof
    assume h: "rangeStart st = None \<or> rangeEnd st \<noteq> None"
    show "let st1 = handleRangeClick st d1;
                 c1 = (if enableTime (options st)
                       then mkDate (getFullYear d1) (getMonth d1) (getDate d1)
                              (startHours st) (startMinutes st)
                       else startOfDay d1);
                 c2 = (if enableTime (options st)
                       then mkDate (getFullYear d2) (getMonth d2) (getDate d2)
                              (endHours st1) (endMinutes st1)
                       else startOfDay d2)
             in rangeStart st1 = Some c1 \<and> rangeEnd st1 = None \<and>
                rangeStart (handleRangeClick st1 d2) = Some (if getTime c2 < getTime c1 then c2 else c1) \<and>
                rangeEnd (handleRangeClick st1 d2) = Some (if getTime c2 < getTime c1 then c1 else c2)"
      unfolding Let_def
      by (intro conjI handleRangeClick_two_clicks[OF assms h refl refl refl])
  qed
  have 3: "\<forall>st' s e. setRange st arg src = Inr st' \<and> rangeStart st' = Some s \<and> rangeEnd st' = Some e
                \<longrightarrow> getTime s \<le> getTime e"
    using setRange_ordered[OF assms] by blast
  have 4: "normalizeDate st x = Inr (Some a) \<and> normalizeDate st y = Inr (Some b) \<and>
          \<not> isDateOutOfBounds a (minDate (options st)) (maxDate (options st)) \<and> \<not> disabledByFn st a \<and>
          \<not> isDateOutOfBounds b (minDate (options st)) (maxDate (options st)) \<and> \<not> disabledByFn st b \<longrightarrow>
            (\<exists>st'. setRange st (RangeObject x y) src = Inr st' \<and>
                rangeStart st' = Some (if getTime b < getTime a then b else a) \<and>
                rangeEnd st' = Some (if getTime b < getTime a then a else b)) \<and>
            (\<exists>st'. setRange st (RangeArray x y) src = Inr st' \<and>
                rangeStart st' = Some (if getTime b < getTime a then b else a) \<and>
                rangeEnd st' = Some (if getTime b < getTime a then a else b))"
    using setRange_of_two_dates[OF assms, of x a y b "RangeObject x y" src]
      setRange_of_two_dates[OF assms, of x a y b "RangeArray x y" src]
    by blast
  have 5: "split v (separator st) = [p, q] \<and>
          parseDate (trim p) (format (options st)) = Inr (Some p0) \<and>
          parseDate (trim q) (format (options st)) = Inr (Some q0) \<and>
          p1 = (if enableTime (options st) then p0 else startOfDay p0) \<and>
          q1 = (if enableTime (options st) then q0 else startOfDay q0) \<and>
          \<not> isDateOutOfBounds p1 (minDate (options st)) (maxDate (options st)) \<and> \<not> disabledByFn st p1 \<and>
          \<not> isDateOutOfBounds q1 (minDate (options st)) (maxDate (options st)) \<and> \<not> disabledByFn st q1 \<longrightarrow>
            (\<exists>st'. setRange st (RangeString v) src = Inr st' \<and>
                rangeStart st' = Some (if getTime q1 < getTime p1 then q1 else p1) \<and>
                rangeEnd st' = Some (if getTime q1 < getTime p1 then p1 else q1))"
    using setRange_of_string[OF assms, of v p q p0 q0 p1 q1 src] by blast
  show ?thesis using 1 2 3 4 5 by (intro conjI)
qed

section \<open>Worked examples in range mode\<close>

lemmas eval_format =
  formatDate_def padStartNumber_def padStart_def js_String_def show_nat.simps digit_char_def
  replace_all.simps js_rem_def is_word_char_def Let_def

lemmas eval_time = getTime_def day_number_def day_from_year_def days_before_month_def

lemmas eval_picker =
  blank_picker_def default_options_def syncRangeValue_def updateRangeTimeInputs_def notify_def
  dispatchChange_def formatRangeString_def separator_def close_def Let_def

lemma format_march_10: "formatDate (ymd 2024 2 10) ''yyyy-MM-dd'' = ''2024-03-10''"
  by (simp add: eval_format ymd_def)

lemma format_march_20: "formatDate (ymd 2024 2 20) ''yyyy-MM-dd'' = ''2024-03-20''"
  by (simp add: eval_format ymd_def)

lemma startOfDay_ymd:
  "100 \<le> y \<Longrightarrow> 0 \<le> m \<Longrightarrow> m \<le> 11 \<Longrightarrow> 1 \<le> d \<Longrightarrow> d \<le> days_in_month y m \<Longrightarrow>
   startOfDay (ymd y m d) = ymd y m d"
  by (simp add: startOfDay_def ymd_def mkDate_valid)

lemma march_10_before_20:
  "getTime (ymd 2024 2 10) < getTime (ymd 2024 2 20)"
  "\<not> getTime (ymd 2024 2 20) < getTime (ymd 2024 2 10)"
  "\<not> getTime (ymd 2024 2 10) < getTime (ymd 2024 2 10)"
  by (simp_all add: eval_time ymd_def)

lemma click_march_20:
  "handleRangeClick (blank_picker (default_options\<lparr>range_opt := True\<rparr>)) (ymd 2024 2 20)
   = (blank_picker (default_options\<lparr>range_opt := True\<rparr>))\<lparr>rangeStart := Some (ymd 2024 2 20),
       inputValue := ''2024-03-20'', changeEvents := Suc 0\<rparr>"
  by (simp add: handleRangeClick_def startOfDay_ymd days_in_month_def format_march_20 eval_picker)

lemma click_march_20_then_10:
  "handleRangeClick
     ((blank_picker (default_options\<lparr>range_opt := True\<rparr>))\<lparr>rangeStart := Some (ymd 2024 2 20),
       inputValue := ''2024-03-20'', changeEvents := Suc 0\<rparr>) (ymd 2024 2 10)
   = (blank_picker (default_options\<lparr>range_opt := True\<rparr>))\<lparr>rangeStart := Some (ymd 2024 2 10),
       rangeEnd := Some (ymd 2024 2 20),
       inputValue := ''2024-03-10 - 2024-03-20'', changeEvents := Suc (Suc 0)\<rparr>"
  by (simp add: handleRangeClick_def startOfDay_ymd days_in_month_def format_march_20 format_march_10
      march_10_before_20 eval_picker)

lemma parse_march:
  "parseDate ''2024-03-20'' ''yyyy-MM-dd'' = Inr (Some (ymd 2024 2 20))"
  "parseDate ''2024-03-10'' ''yyyy-MM-dd'' = Inr (Some (ymd 2024 2 10))"
proof -
  have e: "esc_of ''yyyy-MM-dd''
      = [Grp GYear, Chr (CHR ''-''), Grp GMonth, Chr (CHR ''-''), Grp GDay]"
    by (simp add: esc_of_def replace_tok.simps is_word_char_def)
  have c: "compile (esc_of ''yyyy-MM-dd'')
      = Inr [Capture GYear, Lit (CHR ''-''), Capture GMonth, Lit (CHR ''-''), Capture GDay]"
    unfolding e by (simp add: compile_def is_meta_def)
  have m: "rx_match [Capture GYear, Lit (CHR ''-''), Capture GMonth, Lit (CHR ''-''), Capture GDay]
             ''2024-03-20''
      = Some [GDay \<mapsto> ''20'', GMonth \<mapsto> ''03'', GYear \<mapsto> ''2024'']"
    "rx_match [Capture GYear, Lit (CHR ''-''), Capture GMonth, Lit (CHR ''-''), Capture GDay]
             ''2024-03-10''
      = Some [GDay \<mapsto> ''10'', GMonth \<mapsto> ''03'', GYear \<mapsto> ''2024'']"
    by (simp_all add: candidates_def is_digit_def)
  have d: "date_of_groups [GDay \<mapsto> ''20'', GMonth \<mapsto> ''03'', GYear \<mapsto> ''2024'']
             = Some (ymd 2024 2 20)"
    "date_of_groups [GDay \<mapsto> ''10'', GMonth \<mapsto> ''03'', GYear \<mapsto> ''2024'']
             = Some (ymd 2024 2 10)"
    by (simp_all add: date_of_groups_def js_Number_def digit_val_def js_rem_def mkDate_valid
        days_in_month_def ymd_def)
  show "parseDate ''2024-03-20'' ''yyyy-MM-dd'' = Inr (Some (ymd 2024 2 20))"
    by (simp add: parseDate_def c m d del: rx_match.simps)
  show "parseDate ''2024-03-10'' ''yyyy-MM-dd'' = Inr (Some (ymd 2024 2 10))"
    by (simp add: parseDate_def c m d del: rx_match.simps)
qed

lemma split_march:
  "split ''2024-03-20 - 2024-03-10'' '' - '' = [''2024-03-20'', ''2024-03-10'']"
  by (simp add: split_def split_from.simps)

lemma trim_march:
  "trim ''2024-03-20'' = ''2024-03-20''" "trim ''2024-03-10'' = ''2024-03-10''"
  by (simp_all add: trim_def is_space_def)

lemma no_bounds:
  "\<not> isDateOutOfBounds d (minDate (options (blank_picker (default_options\<lparr>range_opt := True\<rparr>))))
        (maxDate (options (blank_picker (default_options\<lparr>range_opt := True\<rparr>))))"
  "\<not> disabledByFn (blank_picker (default_options\<lparr>range_opt := True\<rparr>)) d"
  by (simp_all add: isDateOutOfBounds_def disabledByFn_def blank_picker_def default_options_def)

text \<open>
  The scenario of the specification: a click on 20 March 2024 and then on 10 March 2024
  store the range from the 10th to the 20th, and the input element shows both.
  \<^verbatim>\<open>setRange\<close> with the two dates in that order, as an object or in the string
  \<open>2024-03-20 - 2024-03-10\<close>, stores the same range.
\<close>

theorem range_start_before_end_witness:
  "range_opt (options (blank_picker (default_options\<lparr>range_opt := True\<rparr>))) \<and>
   rangeStart (handleRangeClick
      (handleRangeClick (blank_picker (default_options\<lparr>range_opt := True\<rparr>)) (ymd 2024 2 20))
      (ymd 2024 2 10)) = Some (ymd 2024 2 10) \<and>
   rangeEnd (handleRangeClick
      (handleRangeClick (blank_picker (default_options\<lparr>range_opt := True\<rparr>)) (ymd 2024 2 20))
      (ymd 2024 2 10)) = Some (ymd 2024 2 20) \<and>
   inputValue (handleRangeClick
      (handleRangeClick (blank_picker (default_options\<lparr>range_opt := True\<rparr>)) (ymd 2024 2 20))
      (ymd 2024 2 10)) = ''2024-03-10 - 2024-03-20'' \<and>
   getTime (ymd 2024 2 10) < getTime (ymd 2024 2 20) \<and>
   (\<exists>st'. setRange (blank_picker (default_options\<lparr>range_opt := True\<rparr>))
             (RangeObject (ArgDate (ymd 2024 2 20)) (ArgDate (ymd 2024 2 10))) None = Inr st' \<and>
          rangeStart st' = Some (ymd 2024 2 10) \<and> rangeEnd st' = Some (ymd 2024 2 20)) \<and>
   (\<exists>st'. setRange (blank_picker (default_options\<lparr>range_opt := True\<rparr>))
             (RangeString ''2024-03-20 - 2024-03-10'') None = Inr st' \<and>
          rangeStart st' = Some (ymd 2024 2 10) \<and> rangeEnd st' = Some (ymd 2024 2 20))"
proof -
  let ?b = "blank_picker (default_options\<lparr>range_opt := True\<rparr>)"
  have r: "range_opt (options ?b)"
    by (simp add: blank_picker_def default_options_def)
  have o: "\<not> enableTime (options ?b)" "separator ?b = '' - ''" "format (options ?b) = ''yyyy-MM-dd''"
    "rangeStart ?b = None"
    by (simp_all add: blank_picker_def default_options_def separator_def)
  have n: "normalizeDate ?b (ArgDate (ymd 2024 2 20)) = Inr (Some (ymd 2024 2 20))"
    "normalizeDate ?b (ArgDate (ymd 2024 2 10)) = Inr (Some (ymd 2024 2 10))"
    by (simp_all add: normalizeDate_def normalizeDateWith_def startOfDay_ymd days_in_month_def o)
  have s: "startOfDay (ymd 2024 2 20) = ymd 2024 2 20" "startOfDay (ymd 2024 2 10) = ymd 2024 2 10"
    by (simp_all add: startOfDay_ymd days_in_month_def)
  note t = range_start_before_end[OF r, of "ymd 2024 2 20" "ymd 2024 2 20" "ymd 2024 2 10"
      RangeNull None "ArgDate (ymd 2024 2 20)" "ymd 2024 2 20" "ArgDate (ymd 2024 2 10)"
      "ymd 2024 2 10" "''2024-03-20 - 2024-03-10''" "''2024-03-20''" "''2024-03-10''"
      "ymd 2024 2 20" "ymd 2024 2 10" "ymd 2024 2 20" "ymd 2024 2 10"]
  have c: "rangeStart (handleRangeClick (handleRangeClick ?b (ymd 2024 2 20)) (ymd 2024 2 10))
             = Some (ymd 2024 2 10)"
    "rangeEnd (handleRangeClick (handleRangeClick ?b (ymd 2024 2 20)) (ymd 2024 2 10))
             = Some (ymd 2024 2 20)"
    using t[THEN conjunct2, THEN conjunct1] o
    by (simp_all add: Let_def s march_10_before_20)
  have i: "inputValue (handleRangeClick (handleRangeClick ?b (ymd 2024 2 20)) (ymd 2024 2 10))
             = ''2024-03-10 - 2024-03-20''"
    by (simp add: click_march_20 click_march_20_then_10)
  have ob: "\<exists>st'. setRange ?b (RangeObject (ArgDate (ymd 2024 2 20)) (ArgDate (ymd 2024 2 10))) None
              = Inr st' \<and>
          rangeStart st' = Some (ymd 2024 2 10) \<and> rangeEnd st' = Some (ymd 2024 2 20)"
    using t[THEN conjunct2, THEN conjunct2, THEN conjunct2, THEN conjunct1] n no_bounds
    by (simp add: march_10_before_20)
  have st: "\<exists>st'. setRange ?b (RangeString ''2024-03-20 - 2024-03-10'') None = Inr st' \<and>
          rangeStart st' = Some (ymd 2024 2 10) \<and> rangeEnd st' = Some (ymd 2024 2 20)"
    using t[THEN conjunct2, THEN conjunct2, THEN conjunct2, THEN conjunct2] no_bounds
    by (simp add: o split_march trim_march parse_march s march_10_before_20)
  show ?thesis using r c i ob st march_10_before_20(1) by simp
qed

text \<open>
  C4, as the code has it.  In range mode, with a start and no end, a click on a day sets
  the end, also when the day is the one of the start: the range is completed, not begun
  again.  With the time of day off, a second click on the start's own day makes the start
  and the end that same day.
\<close>

theorem second_click_on_start_sets_end:
  assumes "range_opt (options st)" "rangeStart st = Some s" "rangeEnd st = None"
  shows "rangeEnd (handleRangeClick st d) \<noteq> None \<and>
         (\<not> enableTime (options st) \<and> s = startOfDay d \<longrightarrow>
            rangeStart (handleRangeClick st d) = Some (startOfDay d) \<and>
            rangeEnd (handleRangeClick st d) = Some (startOfDay d))"
  using assms by (simp add: handleRangeClick_def Let_def range_keeps)

lemma click_march_10:
  "handleRangeClick (blank_picker (default_options\<lparr>range_opt := True\<rparr>)) (ymd 2024 2 10)
   = (blank_picker (default_options\<lparr>range_opt := True\<rparr>))\<lparr>rangeStart := Some (ymd 2024 2 10),
       inputValue := ''2024-03-10'', changeEvents := Suc 0\<rparr>"
  by (simp add: handleRangeClick_def startOfDay_ymd days_in_month_def format_march_10 eval_picker)

lemma click_march_10_twice:
  "handleRangeClick
     ((blank_picker (default_options\<lparr>range_opt := True\<rparr>))\<lparr>rangeStart := Some (ymd 2024 2 10),
       inputValue := ''2024-03-10'', changeEvents := Suc 0\<rparr>) (ymd 2024 2 10)
   = (blank_picker (default_options\<lparr>range_opt := True\<rparr>))\<lparr>rangeStart := Some (ymd 2024 2 10),
       rangeEnd := Some (ymd 2024 2 10),
       inputValue := ''2024-03-10 - 2024-03-10'', changeEvents := Suc (Suc 0)\<rparr>"
  by (simp add: handleRangeClick_def startOfDay_ymd days_in_month_def format_march_10
      march_10_before_20 eval_picker)

theorem second_click_on_start_sets_end_witness:
  "range_opt (options (handleRangeClick (blank_picker (default_options\<lparr>range_opt := True\<rparr>))
      (ymd 2024 2 10))) \<and>
   rangeStart (handleRangeClick (blank_picker (default_options\<lparr>range_opt := True\<rparr>)) (ymd 2024 2 10))
     = Some (ymd 2024 2 10) \<and>
   rangeEnd (handleRangeClick (blank_picker (default_options\<lparr>range_opt := True\<rparr>)) (ymd 2024 2 10))
     = None \<and>
   \<not> enableTime (options (handleRangeClick (blank_picker (default_options\<lparr>range_opt := True\<rparr>))
      (ymd 2024 2 10))) \<and>
   ymd 2024 2 10 = startOfDay (ymd 2024 2 10) \<and>
   rangeStart (handleRangeClick
      (handleRangeClick (blank_picker (default_options\<lparr>range_opt := True\<rparr>)) (ymd 2024 2 10))
      (ymd 2024 2 10)) = Some (ymd 2024 2 10) \<and>
   rangeEnd (handleRangeClick
      (handleRangeClick (blank_picker (default_options\<lparr>range_opt := True\<rparr>)) (ymd 2024 2 10))
      (ymd 2024 2 10)) = Some (ymd 2024 2 10)"
proof -
  let ?b = "blank_picker (default_options\<lparr>range_opt := True\<rparr>)"
  let ?st = "handleRangeClick ?b (ymd 2024 2 10)"
  have o: "range_opt (options ?st)" "\<not> enableTime (options ?st)"
    by (simp_all add: handleRangeClick_options blank_picker_def default_options_def)
  have f: "rangeStart ?st = Some (ymd 2024 2 10)" "rangeEnd ?st = None"
    by (simp_all add: click_march_10) (simp add: blank_picker_def)
  have d: "ymd 2024 2 10 = startOfDay (ymd 2024 2 10)"
    by (simp add: startOfDay_ymd days_in_month_def)
  show ?thesis
    using o f d second_click_on_start_sets_end[OF o(1) f, of "ymd 2024 2 10"] by simp
qed

theorem second_click_on_start_counterexample:
  "range_opt (options (blank_picker (default_options\<lparr>range_opt := True\<rparr>))) \<and>
   rangeStart (cellClick (blank_picker (default_options\<lparr>range_opt := True\<rparr>)) (ymd 2024 2 10))
     = Some (ymd 2024 2 10) \<and>
   rangeEnd (cellClick (blank_picker (default_options\<lparr>range_opt := True\<rparr>)) (ymd 2024 2 10)) = None \<and>
   rangeEnd (cellClick
      (cellClick (blank_picker (default_options\<lparr>range_opt := True\<rparr>)) (ymd 2024 2 10))
      (ymd 2024 2 10)) = Some (ymd 2024 2 10) \<and>
   rangeEnd (cellClick
      (cellClick (blank_picker (default_options\<lparr>range_opt := True\<rparr>)) (ymd 2024 2 10))
      (ymd 2024 2 10)) \<noteq> None"
proof -
  have c: "\<And>st d. range_opt (options st) \<Longrightarrow> cellClick st d = handleRangeClick st d"
    by (simp add: cellClick_def)
  have r: "range_opt (options (blank_picker (default_options\<lparr>range_opt := True\<rparr>)))"
    by (simp add: blank_picker_def default_options_def)
  have r': "range_opt (options (handleRangeClick (blank_picker (default_options\<lparr>range_opt := True\<rparr>))
      (ymd 2024 2 10)))"
    using r by (simp add: handleRangeClick_options)
  show ?thesis
    using r by (simp add: c r' click_march_10 click_march_10_twice) (simp add: blank_picker_def)
qed

section \<open>Rejected dates\<close>

lemma normalizeDate_falsy: "arg_is_falsy a \<Longrightarrow> normalizeDate st a = Inr None"
  by (auto simp: arg_is_falsy_def normalizeDate_def normalizeDateWith_def)

text \<open>
  C6, as the code has it.  Outside range mode, \<^verbatim>\<open>setDate\<close> with an argument whose date
  is out of the bounds or rejected by the predicate returns without any effect: the
  picker, with its selection, its input value and its log of callback calls, is as before.
\<close>

theorem setDate_rejects_silently:
  assumes "\<not> range_opt (options st)"
    and "normalizeDate st a = Inr (Some d)"
    and "isDateOutOfBounds d (minDate (options st)) (maxDate (options st)) \<or> disabledByFn st d"
  shows "setDate st a src = Inr st"
proof -
  have "\<not> arg_is_falsy a" using assms(2) normalizeDate_falsy[of a st] by auto
  then show ?thesis using assms by (auto simp: setDate_def bind_fault_def throw_in_def)
qed

lemma getTime_2025:
  "getTime (ymd 2024 11 31) < getTime (ymd 2025 0 1)"
  "\<not> getTime (ymd 2025 0 1) < getTime (ymd 2024 0 1)"
  "\<not> getTime (ymd 2024 2 20) < getTime (ymd 2024 0 1)"
  "\<not> getTime (ymd 2024 11 31) < getTime (ymd 2024 2 20)"
  "\<not> getTime (ymd 2024 2 20) < getTime (ymd 2025 0 1) \<longleftrightarrow> False"
  by (simp_all add: eval_time ymd_def)

lemma out_2025:
  "isDateOutOfBounds (ymd 2025 0 1) (Some (ymd 2024 0 1)) (Some (ymd 2024 11 31))"
  "\<not> isDateOutOfBounds (ymd 2024 2 20) (Some (ymd 2024 0 1)) (Some (ymd 2024 11 31))"
  by (simp_all add: isDateOutOfBounds_def getTime_2025)

theorem setDate_rejects_silently_witness:
  "\<not> range_opt (options (blank_picker (default_options\<lparr>minDate := Some (ymd 2024 0 1),
        maxDate := Some (ymd 2024 11 31), onSelect := True\<rparr>))) \<and>
   normalizeDate (blank_picker (default_options\<lparr>minDate := Some (ymd 2024 0 1),
        maxDate := Some (ymd 2024 11 31), onSelect := True\<rparr>)) (ArgDate (ymd 2025 0 1))
     = Inr (Some (ymd 2025 0 1)) \<and>
   isDateOutOfBounds (ymd 2025 0 1) (Some (ymd 2024 0 1)) (Some (ymd 2024 11 31)) \<and>
   setDate (blank_picker (default_options\<lparr>minDate := Some (ymd 2024 0 1),
        maxDate := Some (ymd 2024 11 31), onSelect := True\<rparr>)) (ArgDate (ymd 2025 0 1)) None
     = Inr (blank_picker (default_options\<lparr>minDate := Some (ymd 2024 0 1),
        maxDate := Some (ymd 2024 11 31), onSelect := True\<rparr>))"
proof -
  let ?st = "blank_picker (default_options\<lparr>minDate := Some (ymd 2024 0 1),
        maxDate := Some (ymd 2024 11 31), onSelect := True\<rparr>)"
  have r: "\<not> range_opt (options ?st)" by (simp add: blank_picker_def default_options_def)
  have n: "normalizeDate ?st (ArgDate (ymd 2025 0 1)) = Inr (Some (ymd 2025 0 1))"
    by (simp add: normalizeDate_def normalizeDateWith_def startOfDay_ymd days_in_month_def
        blank_picker_def default_options_def)
  have b: "isDateOutOfBounds (ymd 2025 0 1) (minDate (options ?st)) (maxDate (options ?st))
           \<or> disabledByFn ?st (ymd 2025 0 1)"
    by (simp add: out_2025 blank_picker_def default_options_def)
  show ?thesis
    using r n out_2025(1) setDate_rejects_silently[OF r n b, of None] by simp
qed

lemma swap_2025: "swap_if_later (Some (ymd 2025 0 1), Some (ymd 2024 2 20))
  = (Some (ymd 2024 2 20), Some (ymd 2025 0 1))"
  by (simp add: swap_if_later_def eval_time ymd_def)

lemma filter_2025:
  "filter_endpoints bounded_range_picker (Some (ymd 2024 2 20), Some (ymd 2025 0 1))
    = (Some (ymd 2024 2 20), None)"
  by (simp add: filter_endpoints_def bounded_range_picker_def blank_picker_def default_options_def
      drop_if_def out_2025 disabledByFn_def Let_def)

lemma startOfMonth_march: "startOfMonth (ymd 2024 2 20) = ymd 2024 2 1"
  by (simp add: startOfMonth_def ymd_def mkDate_valid days_in_month_def)

lemma endpoints_2025:
  "range_endpoints bounded_range_picker (RangeObject (ArgDate (ymd 2025 0 1)) (ArgDate (ymd 2024 2 20)))
     = Inr (Some (ymd 2025 0 1), Some (ymd 2024 2 20))"
  by (simp add: range_endpoints_def normalizeDate_def normalizeDateWith_def bind_fault_def throw_in_def
      startOfDay_ymd days_in_month_def bounded_range_picker_def blank_picker_def default_options_def)

lemma setRange_2025:
  "setRange bounded_range_picker (RangeObject (ArgDate (ymd 2025 0 1)) (ArgDate (ymd 2024 2 20)))
     (Some Api)
   = Inr (bounded_range_picker\<lparr>rangeStart := Some (ymd 2024 2 20), rangeEnd := None,
          inputValue := ''2024-03-20'',
          notified := [OnSelectRange (Some (ymd 2024 2 20)) None ''2024-03-20'' Api],
          changeEvents := Suc 0\<rparr>)"
proof -
  have r: "range_opt (options bounded_range_picker)"
    by (simp add: bounded_range_picker_def blank_picker_def default_options_def)
  have "setRange bounded_range_picker (RangeObject (ArgDate (ymd 2025 0 1)) (ArgDate (ymd 2024 2 20)))
     (Some Api)
    = Inr (setRange_report
        ((setRange_times (bounded_range_picker\<lparr>rangeStart := Some (ymd 2024 2 20), rangeEnd := None\<rparr>))
           \<lparr>currentViewMonth := ymd 2024 2 1\<rparr>) Api)"
    by (simp add: setRange_def r endpoints_2025 bind_fault_def throw_in_def swap_2025 filter_2025
        range_is_falsy_def setRange_times_keeps startOfMonth_march source_or_api_def)
  also have "\<dots> = Inr (bounded_range_picker\<lparr>rangeStart := Some (ymd 2024 2 20), rangeEnd := None,
          inputValue := ''2024-03-20'',
          notified := [OnSelectRange (Some (ymd 2024 2 20)) None ''2024-03-20'' Api],
          changeEvents := Suc 0\<rparr>)"
    by (simp add: bounded_range_picker_def blank_picker_def default_options_def setRange_times_def
      setRange_report_def formatRangeString_def format_march_20 notify_def
      dispatchChange_def Let_def)
  finally show ?thesis .
qed

text \<open>
  In range mode \<^verbatim>\<open>setDate\<close> hands the date to \<^verbatim>\<open>setRange\<close> as the new start, next to
  the stored end.  With the bounds 1 January to 31 December 2024 and the range 10 to 20
  March stored, \<^verbatim>\<open>setDate\<close> of 1 January 2025 does not leave the picker as it was: the
  new date, being later than the stored end, is swapped into the end and dropped there as
  out of bounds, the stored end becomes the start, the input element is rewritten,
  \<^verbatim>\<open>onSelectRange\<close> is called and a \<open>change\<close> event is dispatched.
\<close>

theorem setDate_in_range_mode_counterexample:
  "range_opt (options bounded_range_picker) \<and>
   isDateOutOfBounds (ymd 2025 0 1) (minDate (options bounded_range_picker))
     (maxDate (options bounded_range_picker)) \<and>
   setDate bounded_range_picker (ArgDate (ymd 2025 0 1)) None
     = Inr (bounded_range_picker\<lparr>rangeStart := Some (ymd 2024 2 20), rangeEnd := None,
          inputValue := ''2024-03-20'',
          notified := [OnSelectRange (Some (ymd 2024 2 20)) None ''2024-03-20'' Api],
          changeEvents := Suc 0\<rparr>) \<and>
   setDate bounded_range_picker (ArgDate (ymd 2025 0 1)) None \<noteq> Inr bounded_range_picker"
proof -
  have s: "setDate bounded_range_picker (ArgDate (ymd 2025 0 1)) None
     = setRange bounded_range_picker
         (RangeObject (ArgDate (ymd 2025 0 1)) (ArgDate (ymd 2024 2 20))) (Some Api)"
    by (simp add: setDate_def arg_is_falsy_def arg_of_date_def source_or_api_def
        bounded_range_picker_def blank_picker_def default_options_def)
  have b: "range_opt (options bounded_range_picker) \<and>
     isDateOutOfBounds (ymd 2025 0 1) (minDate (options bounded_range_picker))
       (maxDate (options bounded_range_picker))"
    by (simp add: bounded_range_picker_def blank_picker_def default_options_def out_2025)
  have n: "bounded_range_picker\<lparr>rangeStart := Some (ymd 2024 2 20), rangeEnd := None,
          inputValue := ''2024-03-20'',
          notified := [OnSelectRange (Some (ymd 2024 2 20)) None ''2024-03-20'' Api],
          changeEvents := Suc 0\<rparr> \<noteq> bounded_range_picker"
  proof
    assume "bounded_range_picker\<lparr>rangeStart := Some (ymd 2024 2 20), rangeEnd := None,
          inputValue := ''2024-03-20'',
          notified := [OnSelectRange (Some (ymd 2024 2 20)) None ''2024-03-20'' Api],
          changeEvents := Suc 0\<rparr> = bounded_range_picker"
    then have "rangeEnd (bounded_range_picker\<lparr>rangeStart := Some (ymd 2024 2 20), rangeEnd := None,
          inputValue := ''2024-03-20'',
          notified := [OnSelectRange (Some (ymd 2024 2 20)) None ''2024-03-20'' Api],
          changeEvents := Suc 0\<rparr>) = rangeEnd bounded_range_picker" by simp
    then show False by (simp add: bounded_range_picker_def)
  qed
  show ?thesis using b n by (simp add: s setRange_2025)
qed

section \<open>Confirm mode\<close>

lemma report_single_cong:
  "options a = options b \<Longrightarrow> selectedDate a = selectedDate b \<Longrightarrow>
   report_single a src = report_single b src"
  by (simp add: report_single_def split: option.split)

lemma report_range_cong:
  "options a = options b \<Longrightarrow> rangeStart a = rangeStart b \<Longrightarrow> rangeEnd a = rangeEnd b \<Longrightarrow>
   report_range a src = report_range b src"
  by (simp add: report_range_def formatRangeString_def separator_def split: option.split)

lemma report_schedule_cong:
  "scheduleMode (options a) = scheduleMode (options b) \<Longrightarrow>
   scheduleWeeklySelected a = scheduleWeeklySelected b \<Longrightarrow>
   scheduleMonthlySelected a = scheduleMonthlySelected b \<Longrightarrow>
   report_schedule a src = report_schedule b src"
  by (simp add: report_schedule_def formatScheduleArray_def)

lemma close_reports:
  "report_single (close st) src = report_single st src"
  "report_range (close st) src = report_range st src"
  "report_schedule (close st) src = report_schedule st src"
  by (simp_all add: close_def report_single_def report_range_def report_schedule_def
      formatRangeString_def separator_def formatScheduleArray_def split: option.split)

lemma applySelection_confirm:
  "confirm (options st) \<Longrightarrow> field_untouched st (applySelection st d src)"
  by (simp add: field_untouched_def applySelection_def notify_def Let_def)

lemma applySelection_options: "options (applySelection st d src) = options st"
  by (simp add: applySelection_def notify_def dispatchChange_def Let_def)

lemma applySelection_selected: "selectedDate (applySelection st d src) = Some d"
  by (simp add: applySelection_def notify_def dispatchChange_def Let_def)

lemma applySelection_notified:
  "notified (applySelection st d src) =
     notified st @ calls (onSelect (options st)) (report_single (applySelection st d src) src)"
proof -
  have r: "report_single (applySelection st d src) src
      = OnSelect (Some d) (formatDate d (format (options st))) src"
    by (simp add: report_single_def applySelection_selected applySelection_options)
  show ?thesis
    unfolding r by (simp add: applySelection_def notify_def dispatchChange_def Let_def calls_def)
qed

lemma selectDate_confirm:
  "confirm (options st) \<Longrightarrow> field_untouched st (selectDate st d src)"
  by (simp add: selectDate_def Let_def applySelection_confirm)

lemma selectDate_options: "options (selectDate st d src) = options st"
  by (simp add: selectDate_def Let_def applySelection_options)

lemma selectDate_notified:
  "notified (selectDate st d src) =
     notified st @ calls (onSelect (options st)) (report_single (selectDate st d src) src)"
  by (simp add: selectDate_def Let_def applySelection_notified)

lemma syncRangeValue_confirm:
  "confirm (options st) \<Longrightarrow> field_untouched st (syncRangeValue st src)"
  by (simp add: field_untouched_def syncRangeValue_def notify_def Let_def)

lemma syncRangeValue_notified:
  "notified (syncRangeValue st src) =
     notified st @ calls (onSelectRange (options st)) (report_range st src)"
  by (simp add: syncRangeValue_def notify_def dispatchChange_def Let_def calls_def
      report_range_def)

lemma syncScheduleValue_confirm:
  "confirm (options st) \<Longrightarrow> field_untouched st (syncScheduleValue st src)"
  by (simp add: field_untouched_def syncScheduleValue_def notify_def Let_def)

lemma syncScheduleValue_notified:
  "notified (syncScheduleValue st src) =
     notified st @ (if scheduleMode (options st) \<noteq> NoSchedule
                    then calls (onSelectSchedule (options st)) (report_schedule st src) else [])"
  by (simp add: syncScheduleValue_def notify_def dispatchChange_def Let_def calls_def
      report_schedule_def formatScheduleArray_def)

lemma syncScheduleValue_report:
  "report_schedule (syncScheduleValue st src) s = report_schedule st s"
  by (rule report_schedule_cong) (simp_all add: syncScheduleValue_keeps)

lemma handleRangeClick_confirm:
  assumes "confirm (options st)"
  shows "field_untouched st (handleRangeClick st d)"
proof -
  have s: "\<And>x src. confirm (options x) \<Longrightarrow>
      inputValue (updateRangeTimeInputs (syncRangeValue x src)) = inputValue x \<and>
      changeEvents (updateRangeTimeInputs (syncRangeValue x src)) = changeEvents x"
    using syncRangeValue_confirm by (simp add: updateRangeTimeInputs_keeps field_untouched_def)
  show ?thesis
    using assms
    by (simp add: handleRangeClick_def Let_def field_untouched_def s close_keeps
        split: option.split)
qed

lemma range_click_step:
  "notified (updateRangeTimeInputs (syncRangeValue x src)) =
     notified x @ calls (onSelectRange (options x))
       (report_range (updateRangeTimeInputs (syncRangeValue x src)) src)"
proof -
  have r: "report_range (updateRangeTimeInputs (syncRangeValue x src)) src = report_range x src"
    by (rule report_range_cong) (simp_all add: range_keeps)
  show ?thesis unfolding r by (simp add: updateRangeTimeInputs_keeps syncRangeValue_notified)
qed

lemma handleRangeClick_notified:
  "notified (handleRangeClick st d) =
     notified st @ (if range_opt (options st)
                    then calls (onSelectRange (options st)) (report_range (handleRangeClick st d) User)
                    else [])"
proof (cases "range_opt (options st)")
  case False
  then show ?thesis by (simp add: handleRangeClick_def)
next
  case True
  have o: "\<And>x. options (updateRangeTimeInputs (syncRangeValue x User)) = options x"
    by (simp add: range_keeps)
  show ?thesis
    using True
    by (simp add: handleRangeClick_def Let_def range_click_step close_keeps close_reports o
        split: option.split)
qed

lemma cellClick_confirm:
  assumes "confirm (options st)"
  shows "field_untouched st (cellClick st d)"
  using assms handleRangeClick_confirm[OF assms, of d] selectDate_confirm[OF assms, of d User]
  by (simp add: cellClick_def Let_def field_untouched_def close_keeps)

lemma cellClick_notified:
  "notified (cellClick st d) =
     notified st @ (if range_opt (options st)
                    then calls (onSelectRange (options st)) (report_range (cellClick st d) User)
                    else calls (onSelect (options st)) (report_single (cellClick st d) User))"
proof (cases "range_opt (options st)")
  case True
  then show ?thesis by (simp add: cellClick_def handleRangeClick_notified)
next
  case False
  then show ?thesis
    using selectDate_notified[of st d User]
    by (simp add: cellClick_def Let_def close_keeps close_reports)
qed

lemma toggleWeeklyDay_confirm:
  assumes "confirm (options st)"
  shows "field_untouched st (toggleWeeklyDay st n u)"
proof -
  have "\<And>x src. confirm (options x) \<Longrightarrow> inputValue (syncScheduleValue x src) = inputValue x
      \<and> changeEvents (syncScheduleValue x src) = changeEvents x"
    using syncScheduleValue_confirm by (simp add: field_untouched_def)
  then show ?thesis using assms by (simp add: toggleWeeklyDay_def Let_def field_untouched_def)
qed

lemma toggleMonthlyDay_confirm:
  assumes "confirm (options st)"
  shows "field_untouched st (toggleMonthlyDay st n u)"
proof -
  have "\<And>x src. confirm (options x) \<Longrightarrow> inputValue (syncScheduleValue x src) = inputValue x
      \<and> changeEvents (syncScheduleValue x src) = changeEvents x"
    using syncScheduleValue_confirm by (simp add: field_untouched_def)
  then show ?thesis using assms by (simp add: toggleMonthlyDay_def Let_def field_untouched_def)
qed

lemma toggleWeeklyDay_notified:
  "notified (toggleWeeklyDay st n u) =
     notified st @ (if scheduleMode (options st) = Weekly
                    then calls (onSelectSchedule (options st))
                           (report_schedule (toggleWeeklyDay st n u) (if u then User else Api))
                    else [])"
  by (simp add: toggleWeeklyDay_def Let_def syncScheduleValue_notified syncScheduleValue_report)

lemma toggleMonthlyDay_notified:
  "notified (toggleMonthlyDay st n u) =
     notified st @ (if scheduleMode (options st) = Monthly
                    then calls (onSelectSchedule (options st))
                           (report_schedule (toggleMonthlyDay st n u) (if u then User else Api))
                    else [])"
  by (simp add: toggleMonthlyDay_def Let_def syncScheduleValue_notified syncScheduleValue_report)

lemma setRange_clear_confirm:
  "confirm (options st) \<Longrightarrow> field_untouched st (setRange_clear st src)"
  by (simp add: field_untouched_def setRange_clear_def notify_def Let_def)

lemma setRange_clear_notified:
  "notified (setRange_clear st src) =
     notified st @ calls (onSelectRange (options st)) (report_range (setRange_clear st src) src)"
proof -
  have r: "report_range (setRange_clear st src) src = OnSelectRange None None [] src"
    by (simp add: report_range_def setRange_clear_keeps formatRangeString_def)
  show ?thesis
    unfolding r by (simp add: setRange_clear_def notify_def dispatchChange_def Let_def calls_def)
qed

lemma setRange_report_confirm:
  "confirm (options st) \<Longrightarrow> field_untouched st (setRange_report st src)"
  by (simp add: field_untouched_def setRange_report_def notify_def Let_def)

lemma setRange_report_notified:
  "notified (setRange_report st src) =
     notified st @ calls (onSelectRange (options st)) (report_range (setRange_report st src) src)"
proof -
  have r: "report_range (setRange_report st src) src = report_range st src"
    by (rule report_range_cong) (simp_all add: setRange_report_keeps)
  show ?thesis
    unfolding r
    by (simp add: setRange_report_def notify_def dispatchChange_def Let_def calls_def
        report_range_def)
qed

lemma setRange_confirm:
  assumes "setRange st ra so = Inr st'"
  shows "(confirm (options st) \<longrightarrow> field_untouched st st') \<and>
         (if range_opt (options st)
          then notified st' = notified st @
                 calls (onSelectRange (options st)) (report_range st' (source_or_api so))
          else st' = st)"
proof (cases "range_opt (options st)")
  case False
  with assms show ?thesis by (simp add: setRange_def field_untouched_def)
next
  case True
  show ?thesis
  proof (cases "range_is_falsy ra")
    case True
    with assms \<open>range_opt (options st)\<close> show ?thesis
      by (auto simp: setRange_def setRange_clear_confirm setRange_clear_notified)
  next
    case False
    with assms True obtain se where se: "range_endpoints st ra = Inr se"
      by (cases "range_endpoints st ra") (simp_all add: setRange_def bind_fault_def throw_in_def)
    obtain a b where ab: "filter_endpoints st (swap_if_later se) = (a, b)" by force
    define st3 where "st3 = (case rangeStart (setRange_times (st\<lparr>rangeStart := a, rangeEnd := b\<rparr>)) of
         Some d \<Rightarrow> (setRange_times (st\<lparr>rangeStart := a, rangeEnd := b\<rparr>))\<lparr>currentViewMonth := startOfMonth d\<rparr>
       | None \<Rightarrow> setRange_times (st\<lparr>rangeStart := a, rangeEnd := b\<rparr>))"
    have eq: "st' = setRange_report st3 (source_or_api so)"
      using assms True False
      by (simp add: setRange_def bind_fault_def throw_in_def se ab Let_def st3_def)
    have k: "options st3 = options st" "inputValue st3 = inputValue st"
      "changeEvents st3 = changeEvents st" "notified st3 = notified st"
      by (simp_all add: st3_def setRange_times_keeps split: option.split)
    have "confirm (options st) \<Longrightarrow> field_untouched st3 st'"
      unfolding eq using k by (intro setRange_report_confirm) simp
    moreover have "notified st' = notified st @
        calls (onSelectRange (options st)) (report_range st' (source_or_api so))"
      unfolding eq using setRange_report_notified[of st3 "source_or_api so"] k by simp
    ultimately show ?thesis using k True by (simp add: field_untouched_def)
  qed
qed

lemma setDate_confirm:
  assumes "setDate st a so = Inr st'"
  shows "(confirm (options st) \<longrightarrow> field_untouched st st') \<and>
         (if range_opt (options st)
          then notified st' = notified st @
                 calls (onSelectRange (options st)) (report_range st' (source_or_api so))
          else if arg_is_falsy a
          then notified st' = notified st @
                 calls (onSelect (options st)) (report_single st' (source_or_api so))
          else \<exists>p. normalizeDate st a = Inr p \<and>
                 (case p of
                    None \<Rightarrow> st' = st
                  | Some d \<Rightarrow>
                      if isDateOutOfBounds d (minDate (options st)) (maxDate (options st))
                         \<or> disabledByFn st d
                      then st' = st
                      else notified st' = notified st @
                             calls (onSelect (options st)) (report_single st' (source_or_api so))))"
proof (cases "range_opt (options st)")
  case True
  have s: "source_or_api (Some (source_or_api so)) = source_or_api so"
    by (simp add: source_or_api_def)
  from True assms show ?thesis
    using setRange_confirm[of st RangeNull "Some (source_or_api so)" st']
      setRange_confirm[of st "RangeObject a (arg_of_date (rangeEnd st))" "Some (source_or_api so)" st']
    by (auto simp: setDate_def s split: if_splits)
next
  case False
  show ?thesis
  proof (cases "arg_is_falsy a")
    case True
    with assms False show ?thesis
      by (auto simp: setDate_def field_untouched_def notify_def Let_def calls_def
          report_single_def dispatchChange_def)
  next
    case nf: False
    with assms False obtain p where p: "normalizeDate st a = Inr p"
      by (cases "normalizeDate st a") (simp_all add: setDate_def bind_fault_def throw_in_def)
    show ?thesis
    proof (cases p)
      case None
      with assms False nf p show ?thesis
        by (simp add: setDate_def bind_fault_def throw_in_def field_untouched_def)
    next
      case (Some parsed)
      define st2 where "st2 = (if enableTime (options st)
          then initTimeFromDate (st\<lparr>currentViewMonth := startOfMonth parsed\<rparr>) parsed
          else st\<lparr>currentViewMonth := startOfMonth parsed\<rparr>)"
      have k: "options st2 = options st" "inputValue st2 = inputValue st"
        "changeEvents st2 = changeEvents st" "notified st2 = notified st"
        by (simp_all add: st2_def initTimeFromDate_def)
      show ?thesis
      proof (cases "isDateOutOfBounds parsed (minDate (options st)) (maxDate (options st))
                     \<or> disabledByFn st parsed")
        case True
        then have "st' = st"
          using assms False nf p Some
          by (auto simp: setDate_def bind_fault_def throw_in_def Let_def split: if_splits)
        then show ?thesis using False nf p Some True by (simp add: field_untouched_def)
      next
        case ok: False
        have e: "st' = selectDate st2 parsed (source_or_api so)"
          using assms False nf p Some ok
          by (simp add: setDate_def bind_fault_def throw_in_def Let_def st2_def)
        have "confirm (options st) \<Longrightarrow> field_untouched st2 st'"
          unfolding e using k by (intro selectDate_confirm) simp
        moreover have "notified st' = notified st @
            calls (onSelect (options st)) (report_single st' (source_or_api so))"
          unfolding e using selectDate_notified[of st2 parsed "source_or_api so"] k by simp
        ultimately show ?thesis using False nf p Some ok k by (simp add: field_untouched_def)
      qed
    qed
  qed
qed

lemma upd_scheduleMode_result:
  assumes "m \<noteq> scheduleMode (options st)"
  shows "\<exists>st2. upd_scheduleMode m st = Inr (syncScheduleValue st2 Api) \<and>
           scheduleMode (options st2) = m \<and>
           confirm (options st2) = confirm (options st) \<and>
           onSelectSchedule (options st2) = onSelectSchedule (options st) \<and>
           scheduleWeeklySelected st2 = scheduleWeeklySelected st \<and>
           scheduleMonthlySelected st2 = scheduleMonthlySelected st \<and>
           inputValue st2 = inputValue st \<and> changeEvents st2 = changeEvents st \<and>
           notified st2 = notified st \<and> daysGrid st2 = daysGrid st"
proof -
  define st2 where "st2 = (if m \<noteq> NoSchedule
      then (set_options (\<lambda>opts. opts\<lparr>enableTime := False, range_opt := False\<rparr>)
              (set_options (\<lambda>opts. opts\<lparr>scheduleMode := m\<rparr>) st))
             \<lparr>timeRow := False, timeRangeRow := False\<rparr>
      else set_options (\<lambda>opts. opts\<lparr>scheduleMode := m\<rparr>) st)"
  have "upd_scheduleMode m st = Inr (syncScheduleValue st2 Api)"
    using assms by (simp add: upd_scheduleMode_def Let_def st2_def)
  moreover have "scheduleMode (options st2) = m \<and>
           confirm (options st2) = confirm (options st) \<and>
           onSelectSchedule (options st2) = onSelectSchedule (options st) \<and>
           scheduleWeeklySelected st2 = scheduleWeeklySelected st \<and>
           scheduleMonthlySelected st2 = scheduleMonthlySelected st \<and>
           inputValue st2 = inputValue st \<and> changeEvents st2 = changeEvents st \<and>
           notified st2 = notified st \<and> daysGrid st2 = daysGrid st"
    by (simp add: st2_def set_options_def)
  ultimately show ?thesis by blast
qed

lemma updateOptions_scheduleMode:
  "updateOptions st (no_keys\<lparr>p_scheduleMode := Some m\<rparr>) = upd_scheduleMode m st"
  by (simp add: updateOptions_def on_key_def bind_fault_def no_keys_def split: sum.split)

lemma setSchedule_confirm:
  assumes "setSchedule st pl so = Inr st'"
  shows "(confirm (options st) \<longrightarrow> field_untouched st st') \<and>
         notified st' = notified st @
           (case payload_mode pl of
              Some m \<Rightarrow>
                if m \<noteq> scheduleMode (options st) \<and> m \<noteq> NoSchedule
                then calls (onSelectSchedule (options st))
                       (report_schedule (set_options (\<lambda>opts. opts\<lparr>scheduleMode := m\<rparr>) st) Api)
                else []
            | None \<Rightarrow> []) @
           (if scheduleMode (options st') \<noteq> NoSchedule
            then calls (onSelectSchedule (options st)) (report_schedule st' (source_or_api so))
            else [])"
proof -
  define changing where "changing = (case payload_mode pl of
      Some m \<Rightarrow> m \<noteq> scheduleMode (options st) | None \<Rightarrow> False)"
  define r where "r = (case payload_mode pl of
          Some m \<Rightarrow>
            if m \<noteq> scheduleMode (options st)
            then updateOptions st (no_keys\<lparr>p_scheduleMode := Some m\<rparr>) else Inr st
        | None \<Rightarrow> Inr st)"
  define first where "first = (case payload_mode pl of
              Some m \<Rightarrow>
                if m \<noteq> scheduleMode (options st) \<and> m \<noteq> NoSchedule
                then calls (onSelectSchedule (options st))
                       (report_schedule (set_options (\<lambda>opts. opts\<lparr>scheduleMode := m\<rparr>) st) Api)
                else []
            | None \<Rightarrow> [])"
  have r: "\<exists>st1. r = Inr st1 \<and> confirm (options st1) = confirm (options st) \<and>
       onSelectSchedule (options st1) = onSelectSchedule (options st) \<and>
       (confirm (options st) \<longrightarrow>
          inputValue st1 = inputValue st \<and> changeEvents st1 = changeEvents st) \<and>
       notified st1 = notified st @ first"
  proof (cases "changing")
    case False
    then have "r = Inr st" "first = []"
      by (auto simp: r_def changing_def first_def split: option.splits)
    then show ?thesis using False by simp
  next
    case True
    then obtain m where m: "payload_mode pl = Some m" "m \<noteq> scheduleMode (options st)"
      by (auto simp: changing_def split: option.splits)
    from upd_scheduleMode_result[OF m(2)] obtain st2 where
      st2: "upd_scheduleMode m st = Inr (syncScheduleValue st2 Api)"
        "scheduleMode (options st2) = m" "confirm (options st2) = confirm (options st)"
        "onSelectSchedule (options st2) = onSelectSchedule (options st)"
        "scheduleWeeklySelected st2 = scheduleWeeklySelected st"
        "scheduleMonthlySelected st2 = scheduleMonthlySelected st"
        "inputValue st2 = inputValue st" "changeEvents st2 = changeEvents st"
        "notified st2 = notified st"
      by blast
    have e: "r = Inr (syncScheduleValue st2 Api)"
      using m st2(1) by (simp add: r_def updateOptions_scheduleMode)
    have rp: "report_schedule st2 Api
        = report_schedule (set_options (\<lambda>opts. opts\<lparr>scheduleMode := m\<rparr>) st) Api"
      by (rule report_schedule_cong) (simp_all add: st2 set_options_def)
    have f: "first = (if m \<noteq> NoSchedule
        then calls (onSelectSchedule (options st))
               (report_schedule (set_options (\<lambda>opts. opts\<lparr>scheduleMode := m\<rparr>) st) Api)
        else [])"
      using m by (simp add: first_def)
    have n: "notified (syncScheduleValue st2 Api) = notified st @ first"
      by (simp add: syncScheduleValue_notified st2 rp f)
    have c: "confirm (options st) \<Longrightarrow> field_untouched st2 (syncScheduleValue st2 Api)"
      using st2(3) by (intro syncScheduleValue_confirm) simp
    show ?thesis
      using e n c st2 by (simp add: syncScheduleValue_keeps field_untouched_def)
  qed
  then obtain st1 where st1: "r = Inr st1" "confirm (options st1) = confirm (options st)"
      "onSelectSchedule (options st1) = onSelectSchedule (options st)"
      "confirm (options st) \<longrightarrow> changeEvents st1 = changeEvents st"
      "notified st1 = notified st @ first"
    and i1: "confirm (options st) \<Longrightarrow> inputValue st1 = inputValue st"
    by blast
  define st2 where "st2 = (if scheduleMode (options st1) = Weekly \<and> payload_weekly pl \<noteq> None then
                   st1\<lparr>scheduleWeeklySelected := set_of_array (the (payload_weekly pl))\<rparr>
                 else if scheduleMode (options st1) = Monthly \<and> payload_monthly pl \<noteq> None then
                   st1\<lparr>scheduleMonthlySelected := set_of_array (the (payload_monthly pl))\<rparr>
                 else st1)"
  have k: "options st2 = options st1" "inputValue st2 = inputValue st1"
    "changeEvents st2 = changeEvents st1" "notified st2 = notified st1"
    by (simp_all add: st2_def)
  have e: "st' = syncScheduleValue st2 (source_or_api so)"
    using assms unfolding setSchedule_def r_def[symmetric] st1(1) bind_fault_def
    by (simp add: Let_def st2_def)
  have u: "confirm (options st) \<Longrightarrow> field_untouched st2 st'"
    unfolding e using k st1(2) by (intro syncScheduleValue_confirm) simp
  have n: "notified st' = notified st @ first @
           (if scheduleMode (options st') \<noteq> NoSchedule
            then calls (onSelectSchedule (options st)) (report_schedule st' (source_or_api so))
            else [])"
    unfolding e
    by (simp add: syncScheduleValue_notified syncScheduleValue_report syncScheduleValue_keeps
        k st1)
  show ?thesis
    using u n k st1 i1 unfolding first_def by (auto simp: field_untouched_def)
qed

lemma clearSelection_confirm:
  assumes "clearSelection st = Inr st'"
  shows "(confirm (options st) \<longrightarrow> field_untouched st st') \<and>
         notified st' = notified st @
           (if scheduleMode (options st) \<noteq> NoSchedule
            then calls (onSelectSchedule (options st)) (report_schedule st' User)
            else if range_opt (options st)
            then calls (onSelectRange (options st)) (report_range st' User)
            else calls (onSelect (options st)) (report_single st' User))"
proof -
  obtain st1 where st1: "(if scheduleMode (options st) = Weekly then
          Inr (syncScheduleValue (st\<lparr>scheduleWeeklySelected := []\<rparr>) User)
        else if scheduleMode (options st) = Monthly then
          Inr (syncScheduleValue (st\<lparr>scheduleMonthlySelected := []\<rparr>) User)
        else if range_opt (options st) then setRange st RangeNull (Some User)
        else setDate st ArgNull (Some User)) = Inr st1"
    using assms by (auto simp: clearSelection_def bind_fault_def split: sum.splits)
  have c: "st' = st1 \<or> st' = close st1"
    using assms unfolding clearSelection_def st1 bind_fault_def by (auto split: if_splits)
  have s: "source_or_api (Some User) = User" by (simp add: source_or_api_def)
  have a: "(confirm (options st) \<longrightarrow> field_untouched st st1) \<and>
         notified st1 = notified st @
           (if scheduleMode (options st) \<noteq> NoSchedule
            then calls (onSelectSchedule (options st)) (report_schedule st1 User)
            else if range_opt (options st)
            then calls (onSelectRange (options st)) (report_range st1 User)
            else calls (onSelect (options st)) (report_single st1 User))"
  proof (cases "scheduleMode (options st)")
    case Weekly
    then have e: "st1 = syncScheduleValue (st\<lparr>scheduleWeeklySelected := []\<rparr>) User"
      using st1 by simp
    show ?thesis
      unfolding e
      using syncScheduleValue_confirm[of "st\<lparr>scheduleWeeklySelected := []\<rparr>" User] Weekly
      by (simp add: field_untouched_def syncScheduleValue_notified syncScheduleValue_report)
  next
    case Monthly
    then have e: "st1 = syncScheduleValue (st\<lparr>scheduleMonthlySelected := []\<rparr>) User"
      using st1 by simp
    show ?thesis
      unfolding e
      using syncScheduleValue_confirm[of "st\<lparr>scheduleMonthlySelected := []\<rparr>" User] Monthly
      by (simp add: field_untouched_def syncScheduleValue_notified syncScheduleValue_report)
  next
    case NoSchedule
    show ?thesis
    proof (cases "range_opt (options st)")
      case True
      then have "setRange st RangeNull (Some User) = Inr st1" using st1 NoSchedule by simp
      from setRange_confirm[OF this] show ?thesis using True NoSchedule by (simp add: s)
    next
      case False
      then have "setDate st ArgNull (Some User) = Inr st1" using st1 NoSchedule by simp
      from setDate_confirm[OF this] show ?thesis
        using False NoSchedule by (simp add: s arg_is_falsy_def)
    qed
  qed
  from c show ?thesis
  proof
    assume "st' = st1" then show ?thesis using a by simp
  next
    assume "st' = close st1"
    then show ?thesis using a by (simp add: field_untouched_def close_keeps close_reports)
  qed
qed

lemma commitValue_writes:
  assumes "confirm (options st)"
  shows "inputValue (commitValue st) = committed_text st"
    and "changeEvents (commitValue st) = Suc (changeEvents st)"
    and "notified (commitValue st) = notified st @ calls (mode_callback st) (mode_report st Confirm)"
  using assms
  by (simp_all add: commitValue_def committed_text_def mode_callback_def mode_report_def Let_def
      notify_def dispatchChange_def close_def calls_def report_single_def report_range_def
      report_schedule_def)

text \<open>
  C7, as the code has it.  In confirm mode a change of the selection, by a click, by a
  toggle in a schedule or through the programmatic setters, leaves the value of the input
  element as it is and dispatches no \<open>change\<close> event.  The callback is not deferred: each
  of these operations calls the callback of its mode at once, when one is registered,
  with the selection the picker then holds and the source of the change (the setters do
  not call it when they reject the date or cannot read it, and then change nothing).
  \<^verbatim>\<open>_commitValue\<close> writes the formatted selection to the input element, dispatches the
  event and calls the callback of the mode once more, with the source \<open>confirm\<close>.
\<close>

theorem confirm_defers_field_not_callback:
  assumes "confirm (options st)"
  shows "(field_untouched st (cellClick st d) \<and>
          notified (cellClick st d) = notified st @
            (if range_opt (options st)
             then calls (onSelectRange (options st)) (report_range (cellClick st d) User)
             else calls (onSelect (options st)) (report_single (cellClick st d) User))) \<and>
         (field_untouched st (selectDate st d src) \<and>
          notified (selectDate st d src) = notified st @
            calls (onSelect (options st)) (report_single (selectDate st d src) src)) \<and>
         (field_untouched st (handleRangeClick st d) \<and>
          notified (handleRangeClick st d) = notified st @
            (if range_opt (options st)
             then calls (onSelectRange (options st)) (report_range (handleRangeClick st d) User)
             else [])) \<and>
         (field_untouched st (toggleWeeklyDay st n u) \<and>
          notified (toggleWeeklyDay st n u) = notified st @
            (if scheduleMode (options st) = Weekly
             then calls (onSelectSchedule (options st))
                    (report_schedule (toggleWeeklyDay st n u) (if u then User else Api))
             else [])) \<and>
         (field_untouched st (toggleMonthlyDay st n u) \<and>
          notified (toggleMonthlyDay st n u) = notified st @
            (if scheduleMode (options st) = Monthly
             then calls (onSelectSchedule (options st))
                    (report_schedule (toggleMonthlyDay st n u) (if u then User else Api))
             else [])) \<and>
         (\<forall>st'. setDate st a so = Inr st' \<longrightarrow>
            field_untouched st st' \<and>
            (if range_opt (options st)
             then notified st' = notified st @
                    calls (onSelectRange (options st)) (report_range st' (source_or_api so))
             else if arg_is_falsy a
             then notified st' = notified st @
                    calls (onSelect (options st)) (report_single st' (source_or_api so))
             else \<exists>p. normalizeDate st a = Inr p \<and>
                    (case p of
                       None \<Rightarrow> st' = st
                     | Some d \<Rightarrow>
                         if isDateOutOfBounds d (minDate (options st)) (maxDate (options st))
                            \<or> disabledByFn st d
                         then st' = st
                         else notified st' = notified st @
                                calls (onSelect (options st))
                                  (report_single st' (source_or_api so))))) \<and>
         (\<forall>st'. setRange st ra so = Inr st' \<longrightarrow>
            field_untouched st st' \<and>
            (if range_opt (options st)
             then notified st' = notified st @
                    calls (onSelectRange (options st)) (report_range st' (source_or_api so))
             else st' = st)) \<and>
         (\<forall>st'. setSchedule st pl so = Inr st' \<longrightarrow>
            field_untouched st st' \<and>
            notified st' = notified st @
              (case payload_mode pl of
                 Some m \<Rightarrow>
                   if m \<noteq> scheduleMode (options st) \<and> m \<noteq> NoSchedule
                   then calls (onSelectSchedule (options st))
                          (report_schedule (set_options (\<lambda>opts. opts\<lparr>scheduleMode := m\<rparr>) st) Api)
                   else []
               | None \<Rightarrow> []) @
              (if scheduleMode (options st') \<noteq> NoSchedule
               then calls (onSelectSchedule (options st)) (report_schedule st' (source_or_api so))
               else [])) \<and>
         (\<forall>st'. clearSelection st = Inr st' \<longrightarrow>
            field_untouched st st' \<and>
            notified st' = notified st @
              (if scheduleMode (options st) \<noteq> NoSchedule
               then calls (onSelectSchedule (options st)) (report_schedule st' User)
               else if range_opt (options st)
               then calls (onSelectRange (options st)) (report_range st' User)
               else calls (onSelect (options st)) (report_single st' User))) \<and>
         (inputValue (commitValue st) = committed_text st \<and>
          changeEvents (commitValue st) = Suc (changeEvents st) \<and>
          notified (commitValue st) = notified st @
            calls (mode_callback st) (mode_report st Confirm))"
proof -
  note a = assms
  have 1: "field_untouched st (cellClick st d) \<and>
          notified (cellClick st d) = notified st @
            (if range_opt (options st)
             then calls (onSelectRange (options st)) (report_range (cellClick st d) User)
             else calls (onSelect (options st)) (report_single (cellClick st d) User))"
    using cellClick_confirm[OF a] cellClick_notified by blast
  have 2: "field_untouched st (selectDate st d src) \<and>
          notified (selectDate st d src) = notified st @
            calls (onSelect (options st)) (report_single (selectDate st d src) src)"
    using selectDate_confirm[OF a] selectDate_notified by blast
  have 3: "field_untouched st (handleRangeClick st d) \<and>
          notified (handleRangeClick st d) = notified st @
            (if range_opt (options st)
             then calls (onSelectRange (options st)) (report_range (handleRangeClick st d) User)
             else [])"
    using handleRangeClick_confirm[OF a] handleRangeClick_notified by blast
  have 4: "field_untouched st (toggleWeeklyDay st n u) \<and>
          notified (toggleWeeklyDay st n u) = notified st @
            (if scheduleMode (options st) = Weekly
             then calls (onSelectSchedule (options st))
                    (report_schedule (toggleWeeklyDay st n u) (if u then User else Api))
             else [])"
    using toggleWeeklyDay_confirm[OF a] toggleWeeklyDay_notified by blast
  have 5: "field_untouched st (toggleMonthlyDay st n u) \<and>
          notified (toggleMonthlyDay st n u) = notified st @
            (if scheduleMode (options st) = Monthly
             then calls (onSelectSchedule (options st))
                    (report_schedule (toggleMonthlyDay st n u) (if u then User else Api))
             else [])"
    using toggleMonthlyDay_confirm[OF a] toggleMonthlyDay_notified by blast
  have 6: "\<forall>st'. setDate st a so = Inr st' \<longrightarrow>
            field_untouched st st' \<and>
            (if range_opt (options st)
             then notified st' = notified st @
                    calls (onSelectRange (options st)) (report_range st' (source_or_api so))
             else if arg_is_falsy a
             then notified st' = notified st @
                    calls (onSelect (options st)) (report_single st' (source_or_api so))
             else \<exists>p. normalizeDate st a = Inr p \<and>
                    (case p of
                       None \<Rightarrow> st' = st
                     | Some d \<Rightarrow>
                         if isDateOutOfBounds d (minDate (options st)) (maxDate (options st))
                            \<or> disabledByFn st d
                         then st' = st
                         else notified st' = notified st @
                                calls (onSelect (options st))
                                  (report_single st' (source_or_api so))))"
    using setDate_confirm[of st a so] a by blast
  have 7: "\<forall>st'. setRange st ra so = Inr st' \<longrightarrow>
            field_untouched st st' \<and>
            (if range_opt (options st)
             then notified st' = notified st @
                    calls (onSelectRange (options st)) (report_range st' (source_or_api so))
             else st' = st)"
    using setRange_confirm[of st ra so] a by blast
  have 8: "\<forall>st'. setSchedule st pl so = Inr st' \<longrightarrow>
            field_untouched st st' \<and>
            notified st' = notified st @
              (case payload_mode pl of
                 Some m \<Rightarrow>
                   if m \<noteq> scheduleMode (options st) \<and> m \<noteq> NoSchedule
                   then calls (onSelectSchedule (options st))
                          (report_schedule (set_options (\<lambda>opts. opts\<lparr>scheduleMode := m\<rparr>) st) Api)
                   else []
               | None \<Rightarrow> []) @
              (if scheduleMode (options st') \<noteq> NoSchedule
               then calls (onSelectSchedule (options st)) (report_schedule st' (source_or_api so))
               else [])"
    using setSchedule_confirm[of st pl so] a by blast
  have 9: "\<forall>st'. clearSelection st = Inr st' \<longrightarrow>
            field_untouched st st' \<and>
            notified st' = notified st @
              (if scheduleMode (options st) \<noteq> NoSchedule
               then calls (onSelectSchedule (options st)) (report_schedule st' User)
               else if range_opt (options st)
               then calls (onSelectRange (options st)) (report_range st' User)
               else calls (onSelect (options st)) (report_single st' User))"
    using clearSelection_confirm[of st] a by blast
  have 10: "inputValue (commitValue st) = committed_text st \<and>
          changeEvents (commitValue st) = Suc (changeEvents st) \<and>
          notified (commitValue st) = notified st @
            calls (mode_callback st) (mode_report st Confirm)"
    using commitValue_writes[OF a] by blast
  show ?thesis
    by (rule conjI[OF 1 conjI[OF 2 conjI[OF 3 conjI[OF 4 conjI[OF 5 conjI[OF 6
          conjI[OF 7 conjI[OF 8 conjI[OF 9 10]]]]]]]]])
qed

lemma format_march_15: "formatDate (ymd 2024 2 15) ''yyyy-MM-dd'' = ''2024-03-15''"
  by (simp add: eval_format ymd_def)

lemma click_in_confirm_mode:
  "cellClick (blank_picker (default_options\<lparr>confirm := True, onSelect := True\<rparr>)) (ymd 2024 2 15)
   = (blank_picker (default_options\<lparr>confirm := True, onSelect := True\<rparr>))
       \<lparr>selectedDate := Some (ymd 2024 2 15), focusedDate := Some (ymd 2024 2 15),
        notified := [OnSelect (Some (ymd 2024 2 15)) ''2024-03-15'' User]\<rparr>"
  by (simp add: cellClick_def selectDate_def applySelection_def startOfDay_ymd days_in_month_def
      format_march_15 blank_picker_def default_options_def notify_def Let_def)

lemma commit_after_click:
  "commitValue ((blank_picker (default_options\<lparr>confirm := True, onSelect := True\<rparr>))
       \<lparr>selectedDate := Some (ymd 2024 2 15), focusedDate := Some (ymd 2024 2 15),
        notified := [OnSelect (Some (ymd 2024 2 15)) ''2024-03-15'' User]\<rparr>)
   = (blank_picker (default_options\<lparr>confirm := True, onSelect := True\<rparr>))
       \<lparr>selectedDate := Some (ymd 2024 2 15), focusedDate := Some (ymd 2024 2 15),
        inputValue := ''2024-03-15'',
        notified := [OnSelect (Some (ymd 2024 2 15)) ''2024-03-15'' User,
                     OnSelect (Some (ymd 2024 2 15)) ''2024-03-15'' Confirm],
        changeEvents := Suc 0\<rparr>"
  by (simp add: commitValue_def format_march_15 blank_picker_def default_options_def notify_def
      dispatchChange_def close_def Let_def)

theorem confirm_defers_field_not_callback_witness:
  "new_DatePicker (default_initial_options\<lparr>i_confirm := True, i_onSelect := True\<rparr>) sample_now
     = Inr (blank_picker (default_options\<lparr>confirm := True, onSelect := True\<rparr>)) \<and>
   confirm (options (blank_picker (default_options\<lparr>confirm := True, onSelect := True\<rparr>))) \<and>
   field_untouched (blank_picker (default_options\<lparr>confirm := True, onSelect := True\<rparr>))
     (cellClick (blank_picker (default_options\<lparr>confirm := True, onSelect := True\<rparr>)) (ymd 2024 2 15)) \<and>
   inputValue
     (cellClick (blank_picker (default_options\<lparr>confirm := True, onSelect := True\<rparr>)) (ymd 2024 2 15))
     = [] \<and>
   notified
     (cellClick (blank_picker (default_options\<lparr>confirm := True, onSelect := True\<rparr>)) (ymd 2024 2 15))
     = [OnSelect (Some (ymd 2024 2 15)) ''2024-03-15'' User] \<and>
   inputValue (commitValue
     (cellClick (blank_picker (default_options\<lparr>confirm := True, onSelect := True\<rparr>)) (ymd 2024 2 15)))
     = ''2024-03-15'' \<and>
   notified (commitValue
     (cellClick (blank_picker (default_options\<lparr>confirm := True, onSelect := True\<rparr>)) (ymd 2024 2 15)))
     = [OnSelect (Some (ymd 2024 2 15)) ''2024-03-15'' User,
        OnSelect (Some (ymd 2024 2 15)) ''2024-03-15'' Confirm]"
proof -
  let ?p = "blank_picker (default_options\<lparr>confirm := True, onSelect := True\<rparr>)"
  have n: "new_DatePicker (default_initial_options\<lparr>i_confirm := True, i_onSelect := True\<rparr>) sample_now
     = Inr ?p"
    by (simp add: sample_defs)
  have c: "confirm (options ?p)" by (simp add: blank_picker_def default_options_def)
  have i: "inputValue ?p = []" "notified ?p = []" "\<not> range_opt (options ?p)" "onSelect (options ?p)"
    by (simp_all add: blank_picker_def default_options_def)
  note t = confirm_defers_field_not_callback[OF c, of "ymd 2024 2 15" User 0 True ArgNull None
      RangeNull "\<lparr>payload_mode = None, payload_weekly = None, payload_monthly = None\<rparr>"]
  have f: "field_untouched ?p (cellClick ?p (ymd 2024 2 15))"
    using t by blast
  have r: "report_single (cellClick ?p (ymd 2024 2 15)) User
      = OnSelect (Some (ymd 2024 2 15)) ''2024-03-15'' User"
    unfolding click_in_confirm_mode
    by (simp add: report_single_def blank_picker_def default_options_def format_march_15)
  have "notified (cellClick ?p (ymd 2024 2 15)) = notified ?p @
            (if range_opt (options ?p)
             then calls (onSelectRange (options ?p)) (report_range (cellClick ?p (ymd 2024 2 15)) User)
             else calls (onSelect (options ?p)) (report_single (cellClick ?p (ymd 2024 2 15)) User))"
    using t by blast
  then have k: "notified (cellClick ?p (ymd 2024 2 15))
      = [OnSelect (Some (ymd 2024 2 15)) ''2024-03-15'' User]"
    unfolding r by (simp add: i calls_def)
  have v: "inputValue (cellClick ?p (ymd 2024 2 15)) = []"
    using f i by (simp add: field_untouched_def)
  have m: "inputValue (commitValue (cellClick ?p (ymd 2024 2 15))) = ''2024-03-15''"
    "notified (commitValue (cellClick ?p (ymd 2024 2 15)))
      = [OnSelect (Some (ymd 2024 2 15)) ''2024-03-15'' User,
         OnSelect (Some (ymd 2024 2 15)) ''2024-03-15'' Confirm]"
    by (simp_all add: click_in_confirm_mode commit_after_click)
  show ?thesis using n c f v k m by simp
qed

theorem callback_fires_in_confirm_mode_counterexample:
  "confirm (options (blank_picker (default_options\<lparr>confirm := True, onSelect := True\<rparr>))) \<and>
   notified (blank_picker (default_options\<lparr>confirm := True, onSelect := True\<rparr>)) = [] \<and>
   notified
     (cellClick (blank_picker (default_options\<lparr>confirm := True, onSelect := True\<rparr>)) (ymd 2024 2 15))
     = [OnSelect (Some (ymd 2024 2 15)) ''2024-03-15'' User]"
  by (simp add: click_in_confirm_mode) (simp add: blank_picker_def default_options_def)

section \<open>The grid\<close>

lemma new_DatePicker_built:
  assumes "new_DatePicker initialOptions now = Inr st"
  shows "scheduleMode (options st) = i_scheduleMode initialOptions"
    and "daysGrid st = (i_scheduleMode initialOptions \<noteq> Weekly)"
    and "enableTime (options st) \<longrightarrow> confirm (options st)"
    and "timeRow st = (enableTime (options st) \<and> \<not> range_opt (options st))"
    and "timeRangeRow st = (enableTime (options st) \<and> range_opt (options st))"
proof -
  obtain mn where mn: "normalizeDateWith False [] (i_minDate initialOptions) = Inr mn"
    using assms by (cases "normalizeDateWith False [] (i_minDate initialOptions)")
      (simp_all add: new_DatePicker_def bind_fault_def)
  obtain mx where mx: "normalizeDateWith False [] (i_maxDate initialOptions) = Inr mx"
    using assms mn by (cases "normalizeDateWith False [] (i_maxDate initialOptions)")
      (simp_all add: new_DatePicker_def bind_fault_def)
  have e: "Inr st = new_DatePicker initialOptions now" using assms by simp
  show "scheduleMode (options st) = i_scheduleMode initialOptions"
    using e unfolding new_DatePicker_def mn mx bind_fault_def
    by (auto simp: Let_def split: if_splits)
  show "daysGrid st = (i_scheduleMode initialOptions \<noteq> Weekly)"
    using e unfolding new_DatePicker_def mn mx bind_fault_def
    by (auto simp: Let_def split: if_splits)
  show "enableTime (options st) \<longrightarrow> confirm (options st)"
    using e unfolding new_DatePicker_def mn mx bind_fault_def
    by (auto simp: Let_def split: if_splits)
  show "timeRow st = (enableTime (options st) \<and> \<not> range_opt (options st))"
    using e unfolding new_DatePicker_def mn mx bind_fault_def
    by (auto simp: Let_def split: if_splits)
  show "timeRangeRow st = (enableTime (options st) \<and> range_opt (options st))"
    using e unfolding new_DatePicker_def mn mx bind_fault_def
    by (auto simp: Let_def split: if_splits)
qed

lemma syncScheduleValue_grid: "daysGrid (syncScheduleValue st src) = daysGrid st"
  by (simp add: sync_defs)

lemma leaving_weekly_mode:
  assumes "scheduleMode (options st) = Weekly" "\<not> daysGrid st"
  shows "\<exists>st1. updateOptions st (no_keys\<lparr>p_scheduleMode := Some NoSchedule\<rparr>) = Inr st1 \<and>
           scheduleMode (options st1) = NoSchedule \<and> \<not> daysGrid st1 \<and> render st1 now = []"
proof -
  have m: "NoSchedule \<noteq> scheduleMode (options st)" using assms(1) by simp
  from upd_scheduleMode_result[OF m] obtain st2 where
    st2: "upd_scheduleMode NoSchedule st = Inr (syncScheduleValue st2 Api)"
      "scheduleMode (options st2) = NoSchedule" "daysGrid st2 = daysGrid st"
    by blast
  have "scheduleMode (options (syncScheduleValue st2 Api)) = NoSchedule"
    "\<not> daysGrid (syncScheduleValue st2 Api)"
    using st2 assms(2) by (simp_all add: syncScheduleValue_keeps syncScheduleValue_grid)
  then show ?thesis
    unfolding updateOptions_scheduleMode st2(1) by (simp add: render_def)
qed

text \<open>
  C8.  When the grid element exists and no schedule mode is on, \<^verbatim>\<open>_render\<close> appends
  exactly 42 children.  The child at index \<open>i\<close> is the button of the date \<open>i\<close> days
  after the start of the week of the first of the month shown, or, when that date is
  outside the month and \<^verbatim>\<open>showOutsideDays\<close> is off, a filler in its place.  The grid
  element does not always exist in calendar mode: \<^verbatim>\<open>_build\<close> does not create it for a
  picker constructed in the weekly schedule, and \<^verbatim>\<open>updateOptions\<close>, which on leaving
  the schedule only attaches again a grid that exists, returns with no schedule mode on
  and no grid, so that \<^verbatim>\<open>_render\<close> appends no cell at all.
\<close>

theorem calendar_grid_42_cells_if_grid_exists:
  "(daysGrid st \<and> scheduleMode (options st) = NoSchedule \<longrightarrow>
      length (render st now) = 42 \<and>
      (\<forall>i<42.
         (let dayDate = addDays (startOfWeek (startOfMonth (currentViewMonth st))
                                   (firstDayOfWeek (options st))) (int i);
              isOutside = (getMonth dayDate \<noteq> getMonth (currentViewMonth st))
          in if \<not> showOutsideDays (options st) \<and> isOutside
             then render st now ! i = Filler
             else \<exists>today sel dis. render st now ! i = DayCell dayDate isOutside today sel dis))) \<and>
   (new_DatePicker initialOptions now0 = Inr st0 \<and> i_scheduleMode initialOptions = Weekly \<longrightarrow>
      (\<exists>st1. updateOptions st0 (no_keys\<lparr>p_scheduleMode := Some NoSchedule\<rparr>) = Inr st1 \<and>
             scheduleMode (options st1) = NoSchedule \<and> \<not> daysGrid st1 \<and> render st1 now = []))"
proof -
  have 1: "daysGrid st \<and> scheduleMode (options st) = NoSchedule \<longrightarrow> length (render st now) = 42 \<and>
      (\<forall>i<42.
         (let dayDate = addDays (startOfWeek (startOfMonth (currentViewMonth st))
                                   (firstDayOfWeek (options st))) (int i);
              isOutside = (getMonth dayDate \<noteq> getMonth (currentViewMonth st))
          in if \<not> showOutsideDays (options st) \<and> isOutside
             then render st now ! i = Filler
             else \<exists>today sel dis. render st now ! i = DayCell dayDate isOutside today sel dis))"
    by (simp add: render_def render_day_def Let_def)
  have 2: "new_DatePicker initialOptions now0 = Inr st0 \<and> i_scheduleMode initialOptions = Weekly \<longrightarrow>
      (\<exists>st1. updateOptions st0 (no_keys\<lparr>p_scheduleMode := Some NoSchedule\<rparr>) = Inr st1 \<and>
             scheduleMode (options st1) = NoSchedule \<and> \<not> daysGrid st1 \<and> render st1 now = [])"
  proof
    assume a: "new_DatePicker initialOptions now0 = Inr st0 \<and> i_scheduleMode initialOptions = Weekly"
    then have "scheduleMode (options st0) = Weekly" "\<not> daysGrid st0"
      using new_DatePicker_built(1,2)[of initialOptions now0 st0] by simp_all
    then show "\<exists>st1. updateOptions st0 (no_keys\<lparr>p_scheduleMode := Some NoSchedule\<rparr>) = Inr st1 \<and>
               scheduleMode (options st1) = NoSchedule \<and> \<not> daysGrid st1 \<and> render st1 now = []"
      by (rule leaving_weekly_mode)
  qed
  show ?thesis by (rule conjI[OF 1 2])
qed

lemma getDay_march_1: "getDay (ymd 2024 2 1) = 5"
  by (simp add: getDay_def eval_time ymd_def leap_year_def)

lemma grid_start_march:
  "startOfWeek (startOfMonth (ymd 2024 2 1)) 0 = ymd 2024 1 25"
  "startOfWeek (startOfMonth (ymd 2024 2 1)) 1 = ymd 2024 1 26"
  by (simp_all add: startOfWeek_def startOfMonth_def ymd_def mkDate_valid days_in_month_def
      leap_year_def getDay_march_1[unfolded ymd_def] js_rem_def addDays_def setDateField_def
      norm_day.simps prev_month_def next_month_def Let_def)

lemma addDays_feb_25:
  "addDays (ymd 2024 1 25) 0 = ymd 2024 1 25"
  "addDays (ymd 2024 1 25) 5 = ymd 2024 2 1"
  "addDays (ymd 2024 1 25) 41 = ymd 2024 3 6"
  by (simp_all add: addDays_def setDateField_def ymd_def mkDate_valid days_in_month_def leap_year_def
      norm_day.simps prev_month_def next_month_def Let_def)

lemma new_weekly:
  "new_DatePicker (default_initial_options\<lparr>i_scheduleMode := Weekly\<rparr>) sample_now
     = Inr (blank_picker (default_options\<lparr>scheduleMode := Weekly\<rparr>))"
  by (simp add: sample_defs)

lemma weekly_then_none:
  "updateOptions (blank_picker (default_options\<lparr>scheduleMode := Weekly\<rparr>))
       (no_keys\<lparr>p_scheduleMode := Some NoSchedule\<rparr>)
     = Inr ((blank_picker default_options)\<lparr>daysGrid := False\<rparr>)"
  unfolding updateOptions_scheduleMode
  by (simp add: upd_scheduleMode_def set_options_def syncScheduleValue_def blank_picker_def
      default_options_def Let_def)

text \<open>
  March 2024 on the picker built from \<^verbatim>\<open>{}\<close>, with and without the days outside the
  month; and the picker built in the weekly schedule and then taken out of it, which is in
  calendar mode and shows no cell.
\<close>

theorem calendar_grid_42_cells_if_grid_exists_witness:
  "daysGrid (blank_picker (default_options\<lparr>showOutsideDays := False\<rparr>)) \<and>
   scheduleMode (options (blank_picker (default_options\<lparr>showOutsideDays := False\<rparr>))) = NoSchedule \<and>
   length (render (blank_picker (default_options\<lparr>showOutsideDays := False\<rparr>)) sample_now) = 42 \<and>
   render (blank_picker (default_options\<lparr>showOutsideDays := False\<rparr>)) sample_now ! 0 = Filler \<and>
   render (blank_picker (default_options\<lparr>showOutsideDays := False\<rparr>)) sample_now ! 5
     = DayCell (ymd 2024 2 1) False False False False \<and>
   render (blank_picker (default_options\<lparr>showOutsideDays := False\<rparr>)) sample_now ! 41 = Filler \<and>
   length (render (blank_picker default_options) sample_now) = 42 \<and>
   render (blank_picker default_options) sample_now ! 0
     = DayCell (ymd 2024 1 25) True False False False \<and>
   render (blank_picker default_options) sample_now ! 41
     = DayCell (ymd 2024 3 6) True False False False \<and>
   new_DatePicker (default_initial_options\<lparr>i_scheduleMode := Weekly\<rparr>) sample_now
     = Inr (blank_picker (default_options\<lparr>scheduleMode := Weekly\<rparr>)) \<and>
   i_scheduleMode (default_initial_options\<lparr>i_scheduleMode := Weekly\<rparr>) = Weekly \<and>
   updateOptions (blank_picker (default_options\<lparr>scheduleMode := Weekly\<rparr>))
       (no_keys\<lparr>p_scheduleMode := Some NoSchedule\<rparr>)
     = Inr ((blank_picker default_options)\<lparr>daysGrid := False\<rparr>) \<and>
   scheduleMode (options ((blank_picker default_options)\<lparr>daysGrid := False\<rparr>)) = NoSchedule \<and>
   render ((blank_picker default_options)\<lparr>daysGrid := False\<rparr>) sample_now = []"
proof -
  let ?p = "blank_picker (default_options\<lparr>showOutsideDays := False\<rparr>)"
  let ?q = "blank_picker default_options"
  have p: "daysGrid ?p \<and> scheduleMode (options ?p) = NoSchedule"
    by (simp add: blank_picker_def default_options_def)
  have q: "daysGrid ?q \<and> scheduleMode (options ?q) = NoSchedule"
    by (simp add: blank_picker_def default_options_def)
  have v: "currentViewMonth ?p = ymd 2024 2 1" "firstDayOfWeek (options ?p) = 0"
    "\<not> showOutsideDays (options ?p)"
    "currentViewMonth ?q = ymd 2024 2 1" "firstDayOfWeek (options ?q) = 0"
    "showOutsideDays (options ?q)"
    by (simp_all add: blank_picker_def default_options_def)
  have c5: "render ?p sample_now ! 5 = DayCell (ymd 2024 2 1) False False False False"
    by (simp add: render_def render_day_def p v grid_start_march addDays_feb_25 Let_def)
       (simp add: blank_picker_def default_options_def ymd_def sample_now_def
         areSameCalendarDate_def isDateOutOfBounds_def disabledByFn_def)
  have c0: "render ?q sample_now ! 0 = DayCell (ymd 2024 1 25) True False False False"
    by (simp add: render_def render_day_def q v grid_start_march addDays_feb_25 Let_def)
       (simp add: blank_picker_def default_options_def ymd_def sample_now_def
         areSameCalendarDate_def isDateOutOfBounds_def disabledByFn_def)
  have c41: "render ?q sample_now ! 41 = DayCell (ymd 2024 3 6) True False False False"
    by (simp add: render_def render_day_def q v grid_start_march addDays_feb_25 Let_def)
       (simp add: blank_picker_def default_options_def ymd_def sample_now_def
         areSameCalendarDate_def isDateOutOfBounds_def disabledByFn_def)
  have m: "getMonth (ymd 2024 1 25) \<noteq> getMonth (ymd 2024 2 1)"
    "getMonth (ymd 2024 3 6) \<noteq> getMonth (ymd 2024 2 1)"
    by (simp_all add: ymd_def)
  note tp = calendar_grid_42_cells_if_grid_exists[of ?p sample_now
      "default_initial_options\<lparr>i_scheduleMode := Weekly\<rparr>" sample_now
      "blank_picker (default_options\<lparr>scheduleMode := Weekly\<rparr>)"]
  note tq = calendar_grid_42_cells_if_grid_exists[of ?q sample_now
      "default_initial_options\<lparr>i_scheduleMode := Weekly\<rparr>" sample_now
      "blank_picker (default_options\<lparr>scheduleMode := Weekly\<rparr>)"]
  have gp: "length (render ?p sample_now) = 42 \<and>
      (\<forall>i<42.
         (let dayDate = addDays (startOfWeek (startOfMonth (currentViewMonth ?p))
                                   (firstDayOfWeek (options ?p))) (int i);
              isOutside = (getMonth dayDate \<noteq> getMonth (currentViewMonth ?p))
          in if \<not> showOutsideDays (options ?p) \<and> isOutside
             then render ?p sample_now ! i = Filler
             else \<exists>today sel dis. render ?p sample_now ! i = DayCell dayDate isOutside today sel dis))"
    using tp p by blast
  have gq: "length (render ?q sample_now) = 42"
    using tq q by blast
  have f0: "render ?p sample_now ! 0 = Filler"
    using gp[THEN conjunct2, rule_format, of 0]
    by (simp add: v grid_start_march addDays_feb_25 m Let_def)
  have f41: "render ?p sample_now ! 41 = Filler"
    using gp[THEN conjunct2, rule_format, of 41]
    by (simp add: v grid_start_march addDays_feb_25 m Let_def)
  have w: "\<exists>st1. updateOptions (blank_picker (default_options\<lparr>scheduleMode := Weekly\<rparr>))
                    (no_keys\<lparr>p_scheduleMode := Some NoSchedule\<rparr>) = Inr st1 \<and>
             scheduleMode (options st1) = NoSchedule \<and> \<not> daysGrid st1 \<and> render st1 sample_now = []"
    using tp new_weekly by simp
  have r: "scheduleMode (options ((blank_picker default_options)\<lparr>daysGrid := False\<rparr>)) = NoSchedule"
    "render ((blank_picker default_options)\<lparr>daysGrid := False\<rparr>) sample_now = []"
    using w unfolding weekly_then_none by simp_all
  show ?thesis
    using p gp gq c5 c0 c41 f0 f41 new_weekly weekly_then_none r by simp
qed

section \<open>Time selection and confirm mode\<close>

lemma updateOptions_enableTime:
  "updateOptions st (no_keys\<lparr>p_enableTime := Some v\<rparr>) = upd_enableTime v st"
  by (simp add: updateOptions_def on_key_def bind_fault_def no_keys_def split: sum.split)

lemma updateOptions_enableTime_confirm:
  "updateOptions st (no_keys\<lparr>p_enableTime := Some v, p_confirm := Some w\<rparr>)
     = bind_fault (upd_enableTime v st) (upd_confirm w)"
  by (simp add: updateOptions_def on_key_def bind_fault_def no_keys_def split: sum.split)

lemma updateOptions_confirm:
  "updateOptions st (no_keys\<lparr>p_confirm := Some w\<rparr>) = upd_confirm w st"
  by (simp add: updateOptions_def on_key_def bind_fault_def no_keys_def)

lemma upd_enableTime_throws:
  assumes "scheduleMode (options st) = NoSchedule" "\<not> enableTime (options st)"
    "\<not> timeRow st" "\<not> timeRangeRow st"
  shows "\<exists>st'. upd_enableTime True st = Inl (NotFoundError, st') \<and>
           options st' = (options st)\<lparr>enableTime := True, confirm := True\<rparr>"
  using assms by (simp add: upd_enableTime_def set_options_def Let_def)

text \<open>
  C10.  A picker that the constructor builds with time selection on has confirm mode on.
  The \<^verbatim>\<open>enableTime\<close> key of \<^verbatim>\<open>updateOptions\<close>, when it switches time selection on, switches
  confirm mode on as well, and then throws \<^verbatim>\<open>NotFoundError\<close> from \<^verbatim>\<open>insertBefore\<close>, so that
  a \<^verbatim>\<open>confirm\<close> key in the same argument is not read.  But the \<^verbatim>\<open>confirm\<close> key of
  \<^verbatim>\<open>updateOptions\<close> does not look at \<^verbatim>\<open>enableTime\<close>: on a picker with time selection and
  confirm mode on, \<^verbatim>\<open>updateOptions({ confirm: false })\<close> returns with time selection on and
  confirm mode off.
\<close>

theorem time_enabled_without_confirm:
  "(new_DatePicker initialOptions now = Inr st0 \<and> enableTime (options st0) \<longrightarrow>
      confirm (options st0)) \<and>
   (scheduleMode (options st) = NoSchedule \<and> \<not> enableTime (options st) \<and>
    \<not> timeRow st \<and> \<not> timeRangeRow st \<longrightarrow>
      (\<exists>st'. updateOptions st (no_keys\<lparr>p_enableTime := Some True\<rparr>) = Inl (NotFoundError, st') \<and>
             updateOptions st (no_keys\<lparr>p_enableTime := Some True, p_confirm := Some False\<rparr>)
               = Inl (NotFoundError, st') \<and>
             options st' = (options st)\<lparr>enableTime := True, confirm := True\<rparr>)) \<and>
   (enableTime (options st2) \<and> confirm (options st2) \<longrightarrow>
      (\<exists>st'. updateOptions st2 (no_keys\<lparr>p_confirm := Some False\<rparr>) = Inr st' \<and>
             options st' = (options st2)\<lparr>confirm := False\<rparr> \<and>
             enableTime (options st') \<and> \<not> confirm (options st')))"
proof -
  have 1: "new_DatePicker initialOptions now = Inr st0 \<and> enableTime (options st0) \<longrightarrow>
      confirm (options st0)"
    using new_DatePicker_built(3)[of initialOptions now st0] by simp
  have 2: "scheduleMode (options st) = NoSchedule \<and> \<not> enableTime (options st) \<and>
    \<not> timeRow st \<and> \<not> timeRangeRow st \<longrightarrow>
      (\<exists>st'. updateOptions st (no_keys\<lparr>p_enableTime := Some True\<rparr>) = Inl (NotFoundError, st') \<and>
             updateOptions st (no_keys\<lparr>p_enableTime := Some True, p_confirm := Some False\<rparr>)
               = Inl (NotFoundError, st') \<and>
             options st' = (options st)\<lparr>enableTime := True, confirm := True\<rparr>)"
  proof
  assume "scheduleMode (options st) = NoSchedule \<and> \<not> enableTime (options st) \<and>
    \<not> timeRow st \<and> \<not> timeRangeRow st"
  then obtain st' where "upd_enableTime True st = Inl (NotFoundError, st')"
    "options st' = (options st)\<lparr>enableTime := True, confirm := True\<rparr>"
    using upd_enableTime_throws[of st] by blast
  then show "\<exists>st'. updateOptions st (no_keys\<lparr>p_enableTime := Some True\<rparr>) = Inl (NotFoundError, st') \<and>
             updateOptions st (no_keys\<lparr>p_enableTime := Some True, p_confirm := Some False\<rparr>)
               = Inl (NotFoundError, st') \<and>
             options st' = (options st)\<lparr>enableTime := True, confirm := True\<rparr>"
    by (simp add: updateOptions_enableTime updateOptions_enableTime_confirm bind_fault_def)
  qed
  have 3: "enableTime (options st2) \<and> confirm (options st2) \<longrightarrow>
      (\<exists>st'. updateOptions st2 (no_keys\<lparr>p_confirm := Some False\<rparr>) = Inr st' \<and>
             options st' = (options st2)\<lparr>confirm := False\<rparr> \<and>
             enableTime (options st') \<and> \<not> confirm (options st'))"
    by (simp add: updateOptions_confirm upd_confirm_def set_options_def)
  show ?thesis by (rule conjI[OF 1 conjI[OF 2 3]])
qed

text \<open>
  The picker built from \<^verbatim>\<open>{}\<close>, on which \<^verbatim>\<open>updateOptions({ enableTime: true })\<close> throws
  with both options on; and the picker built from \<^verbatim>\<open>{ enableTime: true }\<close>, which has
  confirm mode on and loses it to \<^verbatim>\<open>updateOptions({ confirm: false })\<close>.
\<close>

theorem time_enabled_without_confirm_witness:
  "new_DatePicker (default_initial_options\<lparr>i_enableTime := True\<rparr>) sample_now
     = Inr (blank_picker (default_options\<lparr>enableTime := True, confirm := True\<rparr>)) \<and>
   enableTime (options (blank_picker (default_options\<lparr>enableTime := True, confirm := True\<rparr>))) \<and>
   confirm (options (blank_picker (default_options\<lparr>enableTime := True, confirm := True\<rparr>))) \<and>
   scheduleMode (options (blank_picker default_options)) = NoSchedule \<and>
   \<not> enableTime (options (blank_picker default_options)) \<and>
   \<not> timeRow (blank_picker default_options) \<and> \<not> timeRangeRow (blank_picker default_options) \<and>
   updateOptions (blank_picker default_options)
       (no_keys\<lparr>p_enableTime := Some True, p_confirm := Some False\<rparr>)
     = Inl (NotFoundError, blank_picker (default_options\<lparr>enableTime := True, confirm := True\<rparr>)) \<and>
   updateOptions (blank_picker (default_options\<lparr>enableTime := True, confirm := True\<rparr>))
       (no_keys\<lparr>p_confirm := Some False\<rparr>)
     = Inr ((blank_picker (default_options\<lparr>enableTime := True, confirm := False\<rparr>))) \<and>
   enableTime (options (blank_picker (default_options\<lparr>enableTime := True, confirm := False\<rparr>))) \<and>
   \<not> confirm (options (blank_picker (default_options\<lparr>enableTime := True, confirm := False\<rparr>)))"
proof -
  let ?t = "blank_picker (default_options\<lparr>enableTime := True, confirm := True\<rparr>)"
  have n: "new_DatePicker (default_initial_options\<lparr>i_enableTime := True\<rparr>) sample_now = Inr ?t"
    by (simp add: sample_defs)
  have b: "scheduleMode (options (blank_picker default_options)) = NoSchedule \<and>
      \<not> enableTime (options (blank_picker default_options)) \<and>
      \<not> timeRow (blank_picker default_options) \<and> \<not> timeRangeRow (blank_picker default_options)"
    by (simp add: blank_picker_def default_options_def)
  have e: "enableTime (options ?t) \<and> confirm (options ?t)"
    by (simp add: blank_picker_def default_options_def)
  note t = time_enabled_without_confirm[of "default_initial_options\<lparr>i_enableTime := True\<rparr>"
      sample_now ?t "blank_picker default_options" ?t]
  have c: "confirm (options ?t)" using t n e by blast
  have 1: "updateOptions (blank_picker default_options)
       (no_keys\<lparr>p_enableTime := Some True, p_confirm := Some False\<rparr>)
     = Inl (NotFoundError, ?t)"
    by (simp add: updateOptions_enableTime_confirm upd_enableTime_def bind_fault_def
        set_options_def blank_picker_def default_options_def Let_def)
  have 2: "updateOptions ?t (no_keys\<lparr>p_confirm := Some False\<rparr>)
     = Inr (blank_picker (default_options\<lparr>enableTime := True, confirm := False\<rparr>))"
    by (simp add: updateOptions_confirm upd_confirm_def set_options_def blank_picker_def
        default_options_def)
  have 3: "enableTime (options (blank_picker (default_options\<lparr>enableTime := True, confirm := False\<rparr>))) \<and>
      \<not> confirm (options (blank_picker (default_options\<lparr>enableTime := True, confirm := False\<rparr>)))"
    using t e unfolding 2 by (simp add: blank_picker_def default_options_def)
  show ?thesis using n b e c 1 2 3 by simp
qed

section \<open>Decimal numerals\<close>













section \<open>Replacing tokens in a pattern\<close>







section \<open>What formatDate makes of a pattern\<close>


















section \<open>What parseDate makes of a pattern\<close>















section \<open>Reading the formatted text back\<close>



















end
